theory Spec2Isabelle
  imports Complex_Main
begin

section \<open>JavaScript values\<close>

text \<open>
  The task tool is TypeScript. A JS string is modelled as a \<^typ>\<open>string\<close> holding its
  UTF-8 encoding: one \<^typ>\<open>char\<close> per character of ASCII text, two to four for any other
  character. A JS
  number is a \<^typ>\<open>real\<close> where it is read from JSON (token counts, cost: IEEE rounding
  is not modelled), an \<^typ>\<open>int\<close> where it is an exit code or a configured limit, and a
  \<^typ>\<open>nat\<close> where it is a length or an index. A value of type \<open>unknown\<close> (the raw tool
  parameters, a parsed line of the event stream) is a \<open>json\<close> value; a property that is
  \<open>undefined\<close> is a key that is missing.
\<close>

datatype json =
    JNull
  | JBool bool
  | JNum real
  | JStr string
  | JArr "json list"
  | JObj "(string \<times> json) list"

text \<open>\<open>value.key\<close> for the keys the code reads: only an object literal carries them.\<close>

fun getProp :: "json \<Rightarrow> string \<Rightarrow> json option" where
  "getProp (JObj kvs) k = map_of kvs k"
| "getProp _ k = None"

text \<open>\<open>isRecord\<close> (task-params.ts): \<open>value !== null && typeof value === "object"\<close>; an
  array is an object too.\<close>

fun isRecord :: "json \<Rightarrow> bool" where
  "isRecord (JObj kvs) = True"
| "isRecord (JArr xs) = True"
| "isRecord _ = False"

subsection \<open>Strings\<close>

text \<open>
  \<open>String.prototype.trim\<close> removes, at both ends, every white space and line terminator
  of ECMAScript: tab, line feed, vertical tab, form feed, carriage return, space, the
  no-break space U+00A0, the byte order mark U+FEFF, the line and paragraph separators
  U+2028 and U+2029, and the other space separators (U+1680, U+2000 to U+200A, U+202F,
  U+205F, U+3000). Here they are in UTF-8.
\<close>

definition whiteSpaceSeqs :: "string list" where
  "whiteSpaceSeqs =
     [[CHR 0x09], [CHR 0x0A], [CHR 0x0B], [CHR 0x0C], [CHR 0x0D], [CHR 0x20],
      [CHR 0xC2, CHR 0xA0], [CHR 0xE1, CHR 0x9A, CHR 0x80],
      [CHR 0xE2, CHR 0x80, CHR 0x80], [CHR 0xE2, CHR 0x80, CHR 0x81],
      [CHR 0xE2, CHR 0x80, CHR 0x82], [CHR 0xE2, CHR 0x80, CHR 0x83],
      [CHR 0xE2, CHR 0x80, CHR 0x84], [CHR 0xE2, CHR 0x80, CHR 0x85],
      [CHR 0xE2, CHR 0x80, CHR 0x86], [CHR 0xE2, CHR 0x80, CHR 0x87],
      [CHR 0xE2, CHR 0x80, CHR 0x88], [CHR 0xE2, CHR 0x80, CHR 0x89],
      [CHR 0xE2, CHR 0x80, CHR 0x8A], [CHR 0xE2, CHR 0x80, CHR 0xA8],
      [CHR 0xE2, CHR 0x80, CHR 0xA9], [CHR 0xE2, CHR 0x80, CHR 0xAF],
      [CHR 0xE2, CHR 0x81, CHR 0x9F], [CHR 0xE3, CHR 0x80, CHR 0x80],
      [CHR 0xEF, CHR 0xBB, CHR 0xBF]]"

text \<open>As long as the text starts with one of \<open>seqs\<close>, take it off.\<close>

function stripSeqs :: "string list \<Rightarrow> string \<Rightarrow> string" where
  "stripSeqs seqs s =
     (case find (\<lambda>w. w \<noteq> [] \<and> take (length w) s = w) seqs of
        Some w \<Rightarrow> stripSeqs seqs (drop (length w) s)
      | None \<Rightarrow> s)"
  by pat_completeness auto
termination
proof (relation "measure (\<lambda>(seqs, s). length s)")
  fix seqs :: "string list" and s w :: string
  assume "find (\<lambda>w. w \<noteq> [] \<and> take (length w) s = w) seqs = Some w"
  then have "w \<noteq> []" and "take (length w) s = w" by (auto simp: find_Some_iff)
  then have "s \<noteq> []" by auto
  with \<open>w \<noteq> []\<close> show "((seqs, drop (length w) s), seqs, s) \<in> measure (\<lambda>(seqs, s). length s)"
    by simp
qed simp

declare stripSeqs.simps [simp del]

definition trim :: "string \<Rightarrow> string" where
  "trim s = rev (stripSeqs (map rev whiteSpaceSeqs) (rev (stripSeqs whiteSpaceSeqs s)))"

text \<open>\<open>s.indexOf(c)\<close>: the first position of \<open>c\<close>, or -1.\<close>

definition indexOf :: "char \<Rightarrow> string \<Rightarrow> int" where
  "indexOf c s = (if c \<in> set s then int (length (takeWhile (\<lambda>x. x \<noteq> c) s)) else - 1)"

text \<open>\<open>xs.join(sep)\<close>.\<close>

fun joinWith :: "string \<Rightarrow> string list \<Rightarrow> string" where
  "joinWith sep [] = []"
| "joinWith sep [x] = x"
| "joinWith sep (x # y # ys) = x @ sep @ joinWith sep (y # ys)"

text \<open>A length or a limit inside a template string: decimal digits.\<close>

function showNat :: "nat \<Rightarrow> string" where
  "showNat n = (if n < 10 then [''0123456789'' ! n]
     else showNat (n div 10) @ [''0123456789'' ! (n mod 10)])"
  by pat_completeness auto
termination
  by (relation "measure id") auto

declare showNat.simps [simp del]

definition showInt :: "int \<Rightarrow> string" where
  "showInt i = (if i < 0 then CHR ''-'' # showNat (nat (- i)) else showNat (nat i))"

section \<open>Parameter normalisation (task-params.ts)\<close>

definition MAX_PARALLEL_TASKS :: int where
  "MAX_PARALLEL_TASKS = 8"

definition VALID_THINKING_LEVELS :: "string list" where
  "VALID_THINKING_LEVELS = [''off'', ''minimal'', ''low'', ''medium'', ''high'', ''xhigh'']"

definition VALID_THINKING_OPTIONS :: "string list" where
  "VALID_THINKING_OPTIONS = ''inherit'' # VALID_THINKING_LEVELS"

record TaskWorkItem =
  i_prompt :: string
  i_skill :: "string option"
  i_model :: "string option"
  i_thinking :: "string option"
  i_fork :: bool

record ProviderModel =
  pm_provider :: string
  pm_modelId :: string
  pm_label :: string

record CtxModel =
  cm_provider :: string
  cm_id :: string

datatype mode = Single | Parallel | Chain

record NormalizedParams =
  n_mode :: mode
  n_model :: "string option"
  n_thinking :: string
  n_items :: "TaskWorkItem list"

text \<open>A result \<open>{ ok: true, ... } | { ok: false, error }\<close> is a sum: \<open>Inl\<close> carries the
  error message, \<open>Inr\<close> the value.\<close>

definition isTaskThinking :: "string \<Rightarrow> bool" where
  "isTaskThinking v = (v \<in> set VALID_THINKING_OPTIONS)"

definition parseProviderModel :: "string \<Rightarrow> string + ProviderModel" where
  \<open>parseProviderModel v =
     (let trimmed = trim v; slashIndex = indexOf CHR ''/'' trimmed in
      if slashIndex \<le> 0 \<or> slashIndex = int (length trimmed) - 1
      then Inl (''Invalid model format: "'' @ v @ ''". Expected provider/modelId.'')
      else let provider = take (nat slashIndex) trimmed;
               modelId = drop (nat slashIndex + 1) trimmed
           in Inr \<lparr>pm_provider = provider, pm_modelId = modelId,
                pm_label = provider @ ''/'' @ modelId\<rparr>)\<close>

text \<open>\<open>if (modelOverride)\<close>: a string is truthy when it is not empty.\<close>

definition resolveModel :: "string option \<Rightarrow> CtxModel option \<Rightarrow> string + ProviderModel option" where
  "resolveModel modelOverride ctxModel =
     (if modelOverride \<noteq> None \<and> modelOverride \<noteq> Some []
      then (case parseProviderModel (the modelOverride) of
              Inl e \<Rightarrow> Inl e
            | Inr m \<Rightarrow> Inr (Some m))
      else (case ctxModel of
              None \<Rightarrow> Inr None
            | Some c \<Rightarrow> Inr (Some \<lparr>pm_provider = cm_provider c, pm_modelId = cm_id c,
                  pm_label = cm_provider c @ ''/'' @ cm_id c\<rparr>)))"

fun normalizeModelInput :: "json option \<Rightarrow> string \<Rightarrow> string + string option" where
  "normalizeModelInput None label = Inr None"
| "normalizeModelInput (Some (JStr v)) label =
     (let trimmed = trim v in Inr (if trimmed \<noteq> [] then Some trimmed else None))"
| "normalizeModelInput (Some _) label =
     Inl (''Invalid parameters: '' @ label @ '' must be a string.'')"

fun normalizeThinkingInput :: "json option \<Rightarrow> string \<Rightarrow> string + string option" where
  "normalizeThinkingInput None label = Inr None"
| "normalizeThinkingInput (Some (JStr v)) label =
     (let trimmed = trim v in
      if trimmed = [] then Inr None
      else if \<not> isTaskThinking trimmed
      then Inl (''Invalid parameters: '' @ label @ '' must be one of ''
             @ joinWith '', '' VALID_THINKING_OPTIONS @ ''.'')
      else Inr (Some trimmed))"
| "normalizeThinkingInput (Some _) label =
     Inl (''Invalid parameters: '' @ label @ '' must be a string.'')"

fun normalizeForkInput :: "json option \<Rightarrow> string \<Rightarrow> string + bool" where
  "normalizeForkInput None label = Inr True"
| "normalizeForkInput (Some (JBool b)) label = Inr b"
| "normalizeForkInput (Some _) label =
     Inl (''Invalid parameters: '' @ label @ '' must be a boolean.'')"

text \<open>One turn of the loop of \<open>parseTaskItems\<close>: the entry at \<open>index\<close>.\<close>

definition parseTaskItem :: "nat \<Rightarrow> json \<Rightarrow> string + TaskWorkItem" where
  \<open>parseTaskItem index taskEntry =
     (if \<not> isRecord taskEntry then Inl ''Invalid task item: expected an object.''
      else
        let prompt = (case getProp taskEntry ''prompt'' of Some (JStr p) \<Rightarrow> trim p | _ \<Rightarrow> []);
            skill = (case getProp taskEntry ''skill'' of Some (JStr k) \<Rightarrow> Some (trim k) | _ \<Rightarrow> None)
        in
        if prompt = [] \<and> (skill = None \<or> skill = Some [])
        then Inl ''Invalid task item: provide a non-empty "prompt" or "skill".''
        else
          (case normalizeModelInput (getProp taskEntry ''model'')
                  (''"tasks['' @ showNat index @ ''].model"'') of
             Inl e \<Rightarrow> Inl e
           | Inr modelValue \<Rightarrow>
          (case normalizeThinkingInput (getProp taskEntry ''thinking'')
                  (''"tasks['' @ showNat index @ ''].thinking"'') of
             Inl e \<Rightarrow> Inl e
           | Inr thinkingValue \<Rightarrow>
          (case normalizeForkInput (getProp taskEntry ''fork'')
                  (''"tasks['' @ showNat index @ ''].fork"'') of
             Inl e \<Rightarrow> Inl e
           | Inr forkValue \<Rightarrow>
               Inr \<lparr>i_prompt = prompt, i_skill = skill, i_model = modelValue,
                    i_thinking = thinkingValue, i_fork = forkValue\<rparr>))))\<close>

text \<open>The loop itself: the first entry that fails returns its error; nothing is kept
  of the entries before it.\<close>

fun parseTaskItemsFrom :: "nat \<Rightarrow> json list \<Rightarrow> string + TaskWorkItem list" where
  "parseTaskItemsFrom index [] = Inr []"
| "parseTaskItemsFrom index (taskEntry # rest) =
     (case parseTaskItem index taskEntry of
        Inl e \<Rightarrow> Inl e
      | Inr item \<Rightarrow>
         (case parseTaskItemsFrom (Suc index) rest of
            Inl e \<Rightarrow> Inl e
          | Inr items \<Rightarrow> Inr (item # items)))"

definition parseTaskItems :: "json list \<Rightarrow> string + TaskWorkItem list" where
  "parseTaskItems rawTasks = parseTaskItemsFrom 0 rawTasks"

definition normalizeTaskParams :: "json \<Rightarrow> int \<Rightarrow> string + NormalizedParams" where
  \<open>normalizeTaskParams params maxParallelTasks =
     (if \<not> isRecord params then Inl ''Invalid parameters: expected an object.''
      else case getProp params ''type'' of
        Some (JStr mode) \<Rightarrow>
          (case normalizeModelInput (getProp params ''model'') ''"model"'' of
             Inl e \<Rightarrow> Inl e
           | Inr model \<Rightarrow>
          (case normalizeThinkingInput (getProp params ''thinking'') ''"thinking"'' of
             Inl e \<Rightarrow> Inl e
           | Inr thinkingValue \<Rightarrow>
             let thinking = (case thinkingValue of Some t \<Rightarrow> t | None \<Rightarrow> ''inherit'');
                 rawTasks = (case getProp params ''tasks'' of Some (JArr ts) \<Rightarrow> ts | _ \<Rightarrow> [])
             in
             if mode = ''single'' then
               (if length rawTasks \<noteq> 1
                then Inl ''Invalid parameters: type="single" requires exactly one task in "tasks".''
                else case parseTaskItems rawTasks of
                  Inl e \<Rightarrow> Inl e
                | Inr items \<Rightarrow> Inr \<lparr>n_mode = Single, n_model = model, n_thinking = thinking,
                      n_items = [items ! 0]\<rparr>)
             else if mode = ''parallel'' then
               (if length rawTasks = 0
                then Inl ''Invalid parameters: type="parallel" requires a non-empty "tasks" array.''
                else if int (length rawTasks) > maxParallelTasks
                then Inl (''Too many parallel tasks ('' @ showNat (length rawTasks) @ ''). Max is ''
                       @ showInt maxParallelTasks @ ''.'')
                else case parseTaskItems rawTasks of
                  Inl e \<Rightarrow> Inl e
                | Inr items \<Rightarrow> Inr \<lparr>n_mode = Parallel, n_model = model, n_thinking = thinking,
                      n_items = items\<rparr>)
             else if mode = ''chain'' then
               (if length rawTasks = 0
                then Inl ''Invalid parameters: type="chain" requires a non-empty "tasks" array.''
                else if int (length rawTasks) > maxParallelTasks
                then Inl (''Too many chain tasks ('' @ showNat (length rawTasks) @ ''). Max is ''
                       @ showInt maxParallelTasks @ ''.'')
                else case parseTaskItems rawTasks of
                  Inl e \<Rightarrow> Inl e
                | Inr items \<Rightarrow> Inr \<lparr>n_mode = Chain, n_model = model, n_thinking = thinking,
                      n_items = items\<rparr>)
             else Inl ''Invalid parameters: "type" must be "single", "chain", or "parallel".''))
      | _ \<Rightarrow> Inl ''Invalid parameters: "type" must be a string.'')\<close>

section \<open>Configuration resolution (task-config.ts)\<close>

definition BUILT_IN_TOOLS :: "string list" where
  "BUILT_IN_TOOLS = [''read'', ''bash'', ''edit'', ''write'', ''grep'', ''find'', ''ls'']"

definition isBuiltInToolName :: "string \<Rightarrow> bool" where
  "isBuiltInToolName toolName = (toolName \<in> set BUILT_IN_TOOLS)"

definition getBuiltInToolsFromActiveTools :: "string list \<Rightarrow> string list" where
  "getBuiltInToolsFromActiveTools activeTools = filter isBuiltInToolName activeTools"

definition resolveThinkingLevel :: "string \<Rightarrow> string \<Rightarrow> string" where
  "resolveThinkingLevel thinking inherited = (if thinking = ''inherit'' then inherited else thinking)"

definition buildSubprocessArgs :: "ProviderModel option \<Rightarrow> string \<Rightarrow> string list \<Rightarrow> string list" where
  "buildSubprocessArgs model thinkingLevel builtInTools =
     [''--mode'', ''json'', ''-p'', ''--no-session'', ''--no-extensions'']
     @ (case model of
          None \<Rightarrow> []
        | Some m \<Rightarrow> [''--provider'', pm_provider m, ''--model'', pm_modelId m])
     @ [''--thinking'', thinkingLevel]
     @ (if length builtInTools = 0 then [''--no-tools'']
        else [''--tools'', joinWith '','' builtInTools])"

record TaskConfig =
  c_thinkingLevel :: string
  c_subprocessArgs :: "string list"
  c_modelLabel :: "string option"

text \<open>\<open>a ?? b\<close>: \<open>b\<close> only when \<open>a\<close> is undefined.\<close>

definition orElse :: "'a option \<Rightarrow> 'a option \<Rightarrow> 'a option" where
  "orElse a b = (case a of Some x \<Rightarrow> Some x | None \<Rightarrow> b)"

definition resolveTaskConfig ::
  "TaskWorkItem \<Rightarrow> string option \<Rightarrow> string \<Rightarrow> string \<Rightarrow> CtxModel option \<Rightarrow> string list
     \<Rightarrow> string + TaskConfig" where
  "resolveTaskConfig item defaultModel defaultThinking inheritedThinking ctxModel builtInTools =
     (let modelOverride = orElse (i_model item) defaultModel in
      case resolveModel modelOverride ctxModel of
        Inl e \<Rightarrow> Inl e
      | Inr model \<Rightarrow>
          let thinking = resolveThinkingLevel
                (case i_thinking item of Some t \<Rightarrow> t | None \<Rightarrow> defaultThinking) inheritedThinking;
              subprocessArgs = buildSubprocessArgs model thinking builtInTools
          in Inr \<lparr>c_thinkingLevel = thinking, c_subprocessArgs = subprocessArgs,
                c_modelLabel = map_option pm_label model\<rparr>)"

section \<open>Usage statistics and task results (task-tool.ts)\<close>

record UsageStats =
  u_input :: real
  u_output :: real
  u_cacheRead :: real
  u_cacheWrite :: real
  u_cost :: real
  u_contextTokens :: real
  u_turns :: real

definition zeroUsage :: UsageStats where
  "zeroUsage = \<lparr>u_input = 0, u_output = 0, u_cacheRead = 0, u_cacheWrite = 0, u_cost = 0,
     u_contextTokens = 0, u_turns = 0\<rparr>"

record SingleResult =
  r_prompt :: string
  r_skill :: "string option"
  r_exitCode :: int
  r_messages :: "json list"
  r_stderr :: string
  r_usage :: UsageStats
  r_model :: "string option"
  r_thinking :: "string option"
  r_fork :: "bool option"
  r_stopReason :: "string option"
  r_errorMessage :: "string option"
  r_index :: "nat option"

text \<open>The body of the loop of \<open>aggregateUsage\<close>: six \<open>+=\<close>, none for \<open>contextTokens\<close>.\<close>

definition addUsage :: "SingleResult \<Rightarrow> UsageStats \<Rightarrow> UsageStats" where
  "addUsage r tot = tot
     \<lparr>u_input := u_input tot + u_input (r_usage r),
      u_output := u_output tot + u_output (r_usage r),
      u_cacheRead := u_cacheRead tot + u_cacheRead (r_usage r),
      u_cacheWrite := u_cacheWrite tot + u_cacheWrite (r_usage r),
      u_cost := u_cost tot + u_cost (r_usage r),
      u_turns := u_turns tot + u_turns (r_usage r)\<rparr>"

definition aggregateUsage :: "SingleResult list \<Rightarrow> UsageStats" where
  "aggregateUsage results = fold addUsage results zeroUsage"

text \<open>What a field-wise sum over every field of \<open>UsageStats\<close> would be.\<close>

definition fieldwiseSum :: "UsageStats list \<Rightarrow> UsageStats" where
  "fieldwiseSum us =
     \<lparr>u_input = sum_list (map u_input us), u_output = sum_list (map u_output us),
      u_cacheRead = sum_list (map u_cacheRead us), u_cacheWrite = sum_list (map u_cacheWrite us),
      u_cost = sum_list (map u_cost us), u_contextTokens = sum_list (map u_contextTokens us),
      u_turns = sum_list (map u_turns us)\<rparr>"

definition exampleResult :: SingleResult where
  "exampleResult =
     \<lparr>r_prompt = ''p'', r_skill = None, r_exitCode = 0, r_messages = [], r_stderr = [],
      r_usage = \<lparr>u_input = 10, u_output = 4, u_cacheRead = 0, u_cacheWrite = 0, u_cost = 1,
        u_contextTokens = 14, u_turns = 1\<rparr>,
      r_model = None, r_thinking = None, r_fork = None, r_stopReason = None,
      r_errorMessage = None, r_index = None\<rparr>"

subsection \<open>Chain prompts\<close>

text \<open>
  \<open>prompt.replace(/\{previous\}/g, previousOutput)\<close>. The second argument of
  \<open>String.prototype.replace\<close> is a replacement template: for each match the runtime
  expands it (GetSubstitution of ECMA-262), reading \<open>$$\<close> as a dollar sign, \<open>$&\<close> as the
  matched text, \<open>$`\<close> as the text before the match and \<open>$'\<close> as the text after it. The
  pattern has no capture group, so \<open>$1\<close>, \<open>$<name>\<close> and any other \<open>$\<close> stay as written.
\<close>

fun getSubstitution :: "string \<Rightarrow> string \<Rightarrow> string \<Rightarrow> string \<Rightarrow> string" where
  "getSubstitution matched before after [] = []"
| "getSubstitution matched before after [c] = [c]"
| "getSubstitution matched before after (c # d # rest) =
     (if c = CHR 0x24 \<and> d = CHR 0x24 then CHR 0x24 # getSubstitution matched before after rest
      else if c = CHR 0x24 \<and> d = CHR ''&'' then matched @ getSubstitution matched before after rest
      else if c = CHR 0x24 \<and> d = CHR 0x60 then before @ getSubstitution matched before after rest
      else if c = CHR 0x24 \<and> d = CHR 0x27 then after @ getSubstitution matched before after rest
      else c # getSubstitution matched before after (d # rest))"

text \<open>The matches of the global pattern, left to right and not overlapping; \<open>before\<close> is the
  part of the prompt already scanned.\<close>

function replacePrevious :: "string \<Rightarrow> string \<Rightarrow> string \<Rightarrow> string" where
  "replacePrevious replacement before rest =
     (if take 10 rest = ''{previous}''
      then getSubstitution ''{previous}'' before (drop 10 rest) replacement
             @ replacePrevious replacement (before @ ''{previous}'') (drop 10 rest)
      else case rest of
             [] \<Rightarrow> []
           | c # cs \<Rightarrow> c # replacePrevious replacement (before @ [c]) cs)"
  by pat_completeness auto
termination
proof (relation "measure (\<lambda>(replacement, before, rest). length rest)")
  fix replacement before rest :: string
  assume "take 10 rest = ''{previous}''"
  then have "rest \<noteq> []" by auto
  then show "((replacement, before @ ''{previous}'', drop 10 rest), replacement, before, rest)
      \<in> measure (\<lambda>(replacement, before, rest). length rest)"
    by simp
qed simp_all

declare replacePrevious.simps [simp del]

definition buildChainPrompt :: "string \<Rightarrow> string \<Rightarrow> string" where
  "buildChainPrompt prompt previousOutput = replacePrevious previousOutput [] prompt"

text \<open>The ellipsis U+2026, as its three UTF-8 bytes.\<close>

definition ellipsis :: string where
  "ellipsis = [CHR 0xE2, CHR 0x80, CHR 0xA6]"

definition buildPendingPrompt :: "string \<Rightarrow> string" where
  "buildPendingPrompt prompt = buildChainPrompt prompt ellipsis"

subsection \<open>Task state\<close>

text \<open>The exit code doubles as the state of a task: -2 pending, -1 running, otherwise
  the exit code of the process.\<close>

definition isTaskRunning :: "SingleResult \<Rightarrow> bool" where
  "isTaskRunning result = (r_exitCode result = - 1)"

definition isTaskPending :: "SingleResult \<Rightarrow> bool" where
  "isTaskPending result = (r_exitCode result = - 2)"

definition isTaskError :: "SingleResult \<Rightarrow> bool" where
  "isTaskError result =
     (r_exitCode result > 0 \<or> r_stopReason result = Some ''error''
      \<or> r_stopReason result = Some ''aborted'')"

datatype TaskStatus = Running | Done | Failed | Pending

definition getTaskStatus :: "SingleResult \<Rightarrow> TaskStatus" where
  "getTaskStatus result =
     (if isTaskPending result then Pending
      else if isTaskRunning result then Running
      else if isTaskError result then Failed else Done)"

text \<open>\<open>if (s)\<close> for an optional string: defined and not empty.\<close>

fun truthy :: "string option \<Rightarrow> bool" where
  "truthy None = False"
| "truthy (Some s) = (s \<noteq> [])"

subsection \<open>Messages\<close>

text \<open>
  A message of the event stream is the JSON value that was parsed. The code reads its
  fields through the declared \<open>Message\<close> type of the agent library without checking them;
  where it stores a field in the result, the model reads a field of another JSON type
  than the declared one as absent (a count that is not a number as 0). The reads that
  throw in the runtime are kept: \<open>message.usage.input\<close> on a message without usage, the
  iteration over a content that is not iterable, and a property of \<open>null\<close>.
\<close>

datatype js_error = TypeError | NeverSettles

definition stringField :: "json \<Rightarrow> string \<Rightarrow> string option" where
  "stringField v k = (case getProp v k of Some (JStr s) \<Rightarrow> Some s | _ \<Rightarrow> None)"

definition numberOr0 :: "json option \<Rightarrow> real" where
  "numberOr0 v = (case v of Some (JNum n) \<Rightarrow> n | _ \<Rightarrow> 0)"

text \<open>\<open>for (const part of v)\<close>: the elements of an array, the characters of a string (each a
  string again, without properties; the model has one per byte); any other value,
  \<open>undefined\<close> included, is not iterable.\<close>

definition iterate :: "json option \<Rightarrow> js_error + json list" where
  "iterate v =
     (case v of
        Some (JArr parts) \<Rightarrow> Inr parts
      | Some (JStr s) \<Rightarrow> Inr (map (\<lambda>c. JStr [c]) s)
      | _ \<Rightarrow> Inl TypeError)"

text \<open>The inner loop of \<open>getFinalOutput\<close>: \<open>part.text\<close> of the first part of type text,
  whatever it holds (\<open>None\<close> for \<open>undefined\<close>).\<close>

fun firstText :: "json list \<Rightarrow> js_error + json option option" where
  "firstText [] = Inr None"
| "firstText (part # parts) =
     (if part = JNull then Inl TypeError
      else if getProp part ''type'' = Some (JStr ''text'') then Inr (Some (getProp part ''text''))
      else firstText parts)"

text \<open>The outer loop, from the last message to the first.\<close>

fun getFinalOutputFrom :: "json list \<Rightarrow> js_error + json option" where
  "getFinalOutputFrom [] = Inr (Some (JStr []))"
| "getFinalOutputFrom (message # earlier) =
     (if message = JNull then Inl TypeError
      else if getProp message ''role'' = Some (JStr ''assistant'')
      then (case iterate (getProp message ''content'') of
              Inl e \<Rightarrow> Inl e
            | Inr parts \<Rightarrow>
                (case firstText parts of
                   Inl e \<Rightarrow> Inl e
                 | Inr (Some text) \<Rightarrow> Inr text
                 | Inr None \<Rightarrow> getFinalOutputFrom earlier))
      else getFinalOutputFrom earlier)"

definition getFinalOutput :: "json list \<Rightarrow> js_error + json option" where
  "getFinalOutput messages = getFinalOutputFrom (rev messages)"

text \<open>\<open>v || d\<close>: \<open>d\<close> when \<open>v\<close> is \<open>undefined\<close>, \<open>null\<close>, \<open>false\<close>, 0 or the empty string.\<close>

definition jsOr :: "json option \<Rightarrow> json \<Rightarrow> json" where
  "jsOr v d =
     (case v of
        None \<Rightarrow> d
      | Some JNull \<Rightarrow> d
      | Some (JBool b) \<Rightarrow> if b then JBool b else d
      | Some (JNum n) \<Rightarrow> if n = 0 then d else JNum n
      | Some (JStr s) \<Rightarrow> if s = [] then d else JStr s
      | Some x \<Rightarrow> x)"

subsection \<open>The event stream of a subprocess\<close>

text \<open>\<open>JSON.parse\<close> is the runtime's; it is a parameter \<open>jsonParse\<close> of the model, \<open>None\<close>
  where it throws.\<close>

definition parseJsonLine :: "(string \<Rightarrow> json option) \<Rightarrow> string \<Rightarrow> json option" where
  "parseJsonLine jsonParse line =
     (if trim line = [] then None
      else case jsonParse line of
             None \<Rightarrow> None
           | Some parsed \<Rightarrow> if isRecord parsed then Some parsed else None)"

fun isMessage :: "json option \<Rightarrow> bool" where
  "isMessage None = False"
| "isMessage (Some v) =
     (isRecord v \<and>
      (getProp v ''role'' = Some (JStr ''assistant'') \<or> getProp v ''role'' = Some (JStr ''user'')
       \<or> getProp v ''role'' = Some (JStr ''toolResult'')))"

definition applyAssistantUsage :: "SingleResult \<Rightarrow> json \<Rightarrow> js_error + SingleResult" where
  "applyAssistantUsage result message =
     (case getProp message ''usage'' of
        None \<Rightarrow> Inl TypeError
      | Some JNull \<Rightarrow> Inl TypeError
      | Some usage \<Rightarrow>
          let u = r_usage result;
              cost = (case getProp usage ''cost'' of
                        None \<Rightarrow> 0
                      | Some JNull \<Rightarrow> 0
                      | Some c \<Rightarrow> numberOr0 (getProp c ''total''))
          in Inr (result\<lparr>r_usage :=
               u\<lparr>u_turns := u_turns u + 1,
                 u_input := u_input u + numberOr0 (getProp usage ''input''),
                 u_output := u_output u + numberOr0 (getProp usage ''output''),
                 u_cacheRead := u_cacheRead u + numberOr0 (getProp usage ''cacheRead''),
                 u_cacheWrite := u_cacheWrite u + numberOr0 (getProp usage ''cacheWrite''),
                 u_cost := u_cost u + cost,
                 u_contextTokens := numberOr0 (getProp usage ''totalTokens'')\<rparr>\<rparr>))"

definition handleEventMessage :: "SingleResult \<Rightarrow> json \<Rightarrow> js_error + SingleResult" where
  "handleEventMessage result message =
     (let pushed = result\<lparr>r_messages := r_messages result @ [message]\<rparr> in
      if getProp message ''role'' \<noteq> Some (JStr ''assistant'') then Inr pushed
      else case applyAssistantUsage pushed message of
        Inl e \<Rightarrow> Inl e
      | Inr counted \<Rightarrow>
          let withModel =
                (if \<not> truthy (r_model counted) \<and> truthy (stringField message ''model'')
                 then counted\<lparr>r_model := stringField message ''model''\<rparr> else counted);
              withStop =
                (if truthy (stringField message ''stopReason'')
                 then withModel\<lparr>r_stopReason := stringField message ''stopReason''\<rparr>
                 else withModel)
          in Inr (if truthy (stringField message ''errorMessage'')
                  then withStop\<lparr>r_errorMessage := stringField message ''errorMessage''\<rparr>
                  else withStop))"

text \<open>
  The caller's \<open>onResultUpdate\<close> gets the current result; what it hands on to the host is
  the caller's, so of a call the model keeps whether it returns (\<open>None\<close>) or throws.
  \<open>emitUpdate\<close> of \<open>runSingleTask\<close> is \<open>options.onResultUpdate?.(currentResult)\<close>.
\<close>

type_synonym ResultCallback = "SingleResult \<Rightarrow> js_error option"

definition emitUpdate :: "ResultCallback option \<Rightarrow> SingleResult \<Rightarrow> js_error + SingleResult" where
  "emitUpdate onResultUpdate currentResult =
     (case onResultUpdate of
        None \<Rightarrow> Inr currentResult
      | Some callback \<Rightarrow>
          (case callback currentResult of Some e \<Rightarrow> Inl e | None \<Rightarrow> Inr currentResult))"

text \<open>\<open>processLine\<close> of \<open>runSingleTask\<close>.\<close>

definition processLine ::
  "(string \<Rightarrow> json option) \<Rightarrow> ResultCallback option \<Rightarrow> SingleResult \<Rightarrow> string
   \<Rightarrow> js_error + SingleResult" where
  "processLine jsonParse onResultUpdate result line =
     (case parseJsonLine jsonParse line of
        None \<Rightarrow> Inr result
      | Some event \<Rightarrow>
          let typeText = (case getProp event ''type'' of Some (JStr t) \<Rightarrow> t | _ \<Rightarrow> []);
              messageValue = getProp event ''message''
          in if (typeText = ''message_end'' \<or> typeText = ''tool_result_end'') \<and> isMessage messageValue
             then (case handleEventMessage result (the messageValue) of
                     Inl e \<Rightarrow> Inl e
                   | Inr handled \<Rightarrow> emitUpdate onResultUpdate handled)
             else Inr result)"

text \<open>\<open>for (const line of lines) processLine(line)\<close>: a throw ends the loop.\<close>

fun processLines ::
  "(string \<Rightarrow> json option) \<Rightarrow> ResultCallback option \<Rightarrow> string list \<Rightarrow> SingleResult
   \<Rightarrow> js_error + SingleResult" where
  "processLines jsonParse onResultUpdate [] result = Inr result"
| "processLines jsonParse onResultUpdate (line # rest) result =
     (case processLine jsonParse onResultUpdate result line of
        Inl e \<Rightarrow> Inl e
      | Inr result' \<Rightarrow> processLines jsonParse onResultUpdate rest result')"

text \<open>\<open>s.split("\n")\<close>: never empty; the last element is the text after the last newline.\<close>

fun splitNL :: "string \<Rightarrow> string list" where
  "splitNL [] = [[]]"
| "splitNL (c # cs) =
     (if c = CHR 0x0A then [] # splitNL cs
      else (case splitNL cs of [] \<Rightarrow> [[c]] | l # ls \<Rightarrow> (c # l) # ls))"

subsection \<open>Running one subprocess\<close>

text \<open>
  What the listeners of \<open>runSingleTask\<close> receive: a chunk of stdout or of stderr (after
  \<open>data.toString()\<close>), the abort signal, the close of the process with its exit code
  (\<open>null\<close> when a signal ended it) or a spawn error. The state they share is the result,
  the line buffer, the \<open>aborted\<close> flag of \<open>attachAbortSignal\<close>, and the value the promise
  was resolved with, if it was.
\<close>

datatype proc_event = Stdout string | Stderr string | Abort | Close "int option" | SpawnError

record RunState =
  rs_result :: SingleResult
  rs_buffer :: string
  rs_aborted :: bool
  rs_settled :: "int option"

text \<open>\<open>resolve(code)\<close>: only the first call settles the promise.\<close>

definition resolvePromise :: "int \<Rightarrow> RunState \<Rightarrow> RunState" where
  "resolvePromise code st =
     (case rs_settled st of None \<Rightarrow> st\<lparr>rs_settled := Some code\<rparr> | Some first \<Rightarrow> st)"

fun onEvent ::
  "(string \<Rightarrow> json option) \<Rightarrow> ResultCallback option \<Rightarrow> proc_event \<Rightarrow> RunState
   \<Rightarrow> js_error + RunState" where
  "onEvent jsonParse onResultUpdate (Stdout data) st =
     (let lines = splitNL (rs_buffer st @ data) in
      case processLines jsonParse onResultUpdate (butlast lines) (rs_result st) of
        Inl e \<Rightarrow> Inl e
      | Inr result \<Rightarrow> Inr (st\<lparr>rs_result := result, rs_buffer := last lines\<rparr>))"
| "onEvent jsonParse onResultUpdate (Stderr data) st =
     Inr (st\<lparr>rs_result := (rs_result st)\<lparr>r_stderr := r_stderr (rs_result st) @ data\<rparr>\<rparr>)"
| "onEvent jsonParse onResultUpdate Abort st = Inr (st\<lparr>rs_aborted := True\<rparr>)"
| "onEvent jsonParse onResultUpdate (Close code) st =
     (case (if trim (rs_buffer st) \<noteq> []
            then processLine jsonParse onResultUpdate (rs_result st) (rs_buffer st)
            else Inr (rs_result st)) of
        Inl e \<Rightarrow> Inl e
      | Inr result \<Rightarrow>
          let exitCode = (case code of Some c \<Rightarrow> c | None \<Rightarrow> 0);
              exited = result\<lparr>r_exitCode := exitCode\<rparr>;
              tagged = (if rs_aborted st then exited\<lparr>r_stopReason := Some ''aborted''\<rparr> else exited)
          in Inr (resolvePromise exitCode (st\<lparr>rs_result := tagged\<rparr>)))"
| "onEvent jsonParse onResultUpdate SpawnError st =
     Inr (resolvePromise 1 (st\<lparr>rs_result := (rs_result st)\<lparr>r_exitCode := 1\<rparr>\<rparr>))"

fun runEvents ::
  "(string \<Rightarrow> json option) \<Rightarrow> ResultCallback option \<Rightarrow> proc_event list \<Rightarrow> RunState
   \<Rightarrow> js_error + RunState" where
  "runEvents jsonParse onResultUpdate [] st = Inr st"
| "runEvents jsonParse onResultUpdate (ev # evs) st =
     (case onEvent jsonParse onResultUpdate ev st of
        Inl e \<Rightarrow> Inl e
      | Inr st' \<Rightarrow> runEvents jsonParse onResultUpdate evs st')"

record ForkSession =
  fs_dir :: string
  fs_seedPath :: string

definition applyForkSessionArgs :: "string list \<Rightarrow> ForkSession option \<Rightarrow> string list" where
  "applyForkSessionArgs baseArgs session =
     (case session of
        None \<Rightarrow> baseArgs
      | Some s \<Rightarrow> filter (\<lambda>arg. arg \<noteq> ''--no-session'') baseArgs
                  @ [''--session'', fs_seedPath s, ''--session-dir'', fs_dir s])"

text \<open>
  The world outside the tool: \<open>JSON.parse\<close>; \<open>createForkSession\<close>, which copies the
  session file into a fresh directory or fails with a message; and what each spawned
  \<open>pi\<close> process does, as the list of events its listeners receive before the
  continuation of \<open>runSingleTask\<close> runs. Both are asked per task index and argument vector.
\<close>

record World =
  w_jsonParse :: "string \<Rightarrow> json option"
  w_createForkSession :: "nat option \<Rightarrow> string \<Rightarrow> string + ForkSession"
  w_process :: "nat option \<Rightarrow> string list \<Rightarrow> proc_event list"

record RunOptions =
  o_item :: TaskWorkItem
  o_subprocessPrompt :: string
  o_index :: "nat option"
  o_subprocessArgs :: "string list"
  o_modelLabel :: "string option"
  o_thinking :: string
  o_fork :: bool
  o_sessionFile :: "string option"
  o_onResultUpdate :: "ResultCallback option"

definition initialResult :: "RunOptions \<Rightarrow> SingleResult" where
  "initialResult opts =
     \<lparr>r_prompt = i_prompt (o_item opts), r_skill = i_skill (o_item opts), r_exitCode = - 1,
      r_messages = [], r_stderr = [], r_usage = zeroUsage, r_model = o_modelLabel opts,
      r_thinking = Some (o_thinking opts), r_fork = Some (o_fork opts), r_stopReason = None,
      r_errorMessage = None, r_index = o_index opts\<rparr>"

text \<open>
  \<open>runSingleTask\<close>: the result, and the argument vectors of the processes it spawned (none
  or one). \<open>Inl NeverSettles\<close> when the process neither closes nor fails to spawn, so that
  the promise is never resolved; \<open>Inl TypeError\<close> when a listener throws.
\<close>

definition runSingleTask :: "World \<Rightarrow> RunOptions \<Rightarrow> js_error + SingleResult \<times> string list list" where
  "runSingleTask world opts =
     (let currentResult = initialResult opts in
      if o_fork opts \<and> \<not> truthy (o_sessionFile opts)
      then Inr (currentResult\<lparr>r_exitCode := 1,
             r_errorMessage := Some ''Forked tasks require a persisted session file.''\<rparr>, [])
      else
        case (if o_fork opts
              then (case w_createForkSession world (o_index opts) (the (o_sessionFile opts)) of
                      Inl message \<Rightarrow> Inl message
                    | Inr session \<Rightarrow> Inr (Some session))
              else Inr None) of
          Inl message \<Rightarrow> Inr (currentResult\<lparr>r_exitCode := 1, r_errorMessage := Some message\<rparr>, [])
        | Inr forkSession \<Rightarrow>
            let args = applyForkSessionArgs (o_subprocessArgs opts) forkSession
                         @ [o_subprocessPrompt opts]
            in case runEvents (w_jsonParse world) (o_onResultUpdate opts)
                      (w_process world (o_index opts) args)
                      \<lparr>rs_result = currentResult, rs_buffer = [], rs_aborted = False,
                       rs_settled = None\<rparr> of
                 Inl e \<Rightarrow> Inl e
               | Inr st \<Rightarrow>
                   (case rs_settled st of
                      None \<Rightarrow> Inl NeverSettles
                    | Some exitCode \<Rightarrow> Inr ((rs_result st)\<lparr>r_exitCode := exitCode\<rparr>, [args])))"


subsection \<open>The callbacks of single and chain mode\<close>

text \<open>
  \<open>onUpdate\<close> is the host's: it gets the text of the update and the results shown with
  it. \<open>emitSingleUpdate\<close> of single mode and \<open>chainUpdate\<close> of step \<open>index\<close> of chain mode are
  what \<open>execute\<close> passes as \<open>onResultUpdate\<close>; each reads the final output of the partial
  result first.
\<close>

type_synonym OnUpdate = "json \<Rightarrow> SingleResult list \<Rightarrow> js_error option"

definition emitSingleUpdate :: "OnUpdate option \<Rightarrow> ResultCallback" where
  "emitSingleUpdate onUpdate result =
     (case onUpdate of
        None \<Rightarrow> None
      | Some update \<Rightarrow>
          (case getFinalOutput (r_messages result) of
             Inl e \<Rightarrow> Some e
           | Inr text \<Rightarrow> update (jsOr text (JStr ''(running...)'')) [result]))"

definition chainUpdate :: "OnUpdate option \<Rightarrow> SingleResult list \<Rightarrow> nat \<Rightarrow> ResultCallback option" where
  "chainUpdate onUpdate results index =
     (case onUpdate of
        None \<Rightarrow> None
      | Some update \<Rightarrow>
          Some (\<lambda>partial.
            case getFinalOutput (r_messages partial) of
              Inl e \<Rightarrow> Some e
            | Inr text \<Rightarrow> update (jsOr text (JStr ''(running...)'')) (results[index := partial])))"

subsection \<open>The scheduler\<close>












subsection \<open>Placeholders and progress of parallel mode\<close>

text \<open>\<open>createPlaceholderResult(item, index, thinking, model, exitCode = -1)\<close>.\<close>

definition createPlaceholderResult ::
  "TaskWorkItem \<Rightarrow> nat option \<Rightarrow> string option \<Rightarrow> string option \<Rightarrow> int \<Rightarrow> SingleResult" where
  "createPlaceholderResult item index thinking model exitCode =
     \<lparr>r_prompt = i_prompt item, r_skill = i_skill item, r_exitCode = exitCode,
      r_messages = [], r_stderr = [], r_usage = zeroUsage, r_model = model,
      r_thinking = thinking, r_fork = Some (i_fork item), r_stopReason = None,
      r_errorMessage = None, r_index = index\<rparr>"




definition parallelDone :: "SingleResult list \<Rightarrow> nat" where
  "parallelDone allResults = length (filter (\<lambda>result. r_exitCode result \<noteq> - 1) allResults)"

section \<open>The tool call (task-tool.ts, \<open>execute\<close>)\<close>

subsection \<open>Skills\<close>

text \<open>
  A skill as \<open>loadSkills\<close> of the agent library reports it. The library and the file
  system are outside the tool: the skills found and \<open>fs.readFileSync\<close> (the content of the
  file, or the message of the error it throws) are given by the host.
\<close>

record Skill =
  sk_name :: string
  sk_source :: string
  sk_filePath :: string
  sk_baseDir :: string

text \<open>\<open>xs.slice(0, end)\<close>: a negative \<open>end\<close> counts from the end of the array.\<close>

definition sliceTo :: "int \<Rightarrow> 'a list \<Rightarrow> 'a list" where
  "sliceTo end xs =
     (if end \<ge> 0 then take (nat end) xs else take (nat (int (length xs) + end)) xs)"

definition formatAvailableSkills :: "Skill list \<Rightarrow> int \<Rightarrow> string \<times> nat" where
  "formatAvailableSkills skills maxItems =
     (if length skills = 0 then (''none'', 0)
      else let listed = sliceTo maxItems skills;
               remaining = length skills - length listed
           in (joinWith '', '' (map (\<lambda>skill. sk_name skill @ '' ('' @ sk_source skill @ '')'') listed),
               remaining))"

text \<open>The list of skills as the error texts end with it.\<close>

definition availableSkillsText :: "Skill list \<Rightarrow> int \<Rightarrow> string" where
  "availableSkillsText skills skillListLimit =
     (let available = formatAvailableSkills skills skillListLimit;
          suffix = (if snd available > 0 then '', ... +'' @ showNat (snd available) @ '' more''
                    else [])
      in ''Available skills: '' @ fst available @ suffix)"

text \<open>\<open>content.replace(/\r\n/g, "\n").replace(/\r/g, "\n")\<close>.\<close>

fun normalizeNewlines :: "string \<Rightarrow> string" where
  "normalizeNewlines [] = []"
| "normalizeNewlines [c] = (if c = CHR 0x0D then [CHR 0x0A] else [c])"
| "normalizeNewlines (c # d # rest) =
     (if c = CHR 0x0D \<and> d = CHR 0x0A then CHR 0x0A # normalizeNewlines rest
      else if c = CHR 0x0D then CHR 0x0A # normalizeNewlines (d # rest)
      else c # normalizeNewlines (d # rest))"

text \<open>The text after the first occurrence of \<open>pat\<close>.\<close>

fun afterFirst :: "string \<Rightarrow> string \<Rightarrow> string option" where
  "afterFirst pat [] = (if pat = [] then Some [] else None)"
| "afterFirst pat (c # cs) =
     (if take (length pat) (c # cs) = pat then Some (drop (length pat) (c # cs))
      else afterFirst pat cs)"

text \<open>\<open>normalized.replace(/^---\n[\s\S]*?\n---\n/, "").trim()\<close>: a leading block from
  \<open>---\<close> to the first later line \<open>---\<close> is taken off.\<close>

definition stripYamlFrontmatter :: "string \<Rightarrow> string" where
  "stripYamlFrontmatter content =
     (let normalized = normalizeNewlines content in
      trim (if take 4 normalized = ''---'' @ [CHR 0x0A]
            then (case afterFirst ([CHR 0x0A] @ ''---'' @ [CHR 0x0A]) (drop 4 normalized) of
                    Some rest \<Rightarrow> rest
                  | None \<Rightarrow> normalized)
            else normalized))"

definition buildSkillMessageBase :: "(string \<Rightarrow> string + string) \<Rightarrow> Skill \<Rightarrow> string + string" where
  "buildSkillMessageBase readFile skill =
     (case readFile (sk_filePath skill) of
        Inl message \<Rightarrow> Inl message
      | Inr content \<Rightarrow>
          let body = stripYamlFrontmatter content;
              header = ''Skill location: '' @ sk_filePath skill @ [CHR 0x0A]
                       @ ''References are relative to '' @ sk_baseDir skill @ ''.''
          in Inr (header @ [CHR 0x0A, CHR 0x0A] @ body))"

record SkillPromptState =
  sp_skills :: "Skill list"
  sp_skillByName :: "string \<Rightarrow> Skill option"
  sp_baseCache :: "string \<Rightarrow> string option"

definition createSkillPromptState :: "Skill list \<Rightarrow> SkillPromptState" where
  "createSkillPromptState skills =
     \<lparr>sp_skills = skills,
      sp_skillByName = fold (\<lambda>skill skillByName. skillByName(sk_name skill \<mapsto> skill)) skills Map.empty,
      sp_baseCache = Map.empty\<rparr>"

text \<open>\<open>buildSubprocessPrompt\<close>: the prompt or the error, and the state with its cache.\<close>

definition buildSubprocessPrompt ::
  "(string \<Rightarrow> string + string) \<Rightarrow> TaskWorkItem \<Rightarrow> SkillPromptState \<Rightarrow> int
   \<Rightarrow> (string + string) \<times> SkillPromptState" where
  \<open>buildSubprocessPrompt readFile item state skillListLimit =
     (if \<not> truthy (i_skill item) then (Inr (i_prompt item), state)
      else case sp_skillByName state (the (i_skill item)) of
        None \<Rightarrow>
          (Inl (''Unknown skill: '' @ the (i_skill item) @ [CHR 0x0A]
                @ availableSkillsText (sp_skills state) skillListLimit), state)
      | Some skill \<Rightarrow>
          if truthy (sp_baseCache state (sk_name skill))
          then (Inr (the (sp_baseCache state (sk_name skill))
                     @ [CHR 0x0A, CHR 0x0A] @ ''---'' @ [CHR 0x0A, CHR 0x0A] @ ''User: ''
                     @ i_prompt item), state)
          else (case buildSkillMessageBase readFile skill of
                  Inl message \<Rightarrow>
                    (Inl (''Failed to load skill "'' @ sk_name skill @ ''": '' @ message), state)
                | Inr base \<Rightarrow>
                    (Inr (base @ [CHR 0x0A, CHR 0x0A] @ ''---'' @ [CHR 0x0A, CHR 0x0A]
                          @ ''User: '' @ i_prompt item),
                     state\<lparr>sp_baseCache := (sp_baseCache state)(sk_name skill \<mapsto> base)\<rparr>)))\<close>

subsection \<open>The call up to the dispatch on the mode\<close>

text \<open>
  What the host gives a call: the skills it finds, the file system, the thinking level
  and the active tools of the session, the session model, the session file if the
  session is persisted, the callback for progress updates, and the runtime's conversion
  to a string of a value that is not one. The options are those of \<open>taskTool\<close>, merged
  with the defaults.
\<close>

record Host =
  h_skills :: "Skill list"
  h_readFile :: "string \<Rightarrow> string + string"
  h_thinkingLevel :: string
  h_activeTools :: "string list"
  h_model :: "CtxModel option"
  h_sessionFile :: "string option"
  h_onUpdate :: "OnUpdate option"
  h_toString :: "json option \<Rightarrow> string"

record ToolOptions =
  to_maxParallelTasks :: int
  to_maxConcurrency :: int
  to_skillListLimit :: int

text \<open>The value a call returns: the text of its content, the details, and \<open>isError\<close>.\<close>

record ToolResult =
  t_text :: json
  t_mode :: mode
  t_modelOverride :: "string option"
  t_results :: "SingleResult list"
  t_isError :: bool

text \<open>What the branches of the modes share, once the request is validated.\<close>

record CallContext =
  cc_normalized :: NormalizedParams
  cc_skillState :: SkillPromptState
  cc_inheritedThinking :: string
  cc_builtInTools :: "string list"
  cc_ctxModel :: "CtxModel option"
  cc_sessionFile :: "string option"

definition makeDetails :: "NormalizedParams \<Rightarrow> json \<Rightarrow> SingleResult list \<Rightarrow> bool \<Rightarrow> ToolResult" where
  "makeDetails normalized text results isError =
     \<lparr>t_text = text, t_mode = n_mode normalized, t_modelOverride = n_model normalized,
      t_results = results, t_isError = isError\<rparr>"

text \<open>
  \<open>execute\<close> from its entry to the dispatch on the mode: \<open>Inl\<close> is the result it returns
  before the dispatch, \<open>Inr\<close> what it enters the branch of the mode with. No code on this
  stretch starts a process: the one \<open>spawn\<close> of the tool is in \<open>runSingleTask\<close>, which only
  the branches call.
\<close>

definition execute :: "Host \<Rightarrow> ToolOptions \<Rightarrow> json \<Rightarrow> ToolResult + CallContext" where
  "execute host options params =
     (case normalizeTaskParams params (to_maxParallelTasks options) of
        Inl error \<Rightarrow>
          Inl \<lparr>t_text = JStr (error @ [CHR 0x0A]
                   @ availableSkillsText (h_skills host) (to_skillListLimit options)),
               t_mode = Single, t_modelOverride = None, t_results = [], t_isError = False\<rparr>
      | Inr normalized \<Rightarrow>
          let skillState = createSkillPromptState (h_skills host);
              inheritedThinking = h_thinkingLevel host;
              builtInTools = getBuiltInToolsFromActiveTools (h_activeTools host);
              ctxModel = h_model host;
              requiresFork = list_ex i_fork (n_items normalized);
              sessionFile = (if requiresFork then h_sessionFile host else None)
          in if requiresFork \<and> \<not> truthy sessionFile
             then Inl (makeDetails normalized
                    (JStr (''Forked tasks require a persisted session file. ''
                           @ ''Set fork: false or start pi with sessions enabled.'')) [] False)
             else Inr \<lparr>cc_normalized = normalized, cc_skillState = skillState,
                       cc_inheritedThinking = inheritedThinking, cc_builtInTools = builtInTools,
                       cc_ctxModel = ctxModel, cc_sessionFile = sessionFile\<rparr>)"

subsection \<open>Chain mode\<close>

text \<open>A value in a template string or as the replacement of \<open>replace\<close>: a string as it
  is, any other value through the runtime's conversion.\<close>

definition jsString :: "Host \<Rightarrow> json option \<Rightarrow> string" where
  "jsString host v = (case v of Some (JStr s) \<Rightarrow> s | _ \<Rightarrow> h_toString host v)"

text \<open>\<open>result.errorMessage || result.stderr || getFinalOutput(result.messages) || "(no output)"\<close>.\<close>

definition getTaskErrorText :: "SingleResult \<Rightarrow> js_error + json" where
  "getTaskErrorText result =
     (if truthy (r_errorMessage result) then Inr (JStr (the (r_errorMessage result)))
      else if r_stderr result \<noteq> [] then Inr (JStr (r_stderr result))
      else case getFinalOutput (r_messages result) of
             Inl e \<Rightarrow> Inl e
           | Inr text \<Rightarrow> Inr (jsOr text (JStr ''(no output)'')))"

text \<open>\<open>if (onUpdate) onUpdate({ content, details })\<close>, for a text that is at hand.\<close>

definition sendUpdate :: "OnUpdate option \<Rightarrow> json \<Rightarrow> SingleResult list \<Rightarrow> js_error option" where
  "sendUpdate onUpdate text results =
     (case onUpdate of None \<Rightarrow> None | Some update \<Rightarrow> update text results)"

text \<open>The update after a step has run: the final output is read only for a host that
  listens.\<close>

definition sendStepDone :: "OnUpdate option \<Rightarrow> SingleResult \<Rightarrow> SingleResult list \<Rightarrow> js_error option" where
  "sendStepDone onUpdate result results =
     (case onUpdate of
        None \<Rightarrow> None
      | Some update \<Rightarrow>
          (case getFinalOutput (r_messages result) of
             Inl e \<Rightarrow> Some e
           | Inr text \<Rightarrow> update (jsOr text (JStr ''(no output)'')) results))"

text \<open>The placeholders chain mode starts with: every step pending.\<close>

definition chainPlaceholders :: "TaskWorkItem list \<Rightarrow> SingleResult list" where
  "chainPlaceholders items =
     map (\<lambda>(index, item).
            createPlaceholderResult (item\<lparr>i_prompt := buildPendingPrompt (i_prompt item)\<rparr>)
              (Some (index + 1)) None None (- 2))
         (enumerate 0 items)"

text \<open>
  The loop of chain mode from step \<open>index\<close> (counted from 0) on, over the items still to
  run. \<open>attempts\<close> logs the calls of \<open>runSingleTask\<close>: the number of the step and the
  argument vectors of the processes it spawned. The value is what \<open>execute\<close> returns with
  the log, or the error thrown.
\<close>

fun chainSteps ::
  "World \<Rightarrow> Host \<Rightarrow> ToolOptions \<Rightarrow> CallContext \<Rightarrow> TaskWorkItem list \<Rightarrow> nat \<Rightarrow> SkillPromptState
   \<Rightarrow> SingleResult list \<Rightarrow> json option \<Rightarrow> (nat \<times> string list list) list
   \<Rightarrow> js_error + ToolResult \<times> (nat \<times> string list list) list" where
  "chainSteps world host options cc [] index skillState results previousOutput attempts =
     (if results = [] then Inl TypeError
      else case getFinalOutput (r_messages (last results)) of
             Inl e \<Rightarrow> Inl e
           | Inr text \<Rightarrow>
               Inr (makeDetails (cc_normalized cc) (jsOr text (JStr ''(no output)'')) results False,
                    attempts))"
| "chainSteps world host options cc (item # rest) index skillState results previousOutput attempts =
     (let prompt = buildChainPrompt (i_prompt item) (jsString host previousOutput);
          stepItem = item\<lparr>i_prompt := prompt\<rparr>
      in case resolveTaskConfig item (n_model (cc_normalized cc)) (n_thinking (cc_normalized cc))
                (cc_inheritedThinking cc) (cc_ctxModel cc) (cc_builtInTools cc) of
           Inl error \<Rightarrow> Inr (makeDetails (cc_normalized cc) (JStr error) results False, attempts)
         | Inr config \<Rightarrow>
      (case buildSubprocessPrompt (h_readFile host) stepItem skillState (to_skillListLimit options) of
           (Inl error, skillState') \<Rightarrow>
             Inr (makeDetails (cc_normalized cc) (JStr error) results False, attempts)
         | (Inr preparedPrompt, skillState') \<Rightarrow>
      (let running = results[index := createPlaceholderResult stepItem (Some (index + 1))
                        (Some (c_thinkingLevel config)) (c_modelLabel config) (- 1)]
       in case sendUpdate (h_onUpdate host) (JStr ''(running...)'') running of
            Some e \<Rightarrow> Inl e
          | None \<Rightarrow>
      (case runSingleTask world
              \<lparr>o_item = stepItem, o_subprocessPrompt = preparedPrompt, o_index = Some (index + 1),
               o_subprocessArgs = c_subprocessArgs config, o_modelLabel = c_modelLabel config,
               o_thinking = c_thinkingLevel config, o_fork = i_fork stepItem,
               o_sessionFile = cc_sessionFile cc,
               o_onResultUpdate = chainUpdate (h_onUpdate host) running index\<rparr> of
           Inl e \<Rightarrow> Inl e
         | Inr (result, spawned) \<Rightarrow>
      (let done = running[index := result];
           attempts' = attempts @ [(index + 1, spawned)]
       in case sendStepDone (h_onUpdate host) result done of
            Some e \<Rightarrow> Inl e
          | None \<Rightarrow>
              if isTaskError result
              then (case getTaskErrorText result of
                      Inl e \<Rightarrow> Inl e
                    | Inr text \<Rightarrow>
                        Inr (makeDetails (cc_normalized cc)
                               (JStr (''Chain stopped at step '' @ showNat (index + 1) @ '': ''
                                      @ jsString host (Some text))) done True,
                             attempts'))
              else (case getFinalOutput (r_messages result) of
                      Inl e \<Rightarrow> Inl e
                    | Inr output \<Rightarrow>
                        chainSteps world host options cc rest (index + 1) skillState' done output
                          attempts'))))))"

text \<open>The branch of chain mode.\<close>

definition chainMode ::
  "World \<Rightarrow> Host \<Rightarrow> ToolOptions \<Rightarrow> CallContext
   \<Rightarrow> js_error + ToolResult \<times> (nat \<times> string list list) list" where
  "chainMode world host options cc =
     chainSteps world host options cc (n_items (cc_normalized cc)) 0 (cc_skillState cc)
       (chainPlaceholders (n_items (cc_normalized cc))) (Some (JStr [])) []"

section \<open>Notions of the specification\<close>

text \<open>"provider/modelId with both sides non-empty": the text before the first slash and
  the text after it are both non-empty.\<close>

definition hasProviderModelShape :: "string \<Rightarrow> bool" where
  "hasProviderModelShape t =
     (CHR ''/'' \<in> set t \<and> takeWhile (\<lambda>x. x \<noteq> CHR ''/'') t \<noteq> []
      \<and> tl (dropWhile (\<lambda>x. x \<noteq> CHR ''/'') t) \<noteq> [])"

text \<open>
  What the resolved configuration is when the model string \<open>m\<close> decides: of the shape, its
  trimmed text is the label and its two sides are handed to the subprocess after
  \<open>--provider\<close> and \<open>--model\<close>; of any other shape, the format error. \<open>level\<close> is the
  thinking level and \<open>tools\<close> the active built-in tools, which the subprocess gets too.
\<close>

definition modelFlags :: "string \<Rightarrow> string list" where
  "modelFlags t =
     [''--provider'', takeWhile (\<lambda>x. x \<noteq> CHR ''/'') t,
      ''--model'', tl (dropWhile (\<lambda>x. x \<noteq> CHR ''/'') t)]"

definition configWith :: "string option \<Rightarrow> string list \<Rightarrow> string \<Rightarrow> string list \<Rightarrow> TaskConfig" where
  "configWith label flags level tools =
     \<lparr>c_thinkingLevel = level,
      c_subprocessArgs =
        [''--mode'', ''json'', ''-p'', ''--no-session'', ''--no-extensions''] @ flags
        @ [''--thinking'', level]
        @ (if tools = [] then [''--no-tools''] else [''--tools'', joinWith '','' tools]),
      c_modelLabel = label\<rparr>"

definition decidedBy :: "string \<Rightarrow> string \<Rightarrow> string list \<Rightarrow> string + TaskConfig" where
  \<open>decidedBy m level tools =
     (if hasProviderModelShape (trim m)
      then Inr (configWith (Some (trim m)) (modelFlags (trim m)) level tools)
      else Inl (''Invalid model format: "'' @ m @ ''". Expected provider/modelId.''))\<close>

text \<open>The configuration when no model string decides: the inherited session model, or no
  model at all.\<close>

definition inheritedConfig :: "CtxModel option \<Rightarrow> string \<Rightarrow> string list \<Rightarrow> TaskConfig" where
  "inheritedConfig ctxModel level tools =
     (case ctxModel of
        None \<Rightarrow> configWith None [] level tools
      | Some c \<Rightarrow> configWith (Some (cm_provider c @ ''/'' @ cm_id c))
                   [''--provider'', cm_provider c, ''--model'', cm_id c] level tools)"

definition thinkingOf :: "TaskWorkItem \<Rightarrow> string \<Rightarrow> string \<Rightarrow> string" where
  "thinkingOf item defaultThinking inheritedThinking =
     resolveThinkingLevel
       (case i_thinking item of Some t \<Rightarrow> t | None \<Rightarrow> defaultThinking) inheritedThinking"

definition exampleItem :: TaskWorkItem where
  "exampleItem = \<lparr>i_prompt = ''hi'', i_skill = None, i_model = None, i_thinking = None,
     i_fork = False\<rparr>"

definition exampleCtx :: "CtxModel option" where
  "exampleCtx = Some \<lparr>cm_provider = ''acme'', cm_id = ''modelX''\<rparr>"

text \<open>A request with every empty or whitespace-only \<open>model\<close> and \<open>thinking\<close> string taken
  out, at the top level and in each entry of \<open>tasks\<close>: the request in which those fields
  are absent.\<close>

fun delProp :: "string \<Rightarrow> json \<Rightarrow> json" where
  "delProp k (JObj kvs) = JObj (filter (\<lambda>kv. fst kv \<noteq> k) kvs)"
| "delProp k v = v"

definition dropBlank :: "string \<Rightarrow> json \<Rightarrow> json" where
  "dropBlank k v =
     (case getProp v k of
        Some (JStr s) \<Rightarrow> if trim s = [] then delProp k v else v
      | _ \<Rightarrow> v)"

definition dropBlankOverrides :: "json \<Rightarrow> json" where
  "dropBlankOverrides v = dropBlank ''thinking'' (dropBlank ''model'' v)"

definition mapTasksEntry :: "(json \<Rightarrow> json) \<Rightarrow> string \<times> json \<Rightarrow> string \<times> json" where
  "mapTasksEntry f kv =
     (if fst kv = ''tasks''
      then (case snd kv of JArr ts \<Rightarrow> (fst kv, JArr (map f ts)) | _ \<Rightarrow> kv)
      else kv)"

fun mapTasks :: "(json \<Rightarrow> json) \<Rightarrow> json \<Rightarrow> json" where
  "mapTasks f (JObj kvs) = JObj (map (mapTasksEntry f) kvs)"
| "mapTasks f v = v"

definition mapTasksValue :: "(json \<Rightarrow> json) \<Rightarrow> string \<Rightarrow> json \<Rightarrow> json" where
  "mapTasksValue f k v =
     (if k = ''tasks'' then (case v of JArr ts \<Rightarrow> JArr (map f ts) | _ \<Rightarrow> v) else v)"

definition dropBlankRequest :: "json \<Rightarrow> json" where
  "dropBlankRequest params = dropBlankOverrides (mapTasks dropBlankOverrides params)"

text \<open>Sample requests: one with blank model and thinking strings, one whose malformed
  shared default is shadowed by the model of its only item.\<close>

definition shadowRequest :: json where
  "shadowRequest = JObj [(''type'', JStr ''single''), (''model'', JStr ''acme''),
     (''tasks'', JArr [JObj [(''prompt'', JStr ''hi''), (''model'', JStr ''a/b''),
        (''fork'', JBool False)]])]"

definition blankRequest :: json where
  "blankRequest = JObj [(''type'', JStr ''single''), (''model'', JStr '' ''),
     (''thinking'', JStr []),
     (''tasks'', JArr [JObj [(''prompt'', JStr ''hi''), (''model'', JStr []),
        (''thinking'', JStr ''  ''), (''fork'', JBool False)]])]"

text \<open>A field that holds an empty or whitespace-only string, and a field that holds
  such a string or is absent.\<close>

definition isBlank :: "json option \<Rightarrow> bool" where
  "isBlank v = (case v of Some (JStr s) \<Rightarrow> trim s = [] | _ \<Rightarrow> False)"

definition blankOrAbsent :: "json option \<Rightarrow> bool" where
  "blankOrAbsent v = (v = None \<or> isBlank v)"

text \<open>The entries of \<open>tasks\<close> of a request.\<close>

definition rawTasksOf :: "json \<Rightarrow> json list" where
  "rawTasksOf params = (case getProp params ''tasks'' of Some (JArr ts) \<Rightarrow> ts | _ \<Rightarrow> [])"

text \<open>A task entry with a prompt or a skill, without overrides other than blank ones, and
  the work item it stands for: no model and no thinking override recorded.\<close>

definition promptOf :: "json \<Rightarrow> string" where
  "promptOf e = (case getProp e ''prompt'' of Some (JStr p) \<Rightarrow> trim p | _ \<Rightarrow> [])"

definition skillOf :: "json \<Rightarrow> string option" where
  "skillOf e = (case getProp e ''skill'' of Some (JStr k) \<Rightarrow> Some (trim k) | _ \<Rightarrow> None)"

definition forkOf :: "json \<Rightarrow> bool option" where
  "forkOf e = (case getProp e ''fork'' of None \<Rightarrow> Some True | Some (JBool b) \<Rightarrow> Some b
               | Some _ \<Rightarrow> None)"

definition plainEntry :: "json \<Rightarrow> bool" where
  "plainEntry e =
     (isRecord e \<and> \<not> (promptOf e = [] \<and> (skillOf e = None \<or> skillOf e = Some []))
      \<and> blankOrAbsent (getProp e ''model'') \<and> blankOrAbsent (getProp e ''thinking'')
      \<and> forkOf e \<noteq> None)"

definition plainItem :: "json \<Rightarrow> TaskWorkItem" where
  "plainItem e =
     \<lparr>i_prompt = promptOf e, i_skill = skillOf e, i_model = None, i_thinking = None,
      i_fork = the (forkOf e)\<rparr>"

definition modeNamed :: "string \<Rightarrow> mode" where
  "modeNamed m = (if m = ''single'' then Single else if m = ''parallel'' then Parallel else Chain)"

text \<open>A request whose blank strings are only no-break spaces (U+00A0) and byte order
  marks (U+FEFF), in UTF-8.\<close>

definition nbsp :: string where
  "nbsp = [CHR 0xC2, CHR 0xA0]"

definition bom :: string where
  "bom = [CHR 0xEF, CHR 0xBB, CHR 0xBF]"

definition nbspRequest :: json where
  "nbspRequest = JObj [(''type'', JStr ''chain''), (''model'', JStr nbsp),
     (''thinking'', JStr (bom @ '' '')),
     (''tasks'', JArr [JObj [(''prompt'', JStr ''hi''), (''model'', JStr (nbsp @ bom)),
        (''thinking'', JStr []), (''fork'', JBool False)],
      JObj [(''prompt'', JStr ''there'')]])]"

text \<open>Every occurrence of the token replaced by the text \<open>out\<close> as it is.\<close>

function substPrevious :: "string \<Rightarrow> string \<Rightarrow> string" where
  "substPrevious out rest =
     (if take 10 rest = ''{previous}'' then out @ substPrevious out (drop 10 rest)
      else case rest of [] \<Rightarrow> [] | c # cs \<Rightarrow> c # substPrevious out cs)"
  by pat_completeness auto
termination
proof (relation "measure (\<lambda>(out, rest). length rest)")
  fix out rest :: string
  assume "take 10 rest = ''{previous}''"
  then have "rest \<noteq> []" by auto
  then show "((out, drop 10 rest), out, rest) \<in> measure (\<lambda>(out, rest). length rest)"
    by simp
qed simp_all

declare substPrevious.simps [simp del]

text \<open>
  The message of a line that the event parser accepts: the line is not blank, parses as
  a JSON object whose \<open>type\<close> is the message-completed or the tool-result-completed
  marker, and whose \<open>message\<close> is an object with role assistant, user or toolResult.
\<close>

definition acceptedLine :: "(string \<Rightarrow> json option) \<Rightarrow> string \<Rightarrow> json option" where
  "acceptedLine jsonParse line =
     (if trim line = [] then None
      else case jsonParse line of
        Some (JObj event) \<Rightarrow>
          (case map_of event ''type'' of
             Some (JStr t) \<Rightarrow>
               if t = ''message_end'' \<or> t = ''tool_result_end'' then
                 (case map_of event ''message'' of
                    Some (JObj message) \<Rightarrow>
                      (case map_of message ''role'' of
                         Some (JStr role) \<Rightarrow>
                           if role = ''assistant'' \<or> role = ''user'' \<or> role = ''toolResult''
                           then Some (JObj message) else None
                       | _ \<Rightarrow> None)
                  | _ \<Rightarrow> None)
               else None
           | _ \<Rightarrow> None)
      | _ \<Rightarrow> None)"

text \<open>An assistant message carries a usage value (the one field read unchecked).\<close>

definition hasUsage :: "json \<Rightarrow> bool" where
  "hasUsage message =
     (getProp message ''role'' \<noteq> Some (JStr ''assistant'')
      \<or> (getProp message ''usage'' \<noteq> None \<and> getProp message ''usage'' \<noteq> Some JNull))"

definition usableLine :: "(string \<Rightarrow> json option) \<Rightarrow> string \<Rightarrow> bool" where
  "usableLine jsonParse line =
     (case acceptedLine jsonParse line of None \<Rightarrow> True | Some message \<Rightarrow> hasUsage message)"

text \<open>Sample lines of an event stream and a stand-in for \<open>JSON.parse\<close> on them.\<close>

definition userLine :: string where
  \<open>userLine = ''{"type":"message_end","message":{"role":"user"}}''\<close>

definition toolLine :: string where
  \<open>toolLine = ''{"type":"tool_result_end","message":{"role":"toolResult"}}''\<close>

definition userMessage :: json where
  "userMessage = JObj [(''role'', JStr ''user'')]"

definition toolMessage :: json where
  "toolMessage = JObj [(''role'', JStr ''toolResult'')]"

text \<open>Two assistant messages: one without the optional usage, one with a usage but
  without content.\<close>

definition assistantLine :: string where
  \<open>assistantLine =
     ''{"type":"message_end","message":{"role":"assistant","content":[{"type":"text","text":"hi"}]}}''\<close>

definition assistantMessage :: json where
  "assistantMessage = JObj [(''role'', JStr ''assistant''),
     (''content'', JArr [JObj [(''type'', JStr ''text''), (''text'', JStr ''hi'')]])]"

definition bareLine :: string where
  \<open>bareLine = ''{"type":"message_end","message":{"role":"assistant","usage":{}}}''\<close>

definition bareMessage :: json where
  "bareMessage = JObj [(''role'', JStr ''assistant''), (''usage'', JObj [])]"

definition exampleParse :: "string \<Rightarrow> json option" where
  "exampleParse line =
     (if line = userLine
      then Some (JObj [(''type'', JStr ''message_end''), (''message'', userMessage)])
      else if line = toolLine
      then Some (JObj [(''type'', JStr ''tool_result_end''), (''message'', toolMessage)])
      else if line = assistantLine
      then Some (JObj [(''type'', JStr ''message_end''), (''message'', assistantMessage)])
      else if line = bareLine
      then Some (JObj [(''type'', JStr ''message_end''), (''message'', bareMessage)])
      else if line = ''[1]'' then Some (JArr [JNum 1])
      else None)"

definition exampleChunks :: "string list" where
  "exampleChunks =
     [take 20 userLine,
      drop 20 userLine @ [CHR 0x0A] @ ''not json'' @ [CHR 0x0A] @ ''[1]'' @ [CHR 0x0A] @ toolLine]"

definition exampleLines :: "string list" where
  "exampleLines = [userLine, ''not json'', ''[1]'', toolLine]"

text \<open>A host callback that returns.\<close>

definition hostUpdate :: OnUpdate where
  "hostUpdate text results = None"

definition exampleWorld :: World where
  "exampleWorld =
     \<lparr>w_jsonParse = exampleParse,
      w_createForkSession = (\<lambda>index sessionFile. Inl ''copy failed''),
      w_process = (\<lambda>index args. [Stdout userLine, Abort, Close (Some 0)])\<rparr>"

definition exampleOptions :: RunOptions where
  "exampleOptions =
     \<lparr>o_item = exampleItem, o_subprocessPrompt = ''hi'', o_index = None,
      o_subprocessArgs = [''-p''], o_modelLabel = None, o_thinking = ''low'', o_fork = False,
      o_sessionFile = None, o_onResultUpdate = Some (emitSingleUpdate (Some hostUpdate))\<rparr>"

text \<open>The state in which the listeners start.\<close>

definition startState :: RunState where
  "startState =
     \<lparr>rs_result = initialResult exampleOptions, rs_buffer = [], rs_aborted = False,
      rs_settled = None\<rparr>"





text \<open>What a call returns when the request does not normalise.\<close>

definition rejection :: "Host \<Rightarrow> ToolOptions \<Rightarrow> string \<Rightarrow> ToolResult" where
  "rejection host options error =
     \<lparr>t_text = JStr (error @ [CHR 0x0A]
               @ availableSkillsText (h_skills host) (to_skillListLimit options)),
      t_mode = Single, t_modelOverride = None, t_results = [], t_isError = False\<rparr>"

text \<open>The task count of a request is outside what its type allows.\<close>

definition countViolation :: "string \<Rightarrow> nat \<Rightarrow> int \<Rightarrow> bool" where
  "countViolation mode count maxParallelTasks =
     (if mode = ''single'' then count \<noteq> 1
      else (mode = ''parallel'' \<or> mode = ''chain'') \<and> (count = 0 \<or> int count > maxParallelTasks))"

text \<open>An entry of \<open>tasks\<close> asks for a fork: \<open>fork\<close> is \<open>true\<close>, or absent, which defaults to
  \<open>true\<close>.\<close>

definition asksFork :: "json \<Rightarrow> bool" where
  "asksFork e = (getProp e ''fork'' = Some (JBool True) \<or> getProp e ''fork'' = None)"

text \<open>Sample hosts, with and without a session file, and sample options.\<close>

definition exampleHost :: Host where
  "exampleHost =
     \<lparr>h_skills = [], h_readFile = (\<lambda>path. Inl ''no such file''), h_thinkingLevel = ''low'',
      h_activeTools = [], h_model = None, h_sessionFile = None, h_onUpdate = Some hostUpdate,
      h_toString = (\<lambda>v. ''undefined'')\<rparr>"

definition exampleToolOptions :: ToolOptions where
  "exampleToolOptions =
     \<lparr>to_maxParallelTasks = MAX_PARALLEL_TASKS, to_maxConcurrency = 4, to_skillListLimit = 30\<rparr>"

text \<open>Sample requests: nine parallel tasks; a single request without tasks and with a
  model that is not a string; a chain of two steps of which the second asks for a
  fork.\<close>

definition nineTasks :: json where
  "nineTasks = JObj [(''type'', JStr ''parallel''),
     (''tasks'', JArr (replicate 9 (JObj [(''prompt'', JStr ''hi''), (''fork'', JBool False)])))]"

definition badModelRequest :: json where
  "badModelRequest = JObj [(''type'', JStr ''single''), (''tasks'', JArr []), (''model'', JNum 5)]"

definition forkChain :: json where
  "forkChain = JObj [(''type'', JStr ''chain''),
     (''tasks'', JArr [JObj [(''prompt'', JStr ''hi''), (''fork'', JBool False)],
        JObj [(''prompt'', JStr ''there'')]])]"

definition badThinkingRequest :: json where
  "badThinkingRequest = JObj [(''type'', JStr ''chain''), (''tasks'', JArr []),
     (''thinking'', JStr ''max'')]"

text \<open>A chain of three steps in which the process of step 1 reports \<open>X is here\<close> and the
  process of step 2 exits with code 1: the request, what it normalises to, what the
  processes do, and the results of the steps.\<close>

definition chainRequest :: json where
  "chainRequest = JObj [(''type'', JStr ''chain''),
     (''tasks'', JArr [JObj [(''prompt'', JStr ''find X''), (''fork'', JBool False)],
        JObj [(''prompt'', JStr ''summarize: {previous}''), (''fork'', JBool False)],
        JObj [(''prompt'', JStr ''report''), (''fork'', JBool False)]])]"

definition chainItems :: "TaskWorkItem list" where
  "chainItems =
     [exampleItem\<lparr>i_prompt := ''find X''\<rparr>, exampleItem\<lparr>i_prompt := ''summarize: {previous}''\<rparr>,
      exampleItem\<lparr>i_prompt := ''report''\<rparr>]"

definition chainContext :: CallContext where
  "chainContext =
     \<lparr>cc_normalized = \<lparr>n_mode = Chain, n_model = None, n_thinking = ''inherit'',
                        n_items = chainItems\<rparr>,
      cc_skillState = createSkillPromptState [], cc_inheritedThinking = ''low'',
      cc_builtInTools = [], cc_ctxModel = None, cc_sessionFile = None\<rparr>"

definition foundLine :: string where
  \<open>foundLine =
     ''{"type":"message_end","message":{"role":"assistant","content":[{"type":"text","text":"X is here"}],"usage":{}}}''\<close>

definition foundMessage :: json where
  "foundMessage = JObj [(''role'', JStr ''assistant''),
     (''content'', JArr [JObj [(''type'', JStr ''text''), (''text'', JStr ''X is here'')]]),
     (''usage'', JObj [])]"

definition chainWorld :: World where
  "chainWorld =
     \<lparr>w_jsonParse = (\<lambda>line. if line = foundLine
          then Some (JObj [(''type'', JStr ''message_end''), (''message'', foundMessage)])
          else None),
      w_createForkSession = (\<lambda>index sessionFile. Inl ''copy failed''),
      w_process = (\<lambda>index args. if index = Some 1
          then [Stdout (foundLine @ [CHR 0x0A]), Close (Some 0)]
          else [Stderr ''boom'', Close (Some 1)])\<rparr>"

definition chainArgs :: "string list" where
  "chainArgs = [''--mode'', ''json'', ''-p'', ''--no-session'', ''--no-extensions'',
     ''--thinking'', ''low'', ''--no-tools'']"

definition foundResult :: SingleResult where
  "foundResult =
     \<lparr>r_prompt = ''find X'', r_skill = None, r_exitCode = 0, r_messages = [foundMessage],
      r_stderr = [], r_usage = zeroUsage\<lparr>u_turns := 1\<rparr>, r_model = None,
      r_thinking = Some ''low'', r_fork = Some False, r_stopReason = None,
      r_errorMessage = None, r_index = Some 1\<rparr>"

definition failedResult :: SingleResult where
  "failedResult =
     \<lparr>r_prompt = ''summarize: X is here'', r_skill = None, r_exitCode = 1, r_messages = [],
      r_stderr = ''boom'', r_usage = zeroUsage, r_model = None,
      r_thinking = Some ''low'', r_fork = Some False, r_stopReason = None,
      r_errorMessage = None, r_index = Some 2\<rparr>"

definition pendingResult :: SingleResult where
  "pendingResult =
     \<lparr>r_prompt = ''report'', r_skill = None, r_exitCode = - 2, r_messages = [],
      r_stderr = [], r_usage = zeroUsage, r_model = None,
      r_thinking = None, r_fork = Some False, r_stopReason = None,
      r_errorMessage = None, r_index = Some 3\<rparr>"

text \<open>The step the sample chain is at after step 1: its placeholders and its log.\<close>

definition afterStepOne :: "SingleResult list" where
  "afterStepOne =
     [foundResult,
      createPlaceholderResult
        (exampleItem\<lparr>i_prompt := buildPendingPrompt ''summarize: {previous}''\<rparr>) (Some 2)
        None None (- 2),
      pendingResult]"

definition stepOneLog :: "(nat \<times> string list list) list" where
  "stepOneLog = [(1, [chainArgs @ [''find X'']])]"

text \<open>Two items that do not resolve: a model that is not of the shape, a skill that
  is not known.\<close>

definition badModelItem :: TaskWorkItem where
  "badModelItem = exampleItem\<lparr>i_prompt := ''report'', i_model := Some ''acme''\<rparr>"

definition badSkillItem :: TaskWorkItem where
  "badSkillItem = exampleItem\<lparr>i_prompt := ''report'', i_skill := Some ''nope''\<rparr>"

section \<open>Aggregated usage\<close>

lemma fold_addUsage:
  "fold addUsage rs acc =
     \<lparr>u_input = u_input acc + sum_list (map (u_input \<circ> r_usage) rs),
      u_output = u_output acc + sum_list (map (u_output \<circ> r_usage) rs),
      u_cacheRead = u_cacheRead acc + sum_list (map (u_cacheRead \<circ> r_usage) rs),
      u_cacheWrite = u_cacheWrite acc + sum_list (map (u_cacheWrite \<circ> r_usage) rs),
      u_cost = u_cost acc + sum_list (map (u_cost \<circ> r_usage) rs),
      u_contextTokens = u_contextTokens acc,
      u_turns = u_turns acc + sum_list (map (u_turns \<circ> r_usage) rs)\<rparr>"
proof (induction rs arbitrary: acc)
  case Nil
  show ?case by simp
next
  case (Cons r rs)
  show ?case
    by (simp only: fold.simps comp_apply Cons.IH) (simp add: addUsage_def add.assoc)
qed

text \<open>
  C3, as the code has it: the aggregate is the sum, task by task, of the input, output,
  cacheRead, cacheWrite, cost and turns fields; its contextTokens field is always 0
  (the snapshot of a task's context is not added up); no task gives all-zero stats.
\<close>

theorem aggregateUsage_sums:
  "aggregateUsage rs =
     (fieldwiseSum (map r_usage rs)) \<lparr>u_contextTokens := 0\<rparr>
   \<and> aggregateUsage [] = zeroUsage"
  by (simp add: aggregateUsage_def fold_addUsage fieldwiseSum_def zeroUsage_def comp_def)

theorem aggregateUsage_sums_witness:
  "aggregateUsage [exampleResult, exampleResult] =
     \<lparr>u_input = 20, u_output = 8, u_cacheRead = 0, u_cacheWrite = 0, u_cost = 2,
      u_contextTokens = 0, u_turns = 2\<rparr>"
  using aggregateUsage_sums [of "[exampleResult, exampleResult]"]
  by (simp add: fieldwiseSum_def exampleResult_def)

text \<open>
  C3 as stated fails on contextTokens: one task with a context of 14 tokens aggregates
  to 0, not to 14.
\<close>

theorem aggregateUsage_contextTokens_counterexample:
  "aggregateUsage [exampleResult] \<noteq> fieldwiseSum (map r_usage [exampleResult])
   \<and> u_contextTokens (aggregateUsage [exampleResult]) = 0
   \<and> u_contextTokens (fieldwiseSum (map r_usage [exampleResult])) = 14"
  by (simp add: aggregateUsage_def addUsage_def zeroUsage_def fieldwiseSum_def exampleResult_def)

section \<open>Model resolution\<close>

lemma takeWhile_first: "c \<notin> set p \<Longrightarrow> takeWhile (\<lambda>x. x \<noteq> c) (p @ c # m) = p"
  by (induction p) auto

lemma dropWhile_first: "c \<notin> set p \<Longrightarrow> dropWhile (\<lambda>x. x \<noteq> c) (p @ c # m) = c # m"
  by (induction p) auto

lemma hasProviderModelShape_iff:
  "hasProviderModelShape t \<longleftrightarrow>
     (\<exists>p m. t = p @ ''/'' @ m \<and> p \<noteq> [] \<and> m \<noteq> [] \<and> CHR ''/'' \<notin> set p)"
proof
  assume h: "hasProviderModelShape t"
  then have "CHR ''/'' \<in> set t" by (simp add: hasProviderModelShape_def)
  then obtain p r where eq: "t = p @ CHR ''/'' # r" and np: "CHR ''/'' \<notin> set p"
    by (auto dest: split_list_first)
  from h have "p \<noteq> []" "r \<noteq> []"
    by (simp_all add: hasProviderModelShape_def eq takeWhile_first [OF np] dropWhile_first [OF np])
  with eq np show "\<exists>p m. t = p @ ''/'' @ m \<and> p \<noteq> [] \<and> m \<noteq> [] \<and> CHR ''/'' \<notin> set p"
    by auto
next
  assume "\<exists>p m. t = p @ ''/'' @ m \<and> p \<noteq> [] \<and> m \<noteq> [] \<and> CHR ''/'' \<notin> set p"
  then obtain p m where t: "t = p @ CHR ''/'' # m" and p: "p \<noteq> []" and m: "m \<noteq> []"
    and np: "CHR ''/'' \<notin> set p" by auto
  show "hasProviderModelShape t"
    by (simp add: hasProviderModelShape_def t takeWhile_first [OF np] dropWhile_first [OF np] p m)
qed

lemma parseProviderModel_shape:
  \<open>parseProviderModel m =
     (if hasProviderModelShape (trim m)
      then Inr \<lparr>pm_provider = takeWhile (\<lambda>x. x \<noteq> CHR ''/'') (trim m),
                pm_modelId = tl (dropWhile (\<lambda>x. x \<noteq> CHR ''/'') (trim m)),
                pm_label = trim m\<rparr>
      else Inl (''Invalid model format: "'' @ m @ ''". Expected provider/modelId.''))\<close>
proof (cases "CHR ''/'' \<in> set (trim m)")
  case False
  then show ?thesis
    by (simp add: parseProviderModel_def hasProviderModelShape_def indexOf_def)
next
  case True
  then obtain p r where eq: "trim m = p @ CHR ''/'' # r" and np: "CHR ''/'' \<notin> set p"
    by (auto dest: split_list_first)
  show ?thesis
    by (auto simp: parseProviderModel_def hasProviderModelShape_def indexOf_def
        Let_def eq takeWhile_first [OF np] dropWhile_first [OF np])
qed

lemma resolveTaskConfig_decided:
  "m \<noteq> [] \<Longrightarrow> orElse (i_model item) dm = Some m \<Longrightarrow>
   resolveTaskConfig item dm dt it ctx tools = decidedBy m (thinkingOf item dt it) tools"
  by (simp add: resolveTaskConfig_def resolveModel_def parseProviderModel_shape decidedBy_def
      configWith_def modelFlags_def thinkingOf_def buildSubprocessArgs_def Let_def)

lemma resolveTaskConfig_inherited:
  "orElse (i_model item) dm = None \<or> orElse (i_model item) dm = Some [] \<Longrightarrow>
   resolveTaskConfig item dm dt it ctx tools = Inr (inheritedConfig ctx (thinkingOf item dt it) tools)"
  by (cases ctx)
     (auto simp: resolveTaskConfig_def resolveModel_def inheritedConfig_def
      configWith_def thinkingOf_def buildSubprocessArgs_def Let_def)

text \<open>
  C4, as the code has it. One model string decides, and only that one is checked: the
  model of the item when it is a non-empty string, whatever the shared default is;
  without a model on the item, the shared default when it is a non-empty string. The
  string that decides is trimmed: of the shape provider/modelId it gives the label and
  the provider and model handed to the subprocess, of any other shape the format
  error. When no string decides (no model on the item and no or an empty shared
  default, or an empty model on the item) the inherited session model is taken, or no
  model at all.
\<close>

theorem resolveTaskConfig_model_precedence:
  "(i_model item = Some m \<and> m \<noteq> [] \<longrightarrow>
      resolveTaskConfig item dm dt it ctx tools = decidedBy m (thinkingOf item dt it) tools)
   \<and> (i_model item = None \<and> dm = Some d \<and> d \<noteq> [] \<longrightarrow>
      resolveTaskConfig item dm dt it ctx tools = decidedBy d (thinkingOf item dt it) tools)
   \<and> (i_model item = Some [] \<or> (i_model item = None \<and> (dm = None \<or> dm = Some [])) \<longrightarrow>
      resolveTaskConfig item dm dt it ctx tools
        = Inr (inheritedConfig ctx (thinkingOf item dt it) tools))"
proof (intro conjI impI)
  assume "i_model item = Some m \<and> m \<noteq> []"
  then show "resolveTaskConfig item dm dt it ctx tools = decidedBy m (thinkingOf item dt it) tools"
    by (intro resolveTaskConfig_decided) (simp_all add: orElse_def)
next
  assume "i_model item = None \<and> dm = Some d \<and> d \<noteq> []"
  then show "resolveTaskConfig item dm dt it ctx tools = decidedBy d (thinkingOf item dt it) tools"
    by (intro resolveTaskConfig_decided) (simp_all add: orElse_def)
next
  assume "i_model item = Some [] \<or> (i_model item = None \<and> (dm = None \<or> dm = Some []))"
  then show "resolveTaskConfig item dm dt it ctx tools
        = Inr (inheritedConfig ctx (thinkingOf item dt it) tools)"
    by (intro resolveTaskConfig_inherited) (auto simp: orElse_def)
qed

lemma trim_samples:
  "trim ''acme/modelZ'' = ''acme/modelZ''" "trim ''acme/modelY'' = ''acme/modelY''"
  "trim ''acme'' = ''acme''" "trim ''a/b'' = ''a/b''" "trim ''hi'' = ''hi''"
  "trim '' '' = []" "trim ''  '' = []" "trim [] = []"
  by (simp_all add: trim_def stripSeqs.simps whiteSpaceSeqs_def)

theorem resolveTaskConfig_model_precedence_witness:
  \<open>resolveTaskConfig (exampleItem\<lparr>i_model := Some ''acme/modelZ''\<rparr>)
       (Some ''acme/modelY'') ''inherit'' ''low'' exampleCtx []
     = Inr \<lparr>c_thinkingLevel = ''low'',
            c_subprocessArgs = [''--mode'', ''json'', ''-p'', ''--no-session'', ''--no-extensions'',
              ''--provider'', ''acme'', ''--model'', ''modelZ'', ''--thinking'', ''low'',
              ''--no-tools''],
            c_modelLabel = Some ''acme/modelZ''\<rparr>
   \<and> resolveTaskConfig exampleItem (Some ''acme/modelY'') ''inherit'' ''low'' exampleCtx []
     = Inr \<lparr>c_thinkingLevel = ''low'',
            c_subprocessArgs = [''--mode'', ''json'', ''-p'', ''--no-session'', ''--no-extensions'',
              ''--provider'', ''acme'', ''--model'', ''modelY'', ''--thinking'', ''low'',
              ''--no-tools''],
            c_modelLabel = Some ''acme/modelY''\<rparr>
   \<and> resolveTaskConfig exampleItem None ''inherit'' ''low'' exampleCtx []
     = Inr \<lparr>c_thinkingLevel = ''low'',
            c_subprocessArgs = [''--mode'', ''json'', ''-p'', ''--no-session'', ''--no-extensions'',
              ''--provider'', ''acme'', ''--model'', ''modelX'', ''--thinking'', ''low'',
              ''--no-tools''],
            c_modelLabel = Some ''acme/modelX''\<rparr>
   \<and> resolveTaskConfig exampleItem (Some ''acme'') ''inherit'' ''low'' exampleCtx []
     = Inl ''Invalid model format: "acme". Expected provider/modelId.''
   \<and> resolveTaskConfig (exampleItem\<lparr>i_model := Some ''a/b''\<rparr>)
       (Some ''acme'') ''inherit'' ''low'' None [''read'']
     = Inr \<lparr>c_thinkingLevel = ''low'',
            c_subprocessArgs = [''--mode'', ''json'', ''-p'', ''--no-session'', ''--no-extensions'',
              ''--provider'', ''a'', ''--model'', ''b'', ''--thinking'', ''low'',
              ''--tools'', ''read''],
            c_modelLabel = Some ''a/b''\<rparr>\<close>
  using
    resolveTaskConfig_model_precedence [of "exampleItem\<lparr>i_model := Some ''acme/modelZ''\<rparr>"
      "''acme/modelZ''" "Some ''acme/modelY''" "''inherit''" "''low''" exampleCtx "[]"
      "''acme/modelY''"]
    resolveTaskConfig_model_precedence [of exampleItem "''x''" "Some ''acme/modelY''"
      "''inherit''" "''low''" exampleCtx "[]" "''acme/modelY''"]
    resolveTaskConfig_model_precedence [of exampleItem "''x''" None
      "''inherit''" "''low''" exampleCtx "[]" "''x''"]
    resolveTaskConfig_model_precedence [of exampleItem "''x''" "Some ''acme''"
      "''inherit''" "''low''" exampleCtx "[]" "''acme''"]
    resolveTaskConfig_model_precedence [of "exampleItem\<lparr>i_model := Some ''a/b''\<rparr>"
      "''a/b''" "Some ''acme''" "''inherit''" "''low''" None "[''read'']" "''acme''"]
  by (simp add: decidedBy_def trim_samples hasProviderModelShape_def modelFlags_def
      configWith_def inheritedConfig_def thinkingOf_def resolveThinkingLevel_def
      exampleItem_def exampleCtx_def)

text \<open>
  C4 as stated fails twice. A provided string that is empty or white space only is
  dropped without an error: the request \<open>blankRequest\<close> provides the model strings \<open>" "\<close>
  (shared default) and \<open>""\<close> (item), neither of the shape; it normalises with both absent
  and resolves with no model. And a provided string that does not decide is never
  checked: \<open>shadowRequest\<close> provides the shared default \<open>"acme"\<close>, not of the shape, and the
  item model \<open>"a/b"\<close>; normalisation keeps both and resolution succeeds with a/b.
\<close>

theorem blank_model_counterexample:
  "\<not> hasProviderModelShape '' '' \<and> \<not> hasProviderModelShape []
   \<and> normalizeTaskParams blankRequest MAX_PARALLEL_TASKS
       = Inr \<lparr>n_mode = Single, n_model = None, n_thinking = ''inherit'', n_items = [exampleItem]\<rparr>
   \<and> resolveTaskConfig exampleItem None ''inherit'' ''low'' None []
       = Inr \<lparr>c_thinkingLevel = ''low'',
              c_subprocessArgs = [''--mode'', ''json'', ''-p'', ''--no-session'',
                ''--no-extensions'', ''--thinking'', ''low'', ''--no-tools''],
              c_modelLabel = None\<rparr>
   \<and> \<not> hasProviderModelShape ''acme''
   \<and> normalizeTaskParams shadowRequest MAX_PARALLEL_TASKS
       = Inr \<lparr>n_mode = Single, n_model = Some ''acme'', n_thinking = ''inherit'',
              n_items = [exampleItem\<lparr>i_model := Some ''a/b''\<rparr>]\<rparr>
   \<and> resolveTaskConfig (exampleItem\<lparr>i_model := Some ''a/b''\<rparr>) (Some ''acme'') ''inherit''
         ''low'' None []
       = Inr \<lparr>c_thinkingLevel = ''low'',
              c_subprocessArgs = [''--mode'', ''json'', ''-p'', ''--no-session'',
                ''--no-extensions'', ''--provider'', ''a'', ''--model'', ''b'',
                ''--thinking'', ''low'', ''--no-tools''],
              c_modelLabel = Some ''a/b''\<rparr>"
proof -
  have shapes: "\<not> hasProviderModelShape '' ''" "\<not> hasProviderModelShape []"
    "\<not> hasProviderModelShape ''acme''"
    by (simp_all add: hasProviderModelShape_def)
  have n1: "normalizeTaskParams blankRequest MAX_PARALLEL_TASKS
       = Inr \<lparr>n_mode = Single, n_model = None, n_thinking = ''inherit'', n_items = [exampleItem]\<rparr>"
    by (simp add: normalizeTaskParams_def blankRequest_def parseTaskItems_def parseTaskItem_def
        trim_samples exampleItem_def MAX_PARALLEL_TASKS_def)
  have n2: "normalizeTaskParams shadowRequest MAX_PARALLEL_TASKS
       = Inr \<lparr>n_mode = Single, n_model = Some ''acme'', n_thinking = ''inherit'',
              n_items = [exampleItem\<lparr>i_model := Some ''a/b''\<rparr>]\<rparr>"
    by (simp add: normalizeTaskParams_def shadowRequest_def parseTaskItems_def parseTaskItem_def
        trim_samples exampleItem_def MAX_PARALLEL_TASKS_def)
  have r1: "resolveTaskConfig exampleItem None ''inherit'' ''low'' None []
       = Inr \<lparr>c_thinkingLevel = ''low'',
              c_subprocessArgs = [''--mode'', ''json'', ''-p'', ''--no-session'',
                ''--no-extensions'', ''--thinking'', ''low'', ''--no-tools''],
              c_modelLabel = None\<rparr>"
    by (simp add: resolveTaskConfig_def resolveModel_def orElse_def buildSubprocessArgs_def
        resolveThinkingLevel_def exampleItem_def Let_def)
  have r2: "resolveTaskConfig (exampleItem\<lparr>i_model := Some ''a/b''\<rparr>) (Some ''acme'') ''inherit''
         ''low'' None []
       = Inr \<lparr>c_thinkingLevel = ''low'',
              c_subprocessArgs = [''--mode'', ''json'', ''-p'', ''--no-session'',
                ''--no-extensions'', ''--provider'', ''a'', ''--model'', ''b'',
                ''--thinking'', ''low'', ''--no-tools''],
              c_modelLabel = Some ''a/b''\<rparr>"
    by (simp add: resolveTaskConfig_def resolveModel_def orElse_def buildSubprocessArgs_def
        resolveThinkingLevel_def exampleItem_def Let_def parseProviderModel_def trim_samples
        indexOf_def)
  from shapes n1 n2 r1 r2 show ?thesis by blast
qed

section \<open>Blank overrides\<close>

lemma map_of_filter_key:
  "map_of (filter (\<lambda>kv. fst kv \<noteq> k) kvs) k' = (if k' = k then None else map_of kvs k')"
  by (induction kvs) auto

lemma getProp_delProp:
  "getProp (delProp k v) k' = (if k' = k then None else getProp v k')"
  by (cases v) (simp_all add: map_of_filter_key)

lemma isRecord_delProp: "isRecord (delProp k v) = isRecord v"
  by (cases v) simp_all

lemma getProp_dropBlank_other: "k' \<noteq> k \<Longrightarrow> getProp (dropBlank k v) k' = getProp v k'"
  by (simp add: dropBlank_def getProp_delProp split: option.splits json.splits)

lemma isRecord_dropBlank: "isRecord (dropBlank k v) = isRecord v"
  by (simp add: dropBlank_def isRecord_delProp split: option.splits json.splits)

lemma normalizeModelInput_dropBlank:
  "normalizeModelInput (getProp (dropBlank k v) k) label = normalizeModelInput (getProp v k) label"
  by (simp add: dropBlank_def getProp_delProp split: option.splits json.splits)

lemma normalizeThinkingInput_dropBlank:
  "normalizeThinkingInput (getProp (dropBlank k v) k) label
     = normalizeThinkingInput (getProp v k) label"
  by (simp add: dropBlank_def getProp_delProp split: option.splits json.splits)

lemma isRecord_dropBlankOverrides: "isRecord (dropBlankOverrides v) = isRecord v"
  by (simp add: dropBlankOverrides_def isRecord_dropBlank)

lemma getProp_dropBlankOverrides_other:
  "k \<noteq> ''model'' \<Longrightarrow> k \<noteq> ''thinking'' \<Longrightarrow> getProp (dropBlankOverrides v) k = getProp v k"
  by (simp add: dropBlankOverrides_def getProp_dropBlank_other)

lemma normalizeModelInput_dropBlankOverrides:
  "normalizeModelInput (getProp (dropBlankOverrides v) ''model'') label
     = normalizeModelInput (getProp v ''model'') label"
  by (simp add: dropBlankOverrides_def getProp_dropBlank_other normalizeModelInput_dropBlank)

lemma normalizeThinkingInput_dropBlankOverrides:
  "normalizeThinkingInput (getProp (dropBlankOverrides v) ''thinking'') label
     = normalizeThinkingInput (getProp v ''thinking'') label"
proof -
  have "normalizeThinkingInput (getProp (dropBlankOverrides v) ''thinking'') label
      = normalizeThinkingInput (getProp (dropBlank ''model'' v) ''thinking'') label"
    unfolding dropBlankOverrides_def by (rule normalizeThinkingInput_dropBlank)
  then show ?thesis by (simp add: getProp_dropBlank_other)
qed

lemma parseTaskItem_dropBlankOverrides:
  "parseTaskItem index (dropBlankOverrides e) = parseTaskItem index e"
proof -
  have p: "getProp (dropBlankOverrides e) ''prompt'' = getProp e ''prompt''"
    by (rule getProp_dropBlankOverrides_other) simp_all
  have s: "getProp (dropBlankOverrides e) ''skill'' = getProp e ''skill''"
    by (rule getProp_dropBlankOverrides_other) simp_all
  have f: "getProp (dropBlankOverrides e) ''fork'' = getProp e ''fork''"
    by (rule getProp_dropBlankOverrides_other) simp_all
  show ?thesis
    unfolding parseTaskItem_def isRecord_dropBlankOverrides p s f
      normalizeModelInput_dropBlankOverrides normalizeThinkingInput_dropBlankOverrides ..
qed

lemma parseTaskItemsFrom_dropBlankOverrides:
  "parseTaskItemsFrom index (map dropBlankOverrides ts) = parseTaskItemsFrom index ts"
proof (induction ts arbitrary: index)
  case Nil
  show ?case by simp
next
  case (Cons a ts)
  show ?case
    unfolding list.map parseTaskItemsFrom.simps parseTaskItem_dropBlankOverrides Cons.IH ..
qed

lemma mapTasksEntry_pair: "mapTasksEntry f (k, v) = (k, mapTasksValue f k v)"
  by (cases v) (simp_all add: mapTasksEntry_def mapTasksValue_def)

lemma map_of_mapTasks:
  "map_of (map (mapTasksEntry f) kvs) k = map_option (mapTasksValue f k) (map_of kvs k)"
proof (induction kvs)
  case Nil
  show ?case by simp
next
  case (Cons kv kvs)
  obtain k' v' where kv: "kv = (k', v')" by (cases kv)
  show ?case by (simp add: kv mapTasksEntry_pair Cons.IH)
qed

lemma getProp_mapTasks:
  "getProp (mapTasks f v) k = map_option (mapTasksValue f k) (getProp v k)"
  by (cases v) (simp_all add: map_of_mapTasks)

lemma isRecord_mapTasks: "isRecord (mapTasks f v) = isRecord v"
  by (cases v) simp_all

lemma parseTaskItems_dropBlankOverrides:
  "parseTaskItems (map dropBlankOverrides ts) = parseTaskItems ts"
  by (simp add: parseTaskItems_def parseTaskItemsFrom_dropBlankOverrides)

lemma map_option_mapTasksValue_other:
  "k \<noteq> ''tasks'' \<Longrightarrow> map_option (mapTasksValue f k) x = x"
  by (cases x) (simp_all add: mapTasksValue_def)

lemma isRecord_dropBlankRequest: "isRecord (dropBlankRequest params) = isRecord params"
  by (simp add: dropBlankRequest_def isRecord_dropBlankOverrides isRecord_mapTasks)

lemma getProp_dropBlankRequest_type:
  "getProp (dropBlankRequest params) ''type'' = getProp params ''type''"
  by (simp add: dropBlankRequest_def getProp_dropBlankOverrides_other getProp_mapTasks
      map_option_mapTasksValue_other)

lemma normalizeModelInput_dropBlankRequest:
  "normalizeModelInput (getProp (dropBlankRequest params) ''model'') label
     = normalizeModelInput (getProp params ''model'') label"
  by (simp add: dropBlankRequest_def normalizeModelInput_dropBlankOverrides getProp_mapTasks
      map_option_mapTasksValue_other)

lemma normalizeThinkingInput_dropBlankRequest:
  "normalizeThinkingInput (getProp (dropBlankRequest params) ''thinking'') label
     = normalizeThinkingInput (getProp params ''thinking'') label"
  by (simp add: dropBlankRequest_def normalizeThinkingInput_dropBlankOverrides getProp_mapTasks
      map_option_mapTasksValue_other)

lemma rawTasks_dropBlankRequest:
  "(case getProp (dropBlankRequest params) ''tasks'' of Some (JArr ts) \<Rightarrow> ts | _ \<Rightarrow> [])
     = map dropBlankOverrides (case getProp params ''tasks'' of Some (JArr ts) \<Rightarrow> ts | _ \<Rightarrow> [])"
  by (simp add: dropBlankRequest_def getProp_dropBlankOverrides_other getProp_mapTasks
      mapTasksValue_def split: option.splits json.splits)

lemma normalizeModelInput_blank:
  "blankOrAbsent v \<Longrightarrow> normalizeModelInput v label = Inr None"
  by (cases v) (auto simp: blankOrAbsent_def isBlank_def split: json.splits)

lemma normalizeThinkingInput_blank:
  "blankOrAbsent v \<Longrightarrow> normalizeThinkingInput v label = Inr None"
  by (cases v) (auto simp: blankOrAbsent_def isBlank_def split: json.splits)

lemma normalizeForkInput_forkOf:
  "forkOf e \<noteq> None \<Longrightarrow> normalizeForkInput (getProp e ''fork'') label = Inr (the (forkOf e))"
  by (auto simp: forkOf_def split: option.splits json.splits)

lemma parseTaskItem_plain: "plainEntry e \<Longrightarrow> parseTaskItem index e = Inr (plainItem e)"
proof -
  assume pe: "plainEntry e"
  then have r: "isRecord e"
    and ne: "\<not> (promptOf e = [] \<and> (skillOf e = None \<or> skillOf e = Some []))"
    and m: "blankOrAbsent (getProp e ''model'')" and t: "blankOrAbsent (getProp e ''thinking'')"
    and f: "forkOf e \<noteq> None"
    by (simp_all add: plainEntry_def)
  show ?thesis
    unfolding parseTaskItem_def promptOf_def [symmetric] skillOf_def [symmetric] Let_def
      normalizeModelInput_blank [OF m] normalizeThinkingInput_blank [OF t]
      normalizeForkInput_forkOf [OF f] plainItem_def
    using r ne by simp
qed

lemma parseTaskItemsFrom_plain:
  "list_all plainEntry ts \<Longrightarrow> parseTaskItemsFrom index ts = Inr (map plainItem ts)"
  by (induction ts arbitrary: index) (simp_all add: parseTaskItem_plain)

lemma parseTaskItem_blank:
  assumes "parseTaskItem index e = Inr item"
  shows "(isBlank (getProp e ''model'') \<longrightarrow> i_model item = None)
       \<and> (isBlank (getProp e ''thinking'') \<longrightarrow> i_thinking item = None)"
proof -
  from assms obtain mv tv where
    m: \<open>normalizeModelInput (getProp e ''model'') (''"tasks['' @ showNat index @ ''].model"'') = Inr mv\<close>
    and t: \<open>normalizeThinkingInput (getProp e ''thinking'')
              (''"tasks['' @ showNat index @ ''].thinking"'') = Inr tv\<close>
    and i: "i_model item = mv" "i_thinking item = tv"
    by (auto simp: parseTaskItem_def Let_def split: if_splits sum.splits)
  have "isBlank (getProp e ''model'') \<longrightarrow> mv = None"
    using m by (auto simp: isBlank_def split: option.splits json.splits)
  moreover have "isBlank (getProp e ''thinking'') \<longrightarrow> tv = None"
    using t by (auto simp: isBlank_def split: option.splits json.splits)
  ultimately show ?thesis by (simp add: i)
qed

lemma parseTaskItemsFrom_blank:
  "parseTaskItemsFrom index ts = Inr items \<Longrightarrow>
   length items = length ts
   \<and> (\<forall>j<length ts.
        (isBlank (getProp (ts ! j) ''model'') \<longrightarrow> i_model (items ! j) = None)
        \<and> (isBlank (getProp (ts ! j) ''thinking'') \<longrightarrow> i_thinking (items ! j) = None))"
proof (induction ts arbitrary: index items)
  case Nil
  then show ?case by simp
next
  case (Cons e ts)
  from Cons.prems obtain item rest where
    e: "parseTaskItem index e = Inr item"
    and r: "parseTaskItemsFrom (Suc index) ts = Inr rest"
    and items: "items = item # rest"
    by (auto split: sum.splits)
  note ih = Cons.IH [OF r]
  note hd = parseTaskItem_blank [OF e]
  show ?case
  proof (intro conjI allI impI)
    show "length items = length (e # ts)" using ih by (simp add: items)
  next
    fix j assume "j < length (e # ts)" "isBlank (getProp ((e # ts) ! j) ''model'')"
    then show "i_model (items ! j) = None"
      using ih hd by (cases j) (simp_all add: items)
  next
    fix j assume "j < length (e # ts)" "isBlank (getProp ((e # ts) ! j) ''thinking'')"
    then show "i_thinking (items ! j) = None"
      using ih hd by (cases j) (simp_all add: items)
  qed
qed

lemma normalizeTaskParams_Inr:
  assumes "normalizeTaskParams params mx = Inr n"
  shows \<open>\<exists>mv tv items.
           normalizeModelInput (getProp params ''model'') ''"model"'' = Inr mv
         \<and> normalizeThinkingInput (getProp params ''thinking'') ''"thinking"'' = Inr tv
         \<and> parseTaskItems (rawTasksOf params) = Inr items
         \<and> n_model n = mv \<and> n_thinking n = (case tv of Some t \<Rightarrow> t | None \<Rightarrow> ''inherit'')
         \<and> (n_items n = items \<or> (length (rawTasksOf params) = 1 \<and> n_items n = [items ! 0]))\<close>
proof -
  from assms obtain mode where ty: "getProp params ''type'' = Some (JStr mode)"
    and rec: "isRecord params"
    by (auto simp: normalizeTaskParams_def split: if_splits option.splits json.splits)
  from assms obtain mv where
    m: \<open>normalizeModelInput (getProp params ''model'') ''"model"'' = Inr mv\<close>
    by (cases "normalizeModelInput (getProp params ''model'') ''\"model\"''")
       (simp_all add: normalizeTaskParams_def ty rec)
  from assms obtain tv where
    t: \<open>normalizeThinkingInput (getProp params ''thinking'') ''"thinking"'' = Inr tv\<close>
    by (cases "normalizeThinkingInput (getProp params ''thinking'') ''\"thinking\"''")
       (simp_all add: normalizeTaskParams_def ty rec m)
  from assms obtain items where
    p: "parseTaskItems (rawTasksOf params) = Inr items"
    and v: "n_model n = mv" "n_thinking n = (case tv of Some t \<Rightarrow> t | None \<Rightarrow> ''inherit'')"
      "n_items n = items \<or> (length (rawTasksOf params) = 1 \<and> n_items n = [items ! 0])"
    unfolding normalizeTaskParams_def rawTasksOf_def [symmetric] Let_def
    by (cases "parseTaskItems (rawTasksOf params)")
       (auto simp: ty rec m t split: if_splits)
  with m t show ?thesis by blast
qed

lemma normalizeTaskParams_plain:
  assumes rec: "isRecord params" and ty: "getProp params ''type'' = Some (JStr mode)"
    and md: "mode \<in> {''single'', ''parallel'', ''chain''}"
    and cnt: "if mode = ''single'' then length (rawTasksOf params) = 1
              else rawTasksOf params \<noteq> [] \<and> int (length (rawTasksOf params)) \<le> mx"
    and m: "blankOrAbsent (getProp params ''model'')"
    and t: "blankOrAbsent (getProp params ''thinking'')"
    and es: "list_all plainEntry (rawTasksOf params)"
  shows "normalizeTaskParams params mx
       = Inr \<lparr>n_mode = modeNamed mode, n_model = None, n_thinking = ''inherit'',
              n_items = map plainItem (rawTasksOf params)\<rparr>"
proof -
  have p: "parseTaskItems (rawTasksOf params) = Inr (map plainItem (rawTasksOf params))"
    by (simp add: parseTaskItems_def parseTaskItemsFrom_plain [OF es])
  have one: "length (rawTasksOf params) = 1 \<Longrightarrow>
      [map plainItem (rawTasksOf params) ! 0] = map plainItem (rawTasksOf params)"
    by (cases "rawTasksOf params") simp_all
  show ?thesis
    unfolding normalizeTaskParams_def rawTasksOf_def [symmetric] Let_def
      normalizeModelInput_blank [OF m] normalizeThinkingInput_blank [OF t] p
    using rec ty md cnt one by (auto simp: modeNamed_def)
qed

text \<open>
  C10. A \<open>model\<close> or \<open>thinking\<close> field holding an empty or whitespace-only string counts as
  absent, at the top level and in every task entry:
  \<^item> each normaliser returns the absent value for it, and no error;
  \<^item> the request normalises to the same result, error or value, as the request
    without those fields;
  \<^item> a normalised request records no override for it: no shared model, the thinking
    level \<open>inherit\<close>, and no model or thinking on the item of the entry;
  \<^item> a request with a known type, a task count the type allows, and entries with a
    prompt or a skill and no overrides other than blank ones normalises without an
    error, to the items of its entries and no override at all.
\<close>

theorem blank_overrides_absent:
  "(trim s = [] \<longrightarrow>
      normalizeModelInput (Some (JStr s)) label = Inr None
      \<and> normalizeThinkingInput (Some (JStr s)) label = Inr None)
   \<and> normalizeTaskParams (dropBlankRequest params) mx = normalizeTaskParams params mx
   \<and> (normalizeTaskParams params mx = Inr n \<longrightarrow>
        (isBlank (getProp params ''model'') \<longrightarrow> n_model n = None)
        \<and> (isBlank (getProp params ''thinking'') \<longrightarrow> n_thinking n = ''inherit'')
        \<and> length (n_items n) = length (rawTasksOf params)
        \<and> (\<forall>j<length (rawTasksOf params).
             (isBlank (getProp (rawTasksOf params ! j) ''model'')
                \<longrightarrow> i_model (n_items n ! j) = None)
             \<and> (isBlank (getProp (rawTasksOf params ! j) ''thinking'')
                \<longrightarrow> i_thinking (n_items n ! j) = None)))
   \<and> (isRecord params \<and> getProp params ''type'' = Some (JStr mode)
      \<and> mode \<in> {''single'', ''parallel'', ''chain''}
      \<and> (if mode = ''single'' then length (rawTasksOf params) = 1
          else rawTasksOf params \<noteq> [] \<and> int (length (rawTasksOf params)) \<le> mx)
      \<and> blankOrAbsent (getProp params ''model'') \<and> blankOrAbsent (getProp params ''thinking'')
      \<and> list_all plainEntry (rawTasksOf params)
      \<longrightarrow> normalizeTaskParams params mx
            = Inr \<lparr>n_mode = modeNamed mode, n_model = None, n_thinking = ''inherit'',
                   n_items = map plainItem (rawTasksOf params)\<rparr>)"
proof (intro conjI)
  show "trim s = [] \<longrightarrow>
        normalizeModelInput (Some (JStr s)) label = Inr None
        \<and> normalizeThinkingInput (Some (JStr s)) label = Inr None"
    by simp
next
  show "normalizeTaskParams (dropBlankRequest params) mx = normalizeTaskParams params mx"
    unfolding normalizeTaskParams_def isRecord_dropBlankRequest getProp_dropBlankRequest_type
      normalizeModelInput_dropBlankRequest normalizeThinkingInput_dropBlankRequest
      rawTasks_dropBlankRequest Let_def length_map parseTaskItems_dropBlankOverrides ..
next
  show "normalizeTaskParams params mx = Inr n \<longrightarrow>
        (isBlank (getProp params ''model'') \<longrightarrow> n_model n = None)
        \<and> (isBlank (getProp params ''thinking'') \<longrightarrow> n_thinking n = ''inherit'')
        \<and> length (n_items n) = length (rawTasksOf params)
        \<and> (\<forall>j<length (rawTasksOf params).
             (isBlank (getProp (rawTasksOf params ! j) ''model'')
                \<longrightarrow> i_model (n_items n ! j) = None)
             \<and> (isBlank (getProp (rawTasksOf params ! j) ''thinking'')
                \<longrightarrow> i_thinking (n_items n ! j) = None))"
  proof
    assume ok: "normalizeTaskParams params mx = Inr n"
    from normalizeTaskParams_Inr [OF ok] obtain mv tv items where
      m: "normalizeModelInput (getProp params ''model'') ''\"model\"'' = Inr mv"
      and t: "normalizeThinkingInput (getProp params ''thinking'') ''\"thinking\"'' = Inr tv"
      and p: "parseTaskItemsFrom 0 (rawTasksOf params) = Inr items"
      and nm: "n_model n = mv"
      and nt: "n_thinking n = (case tv of Some t \<Rightarrow> t | None \<Rightarrow> ''inherit'')"
      and ni: "n_items n = items \<or> (length (rawTasksOf params) = 1 \<and> n_items n = [items ! 0])"
      by (auto simp: parseTaskItems_def)
    note its = parseTaskItemsFrom_blank [OF p]
    have a: "isBlank (getProp params ''model'') \<longrightarrow> n_model n = None"
      using m by (auto simp: nm isBlank_def split: option.splits json.splits)
    have b: "isBlank (getProp params ''thinking'') \<longrightarrow> n_thinking n = ''inherit''"
      using t by (auto simp: nt isBlank_def split: option.splits json.splits)
    have c: "length (n_items n) = length (rawTasksOf params)"
      using ni its by auto
    have d: "\<forall>j<length (rawTasksOf params).
             (isBlank (getProp (rawTasksOf params ! j) ''model'')
                \<longrightarrow> i_model (n_items n ! j) = None)
             \<and> (isBlank (getProp (rawTasksOf params ! j) ''thinking'')
                \<longrightarrow> i_thinking (n_items n ! j) = None)"
      using ni its by auto
    from a b c d show "(isBlank (getProp params ''model'') \<longrightarrow> n_model n = None)
        \<and> (isBlank (getProp params ''thinking'') \<longrightarrow> n_thinking n = ''inherit'')
        \<and> length (n_items n) = length (rawTasksOf params)
        \<and> (\<forall>j<length (rawTasksOf params).
             (isBlank (getProp (rawTasksOf params ! j) ''model'')
                \<longrightarrow> i_model (n_items n ! j) = None)
             \<and> (isBlank (getProp (rawTasksOf params ! j) ''thinking'')
                \<longrightarrow> i_thinking (n_items n ! j) = None))"
      by blast
  qed
next
  show "isRecord params \<and> getProp params ''type'' = Some (JStr mode)
      \<and> mode \<in> {''single'', ''parallel'', ''chain''}
      \<and> (if mode = ''single'' then length (rawTasksOf params) = 1
          else rawTasksOf params \<noteq> [] \<and> int (length (rawTasksOf params)) \<le> mx)
      \<and> blankOrAbsent (getProp params ''model'') \<and> blankOrAbsent (getProp params ''thinking'')
      \<and> list_all plainEntry (rawTasksOf params)
      \<longrightarrow> normalizeTaskParams params mx
            = Inr \<lparr>n_mode = modeNamed mode, n_model = None, n_thinking = ''inherit'',
                   n_items = map plainItem (rawTasksOf params)\<rparr>"
    by (intro impI normalizeTaskParams_plain) simp_all
qed

lemma trim_blank_samples:
  "trim nbsp = []" "trim (bom @ '' '') = []" "trim (nbsp @ bom) = []"
  "trim ''there'' = ''there''"
  by (simp_all add: nbsp_def bom_def trim_def stripSeqs.simps whiteSpaceSeqs_def)

theorem blank_overrides_absent_witness:
  \<open>trim nbsp = []
   \<and> normalizeModelInput (Some (JStr nbsp)) ''"model"'' = Inr None
   \<and> normalizeThinkingInput (Some (JStr nbsp)) ''"model"'' = Inr None
   \<and> dropBlankRequest nbspRequest
       = JObj [(''type'', JStr ''chain''),
           (''tasks'', JArr [JObj [(''prompt'', JStr ''hi''), (''fork'', JBool False)],
              JObj [(''prompt'', JStr ''there'')]])]
   \<and> normalizeTaskParams (dropBlankRequest nbspRequest) 8 = normalizeTaskParams nbspRequest 8
   \<and> normalizeTaskParams nbspRequest 8
       = Inr \<lparr>n_mode = Chain, n_model = None, n_thinking = ''inherit'',
              n_items = [\<lparr>i_prompt = ''hi'', i_skill = None, i_model = None,
                           i_thinking = None, i_fork = False\<rparr>,
                         \<lparr>i_prompt = ''there'', i_skill = None, i_model = None,
                           i_thinking = None, i_fork = True\<rparr>]\<rparr>\<close>
proof -
  note inst = blank_overrides_absent [where s = nbsp and label = "''\"model\"''"
      and params = nbspRequest and mx = 8 and mode = "''chain''"
      and n = "\<lparr>n_mode = Chain, n_model = None, n_thinking = ''inherit'',
              n_items = [\<lparr>i_prompt = ''hi'', i_skill = None, i_model = None,
                           i_thinking = None, i_fork = False\<rparr>,
                         \<lparr>i_prompt = ''there'', i_skill = None, i_model = None,
                           i_thinking = None, i_fork = True\<rparr>]\<rparr>"]
  have tasks: "rawTasksOf nbspRequest
      = [JObj [(''prompt'', JStr ''hi''), (''model'', JStr (nbsp @ bom)),
           (''thinking'', JStr []), (''fork'', JBool False)],
         JObj [(''prompt'', JStr ''there'')]]"
    by (simp add: rawTasksOf_def nbspRequest_def)
  have plain: "list_all plainEntry (rawTasksOf nbspRequest)"
    by (simp add: tasks plainEntry_def promptOf_def skillOf_def forkOf_def blankOrAbsent_def
        isBlank_def trim_blank_samples trim_samples)
  have items: "map plainItem (rawTasksOf nbspRequest)
      = [\<lparr>i_prompt = ''hi'', i_skill = None, i_model = None, i_thinking = None, i_fork = False\<rparr>,
         \<lparr>i_prompt = ''there'', i_skill = None, i_model = None, i_thinking = None,
           i_fork = True\<rparr>]"
    by (simp add: tasks plainItem_def promptOf_def skillOf_def forkOf_def trim_blank_samples
        trim_samples)
  have top: "isRecord nbspRequest" "getProp nbspRequest ''type'' = Some (JStr ''chain'')"
    "blankOrAbsent (getProp nbspRequest ''model'')"
    "blankOrAbsent (getProp nbspRequest ''thinking'')"
    by (simp_all add: nbspRequest_def blankOrAbsent_def isBlank_def trim_blank_samples)
  have len: "rawTasksOf nbspRequest \<noteq> []" "int (length (rawTasksOf nbspRequest)) \<le> 8"
    by (simp_all add: tasks)
  have nval: "normalizeTaskParams nbspRequest 8
       = Inr \<lparr>n_mode = Chain, n_model = None, n_thinking = ''inherit'',
              n_items = [\<lparr>i_prompt = ''hi'', i_skill = None, i_model = None,
                           i_thinking = None, i_fork = False\<rparr>,
                         \<lparr>i_prompt = ''there'', i_skill = None, i_model = None,
                           i_thinking = None, i_fork = True\<rparr>]\<rparr>"
    using inst plain top len by (simp add: items modeNamed_def)
  have dropped: "dropBlankRequest nbspRequest
       = JObj [(''type'', JStr ''chain''),
           (''tasks'', JArr [JObj [(''prompt'', JStr ''hi''), (''fork'', JBool False)],
              JObj [(''prompt'', JStr ''there'')]])]"
    by (simp add: dropBlankRequest_def dropBlankOverrides_def dropBlank_def nbspRequest_def
        mapTasksEntry_def trim_blank_samples trim_samples)
  from inst nval dropped show ?thesis
    by (simp add: trim_blank_samples)
qed

section \<open>Chain substitution\<close>

lemma getSubstitution_literal:
  "CHR 0x24 \<notin> set tmpl \<Longrightarrow> getSubstitution matched before after tmpl = tmpl"
  by (induction matched before after tmpl rule: getSubstitution.induct) auto

lemma replacePrevious_match:
  "take 10 rest = ''{previous}'' \<Longrightarrow>
   replacePrevious r b rest =
     getSubstitution ''{previous}'' b (drop 10 rest) r
       @ replacePrevious r (b @ ''{previous}'') (drop 10 rest)"
  by (subst replacePrevious.simps) (simp only: if_True simp_thms)

lemma replacePrevious_Nil: "replacePrevious r b [] = []"
  by (subst replacePrevious.simps) simp

lemma replacePrevious_Cons:
  "take 10 (c # cs) \<noteq> ''{previous}'' \<Longrightarrow>
   replacePrevious r b (c # cs) = c # replacePrevious r (b @ [c]) cs"
  by (subst replacePrevious.simps) (simp only: if_False list.case)

lemma substPrevious_match:
  "take 10 rest = ''{previous}'' \<Longrightarrow>
   substPrevious out rest = out @ substPrevious out (drop 10 rest)"
  by (subst substPrevious.simps) (simp only: if_True simp_thms)

lemma substPrevious_Nil: "substPrevious out [] = []"
  by (subst substPrevious.simps) simp

lemma substPrevious_Cons:
  "take 10 (c # cs) \<noteq> ''{previous}'' \<Longrightarrow>
   substPrevious out (c # cs) = c # substPrevious out cs"
  by (subst substPrevious.simps) (simp only: if_False list.case)

lemma replacePrevious_literal:
  "CHR 0x24 \<notin> set out \<Longrightarrow> replacePrevious out before rest = substPrevious out rest"
proof (induction out before rest rule: replacePrevious.induct)
  case (1 replacement before rest)
  show ?case
  proof (cases "take 10 rest = ''{previous}''")
    case True
    show ?thesis
      unfolding replacePrevious_match [OF True] substPrevious_match [OF True]
        1(1) [OF True 1(3)] getSubstitution_literal [OF 1(3)] ..
  next
    case False
    show ?thesis
    proof (cases rest)
      case Nil
      show ?thesis unfolding Nil replacePrevious_Nil substPrevious_Nil ..
    next
      case (Cons c cs)
      from False have ne: "take 10 (c # cs) \<noteq> ''{previous}''" unfolding Cons .
      show ?thesis
        unfolding Cons replacePrevious_Cons [OF ne] substPrevious_Cons [OF ne]
          1(2) [OF False Cons 1(3)] ..
    qed
  qed
qed

text \<open>
  C5 on outputs without a dollar sign: the prompt of step k is its original prompt with
  every \<open>{previous}\<close> replaced by the output of step k-1 as it is; so it is in the example of
  the specification.
\<close>

theorem buildChainPrompt_literal:
  "CHR 0x24 \<notin> set previousOutput \<Longrightarrow>
     buildChainPrompt prompt previousOutput = substPrevious previousOutput prompt"
  by (simp add: buildChainPrompt_def replacePrevious_literal)

theorem buildChainPrompt_literal_witness:
  "CHR 0x24 \<notin> set ''X is here''
   \<and> buildChainPrompt ''summarize: {previous}'' ''X is here'' = ''summarize: X is here''
   \<and> substPrevious ''X is here'' ''summarize: {previous}'' = ''summarize: X is here''"
proof -
  have a: "CHR 0x24 \<notin> set ''X is here''" by simp
  have b: "substPrevious ''X is here'' ''summarize: {previous}'' = ''summarize: X is here''"
    by (simp add: substPrevious.simps)
  show ?thesis using buildChainPrompt_literal [OF a, of "''summarize: {previous}''"] a b by simp
qed

text \<open>
  C5 at an output with dollar signs: the step-1 output \<open>It costs $$5\<close> reaches step 2 as
  \<open>It costs $5\<close>, and an output \<open>$&\<close> reaches it as the token itself.
\<close>

theorem buildChainPrompt_dollar:
  "buildChainPrompt ''summarize: {previous}'' ''It costs $$5'' = ''summarize: It costs $5''
   \<and> substPrevious ''It costs $$5'' ''summarize: {previous}'' = ''summarize: It costs $$5''
   \<and> buildChainPrompt ''summarize: {previous}'' ''$&'' = ''summarize: {previous}''"
  by (simp add: buildChainPrompt_def replacePrevious.simps substPrevious.simps)

section \<open>The event parser\<close>

lemma processLine_acceptedLine:
  "processLine jp cb r line =
     (case acceptedLine jp line of
        None \<Rightarrow> Inr r
      | Some message \<Rightarrow>
          (case handleEventMessage r message of
             Inl e \<Rightarrow> Inl e
           | Inr handled \<Rightarrow> emitUpdate cb handled))"
proof (cases "trim line = []")
  case True
  then show ?thesis by (simp add: processLine_def parseJsonLine_def acceptedLine_def)
next
  case False
  show ?thesis
  proof (cases "jp line")
    case None
    with False show ?thesis by (simp add: processLine_def parseJsonLine_def acceptedLine_def)
  next
    case (Some parsed)
    show ?thesis
    proof (cases parsed)
      case (JObj event)
      show ?thesis
      proof (cases "map_of event ''message''")
        case None
        with False Some JObj show ?thesis
          by (simp add: processLine_def parseJsonLine_def acceptedLine_def
              split: option.splits json.splits)
      next
        case (Some mv)
        with False \<open>jp line = Some parsed\<close> JObj show ?thesis
          by (cases mv)
             (simp_all add: processLine_def parseJsonLine_def acceptedLine_def Let_def
              split: option.splits json.splits)
      qed
    qed (use False Some in \<open>simp_all add: processLine_def parseJsonLine_def acceptedLine_def\<close>)
  qed
qed

lemma emitUpdate_result: "emitUpdate cb r = Inr r' \<Longrightarrow> r' = r"
  by (auto simp: emitUpdate_def split: option.splits)

lemma applyAssistantUsage_messages:
  "applyAssistantUsage r m = Inr r' \<Longrightarrow> r_messages r' = r_messages r"
  by (auto simp: applyAssistantUsage_def Let_def split: option.splits json.splits)

lemma handleEventMessage_messages:
  "handleEventMessage r m = Inr r' \<Longrightarrow> r_messages r' = r_messages r @ [m]"
  by (auto simp: handleEventMessage_def Let_def split: if_splits sum.splits
      dest!: applyAssistantUsage_messages)

lemma applyAssistantUsage_total:
  "getProp m ''usage'' \<noteq> None \<Longrightarrow> getProp m ''usage'' \<noteq> Some JNull \<Longrightarrow>
   \<exists>r'. applyAssistantUsage r m = Inr r'"
  by (auto simp: applyAssistantUsage_def Let_def split: option.splits json.splits)

lemma handleEventMessage_total:
  "hasUsage m \<Longrightarrow> \<exists>r'. handleEventMessage r m = Inr r'"
proof (cases "getProp m ''role'' = Some (JStr ''assistant'')")
  case False
  then show ?thesis by (simp add: handleEventMessage_def)
next
  case True
  assume "hasUsage m"
  with True have "getProp m ''usage'' \<noteq> None" "getProp m ''usage'' \<noteq> Some JNull"
    by (simp_all add: hasUsage_def)
  from applyAssistantUsage_total [OF this]
  obtain r' where "applyAssistantUsage (r\<lparr>r_messages := r_messages r @ [m]\<rparr>) m = Inr r'"
    by blast
  with True show ?thesis by (simp add: handleEventMessage_def Let_def)
qed

lemma processLines_append:
  "processLines jp cb (xs @ ys) r =
     (case processLines jp cb xs r of Inl e \<Rightarrow> Inl e | Inr r' \<Rightarrow> processLines jp cb ys r')"
  by (induction xs arbitrary: r) (simp_all split: sum.splits)

lemma processLines_messages:
  "processLines jp cb ls r = Inr r' \<Longrightarrow>
   r_messages r' = r_messages r @ List.map_filter (acceptedLine jp) ls"
proof (induction ls arbitrary: r)
  case Nil
  then show ?case by (simp add: List.map_filter_simps)
next
  case (Cons l ls)
  from Cons.prems obtain r1 where r1: "processLine jp cb r l = Inr r1"
    and rest: "processLines jp cb ls r1 = Inr r'"
    by (auto split: sum.splits)
  have "r_messages r1 = r_messages r @ List.map_filter (acceptedLine jp) [l]"
    using r1 unfolding processLine_acceptedLine
    by (auto simp: List.map_filter_simps split: option.splits sum.splits
        dest: handleEventMessage_messages emitUpdate_result)
  with Cons.IH [OF rest] show ?case
    by (simp add: List.map_filter_simps split: option.splits)
qed

lemma processLines_total:
  "\<forall>l\<in>set ls. usableLine jp l \<Longrightarrow> \<exists>r'. processLines jp None ls r = Inr r'"
proof (induction ls arbitrary: r)
  case Nil
  show ?case by simp
next
  case (Cons l ls)
  from Cons.prems have u: "usableLine jp l" by simp
  have "\<exists>r1. processLine jp None r l = Inr r1"
  proof (cases "acceptedLine jp l")
    case None
    then show ?thesis by (simp add: processLine_acceptedLine)
  next
    case (Some m)
    with u have "hasUsage m" by (simp add: usableLine_def)
    from handleEventMessage_total [OF this, of r] Some show ?thesis
      by (auto simp: processLine_acceptedLine emitUpdate_def)
  qed
  then obtain r1 where r1: "processLine jp None r l = Inr r1" by blast
  from Cons.prems have "\<forall>l\<in>set ls. usableLine jp l" by simp
  from Cons.IH [OF this, of r1] r1 show ?case by simp
qed

lemma splitNL_nonempty: "splitNL s \<noteq> []"
  by (induction s) (simp_all split: list.splits)

lemma splitNL_no_newline: "CHR 0x0A \<notin> set s \<Longrightarrow> splitNL s = [s]"
  by (induction s) auto

lemma last_splitNL_no_newline: "CHR 0x0A \<notin> set (last (splitNL s))"
proof (induction s)
  case Nil
  show ?case by simp
next
  case (Cons c cs)
  show ?case
  proof (cases "splitNL cs")
    case Nil
    with splitNL_nonempty show ?thesis by blast
  next
    case outer: (Cons l ls)
    with Cons.IH show ?thesis by (cases ls) auto
  qed
qed

lemma splitNL_append:
  "splitNL (a @ b) = butlast (splitNL a) @ splitNL (last (splitNL a) @ b)"
proof (induction a)
  case Nil
  show ?case by simp
next
  case (Cons c cs)
  show ?case
  proof (cases "splitNL cs")
    case Nil
    with splitNL_nonempty show ?thesis by blast
  next
    case outer: (Cons l ls)
    show ?thesis
    proof (cases ls)
      case Nil
      with outer Cons.IH show ?thesis by simp
    next
      case (Cons l' ls')
      with outer Cons.IH show ?thesis by (simp add: splitNL_nonempty)
    qed
  qed
qed

lemma processLine_blank: "trim line = [] \<Longrightarrow> processLine jp cb r line = Inr r"
  by (simp add: processLine_def parseJsonLine_def)

lemma processLines_splitNL:
  "processLines jp cb (splitNL s) r =
     (case processLines jp cb (butlast (splitNL s)) r of
        Inl e \<Rightarrow> Inl e
      | Inr r' \<Rightarrow> if trim (last (splitNL s)) \<noteq> [] then processLine jp cb r' (last (splitNL s))
                 else Inr r')"
proof -
  have "splitNL s = butlast (splitNL s) @ [last (splitNL s)]"
    by (simp add: splitNL_nonempty)
  then have "processLines jp cb (splitNL s) r
      = processLines jp cb (butlast (splitNL s) @ [last (splitNL s)]) r" by simp
  also have "\<dots> = (case processLines jp cb (butlast (splitNL s)) r of
        Inl e \<Rightarrow> Inl e
      | Inr r' \<Rightarrow> if trim (last (splitNL s)) \<noteq> [] then processLine jp cb r' (last (splitNL s))
                 else Inr r')"
    unfolding processLines_append
    by (auto split: sum.splits simp: processLine_blank)
  finally show ?thesis .
qed

lemma runEvents_append:
  "runEvents jp cb (xs @ ys) st =
     (case runEvents jp cb xs st of Inl e \<Rightarrow> Inl e | Inr st' \<Rightarrow> runEvents jp cb ys st')"
  by (induction xs arbitrary: st) (simp_all split: sum.splits)

lemma runEvents_stdout:
  "CHR 0x0A \<notin> set (rs_buffer st) \<Longrightarrow>
   runEvents jp cb (map Stdout chunks) st =
     (case processLines jp cb (butlast (splitNL (rs_buffer st @ concat chunks))) (rs_result st) of
        Inl e \<Rightarrow> Inl e
      | Inr r \<Rightarrow> Inr (st\<lparr>rs_result := r,
                     rs_buffer := last (splitNL (rs_buffer st @ concat chunks))\<rparr>))"
proof (induction chunks arbitrary: st)
  case Nil
  then show ?case by (simp add: splitNL_no_newline)
next
  case (Cons d ds)
  let ?L = "splitNL (rs_buffer st @ d)"
  let ?M = "splitNL (last ?L @ concat ds)"
  have whole: "splitNL (rs_buffer st @ d @ concat ds) = butlast ?L @ ?M"
    using splitNL_append [of "rs_buffer st @ d" "concat ds"] by simp
  have bl: "butlast (butlast ?L @ ?M) = butlast ?L @ butlast ?M"
    by (simp add: butlast_append splitNL_nonempty)
  have la: "last (butlast ?L @ ?M) = last ?M"
    by (simp add: splitNL_nonempty)
  show ?case
  proof (cases "processLines jp cb (butlast ?L) (rs_result st)")
    case (Inl e)
    then show ?thesis by (simp add: whole bl processLines_append Let_def)
  next
    case (Inr r1)
    let ?st1 = "st\<lparr>rs_result := r1, rs_buffer := last ?L\<rparr>"
    have nl: "CHR 0x0A \<notin> set (rs_buffer ?st1)" by (simp add: last_splitNL_no_newline)
    have step: "runEvents jp cb (map Stdout (d # ds)) st = runEvents jp cb (map Stdout ds) ?st1"
      using Inr by (simp add: Let_def)
    show ?thesis
      unfolding step Cons.IH [OF nl] concat.simps whole bl la processLines_append Inr
      by (simp split: sum.splits)
  qed
qed

lemma onEvent_aborted:
  "onEvent jp cb ev st = Inr st' \<Longrightarrow> rs_aborted st \<or> ev = Abort \<Longrightarrow> rs_aborted st'"
  by (cases ev) (auto simp: Let_def resolvePromise_def split: sum.splits option.splits if_splits)

lemma runEvents_aborted:
  "runEvents jp cb evs st = Inr st' \<Longrightarrow> rs_aborted st \<or> Abort \<in> set evs \<Longrightarrow> rs_aborted st'"
proof (induction evs arbitrary: st)
  case Nil
  then show ?case by simp
next
  case (Cons ev evs)
  from Cons.prems(1) obtain st1 where s1: "onEvent jp cb ev st = Inr st1"
    and rest: "runEvents jp cb evs st1 = Inr st'" by (auto split: sum.splits)
  show ?case
  proof (cases "rs_aborted st \<or> ev = Abort")
    case True
    from onEvent_aborted [OF s1 True] Cons.IH [OF rest] show ?thesis by simp
  next
    case False
    with Cons.prems(2) have "Abort \<in> set evs" by auto
    with Cons.IH [OF rest] show ?thesis by simp
  qed
qed

lemma onEvent_Close_aborted:
  "onEvent jp cb (Close code) st = Inr st' \<Longrightarrow> rs_aborted st \<Longrightarrow>
   r_stopReason (rs_result st') = Some ''aborted''"
  by (auto simp: Let_def resolvePromise_def split: sum.splits option.splits if_splits)

lemma onEvent_Close_not_aborted:
  "onEvent jp cb (Close code) st = Inr st' \<Longrightarrow> \<not> rs_aborted st \<Longrightarrow> trim (rs_buffer st) = [] \<Longrightarrow>
   r_stopReason (rs_result st') = r_stopReason (rs_result st)"
  by (auto simp: Let_def resolvePromise_def split: sum.splits option.splits if_splits)

lemma runEvents_Close_aborted:
  assumes "runEvents jp cb (pre @ [Close code]) st = Inr st'"
    and "rs_aborted st \<or> Abort \<in> set pre"
  shows "r_stopReason (rs_result st') = Some ''aborted''"
proof -
  from assms(1) obtain st1 where pre: "runEvents jp cb pre st = Inr st1"
    and cl: "onEvent jp cb (Close code) st1 = Inr st'"
    by (auto simp: runEvents_append split: sum.splits)
  from runEvents_aborted [OF pre assms(2)] have "rs_aborted st1" .
  from onEvent_Close_aborted [OF cl this] show ?thesis .
qed

lemma onEvent_Close_start:
  "onEvent jp cb (Close code)
       \<lparr>rs_result = r1, rs_buffer = b, rs_aborted = False, rs_settled = None\<rparr>
     = (case (if trim b \<noteq> [] then processLine jp cb r1 b else Inr r1) of
          Inl e \<Rightarrow> Inl e
        | Inr r \<Rightarrow>
            Inr \<lparr>rs_result = r\<lparr>r_exitCode := (case code of Some c \<Rightarrow> c | None \<Rightarrow> 0)\<rparr>,
                 rs_buffer = b, rs_aborted = False,
                 rs_settled = Some (case code of Some c \<Rightarrow> c | None \<Rightarrow> 0)\<rparr>)"
  by (simp add: Let_def resolvePromise_def split: sum.splits)

text \<open>
  Whatever the chunks, the listeners end where processing the lines of the whole stream,
  split at the newlines and with the text after the last newline as the final line,
  ends; as long as nothing throws, the messages recorded are those of the accepted
  lines, in order; a line that is blank, not JSON, not an object, of another type or
  with a message of another role leaves the result as it is.
\<close>

lemma runEvents_lines:
  "runEvents jp cb (map Stdout chunks @ [Close code])
       \<lparr>rs_result = r0, rs_buffer = [], rs_aborted = False, rs_settled = None\<rparr>
     = (case processLines jp cb (splitNL (concat chunks)) r0 of
          Inl e \<Rightarrow> Inl e
        | Inr r \<Rightarrow>
            Inr \<lparr>rs_result = r\<lparr>r_exitCode := (case code of Some c \<Rightarrow> c | None \<Rightarrow> 0)\<rparr>,
                 rs_buffer = last (splitNL (concat chunks)), rs_aborted = False,
                 rs_settled = Some (case code of Some c \<Rightarrow> c | None \<Rightarrow> 0)\<rparr>)
   \<and> (processLines jp cb ls r = Inr r' \<longrightarrow>
        r_messages r' = r_messages r @ List.map_filter (acceptedLine jp) ls)
   \<and> (acceptedLine jp line = None \<longrightarrow> processLine jp cb r line = Inr r)
   \<and> ((\<forall>l\<in>set ls. usableLine jp l) \<longrightarrow> (\<exists>r''. processLines jp None ls r = Inr r''))"
proof (intro conjI impI)
  let ?st0 = "\<lparr>rs_result = r0, rs_buffer = [], rs_aborted = False, rs_settled = None\<rparr>"
  let ?S = "splitNL (concat chunks)"
  let ?ec = "case code of Some c \<Rightarrow> c | None \<Rightarrow> (0::int)"
  have nl: "CHR 0x0A \<notin> set (rs_buffer ?st0)" by simp
  have out: "runEvents jp cb (map Stdout chunks) ?st0 =
      (case processLines jp cb (butlast ?S) r0 of
         Inl e \<Rightarrow> Inl e
       | Inr r \<Rightarrow> Inr \<lparr>rs_result = r, rs_buffer = last ?S, rs_aborted = False,
                      rs_settled = None\<rparr>)"
    using runEvents_stdout [OF nl, of jp cb chunks] by (simp split: sum.splits)
  show "runEvents jp cb (map Stdout chunks @ [Close code]) ?st0
     = (case processLines jp cb ?S r0 of
          Inl e \<Rightarrow> Inl e
        | Inr r \<Rightarrow>
            Inr \<lparr>rs_result = r\<lparr>r_exitCode := ?ec\<rparr>,
                 rs_buffer = last ?S, rs_aborted = False, rs_settled = Some ?ec\<rparr>)"
  proof (cases "processLines jp cb (butlast ?S) r0")
    case (Inl e)
    then show ?thesis
      by (simp add: runEvents_append out processLines_splitNL [of jp cb "concat chunks"])
  next
    case (Inr r1)
    have "runEvents jp cb (map Stdout chunks @ [Close code]) ?st0
        = onEvent jp cb (Close code)
            \<lparr>rs_result = r1, rs_buffer = last ?S, rs_aborted = False, rs_settled = None\<rparr>"
      by (simp add: runEvents_append out Inr split: sum.splits)
    also have "\<dots> = (case (if trim (last ?S) \<noteq> [] then processLine jp cb r1 (last ?S) else Inr r1) of
          Inl e \<Rightarrow> Inl e
        | Inr r \<Rightarrow>
            Inr \<lparr>rs_result = r\<lparr>r_exitCode := ?ec\<rparr>,
                 rs_buffer = last ?S, rs_aborted = False, rs_settled = Some ?ec\<rparr>)"
      by (rule onEvent_Close_start)
    also have "\<dots> = (case processLines jp cb ?S r0 of
          Inl e \<Rightarrow> Inl e
        | Inr r \<Rightarrow>
            Inr \<lparr>rs_result = r\<lparr>r_exitCode := ?ec\<rparr>,
                 rs_buffer = last ?S, rs_aborted = False, rs_settled = Some ?ec\<rparr>)"
      by (simp only: processLines_splitNL [of jp cb "concat chunks"] Inr sum.case)
    finally show ?thesis .
  qed
next
  assume "processLines jp cb ls r = Inr r'"
  then show "r_messages r' = r_messages r @ List.map_filter (acceptedLine jp) ls"
    by (rule processLines_messages)
next
  assume "acceptedLine jp line = None"
  then show "processLine jp cb r line = Inr r" by (simp add: processLine_acceptedLine)
next
  assume "\<forall>l\<in>set ls. usableLine jp l"
  then show "\<exists>r''. processLines jp None ls r = Inr r''" by (rule processLines_total)
qed

text \<open>
  C7: when the abort signal was raised before the close of the process, the close
  handler sets the stop reason to aborted, whatever the exit code, and so does the
  result of \<open>runSingleTask\<close>; a result whose stop reason is aborted or error is a task
  error whatever its exit code, and its status is Failed once the exit code is that of a
  process; a close without abort leaves the stop reason as the stream gave it.
\<close>

theorem abort_classifies_failed:
  "(runEvents jp cb (pre @ [Close code]) st = Inr st' \<and> (rs_aborted st \<or> Abort \<in> set pre) \<longrightarrow>
      r_stopReason (rs_result st') = Some ''aborted'' \<and> isTaskError (rs_result st'))
   \<and> (runSingleTask world opts = Inr (result, [args])
        \<and> w_process world (o_index opts) args = pre @ [Close code] \<and> Abort \<in> set pre \<longrightarrow>
      r_stopReason result = Some ''aborted'' \<and> isTaskError result)
   \<and> (r_stopReason r = Some ''aborted'' \<or> r_stopReason r = Some ''error'' \<longrightarrow>
      isTaskError r \<and> (0 \<le> r_exitCode r \<longrightarrow> getTaskStatus r = Failed))
   \<and> (onEvent jp cb (Close code) st = Inr st' \<and> \<not> rs_aborted st \<and> trim (rs_buffer st) = [] \<longrightarrow>
      r_stopReason (rs_result st') = r_stopReason (rs_result st))"
proof (intro conjI impI)
  assume a: "runEvents jp cb (pre @ [Close code]) st = Inr st' \<and> (rs_aborted st \<or> Abort \<in> set pre)"
  then show "r_stopReason (rs_result st') = Some ''aborted''"
    using runEvents_Close_aborted by blast
  then show "isTaskError (rs_result st')" by (simp add: isTaskError_def)
next
  assume a: "runSingleTask world opts = Inr (result, [args])
        \<and> w_process world (o_index opts) args = pre @ [Close code] \<and> Abort \<in> set pre"
  then obtain st1 c where run: "runEvents (w_jsonParse world) (o_onResultUpdate opts) (pre @ [Close code])
        \<lparr>rs_result = initialResult opts, rs_buffer = [], rs_aborted = False, rs_settled = None\<rparr>
        = Inr st1"
    and res: "result = (rs_result st1)\<lparr>r_exitCode := c\<rparr>"
    by (auto simp: runSingleTask_def Let_def split: if_splits sum.splits option.splits)
  from a have "Abort \<in> set pre" by simp
  with runEvents_Close_aborted [OF run] have "r_stopReason (rs_result st1) = Some ''aborted''"
    by simp
  with res show "r_stopReason result = Some ''aborted''" by simp
  then show "isTaskError result" by (simp add: isTaskError_def)
next
  assume "r_stopReason r = Some ''aborted'' \<or> r_stopReason r = Some ''error''"
  then show "isTaskError r" by (auto simp: isTaskError_def)
next
  assume "r_stopReason r = Some ''aborted'' \<or> r_stopReason r = Some ''error''" "0 \<le> r_exitCode r"
  then show "getTaskStatus r = Failed"
    by (auto simp: getTaskStatus_def isTaskError_def isTaskPending_def isTaskRunning_def)
next
  assume "onEvent jp cb (Close code) st = Inr st' \<and> \<not> rs_aborted st \<and> trim (rs_buffer st) = []"
  then show "r_stopReason (rs_result st') = r_stopReason (rs_result st)"
    using onEvent_Close_not_aborted by blast
qed

theorem abort_classifies_failed_witness:
  "runSingleTask exampleWorld exampleOptions
     = Inr (exampleResult\<lparr>r_messages := [userMessage], r_usage := zeroUsage,
              r_thinking := Some ''low'', r_fork := Some False, r_prompt := ''hi'',
              r_stopReason := Some ''aborted''\<rparr>, [[''-p'', ''hi'']])
   \<and> w_process exampleWorld None [''-p'', ''hi''] = [Stdout userLine, Abort] @ [Close (Some 0)]
   \<and> Abort \<in> set [Stdout userLine, Abort]
   \<and> isTaskError (exampleResult\<lparr>r_messages := [userMessage], r_usage := zeroUsage,
              r_thinking := Some ''low'', r_fork := Some False, r_prompt := ''hi'',
              r_stopReason := Some ''aborted''\<rparr>)
   \<and> isTaskError (exampleResult\<lparr>r_stopReason := Some ''aborted''\<rparr>)
   \<and> r_exitCode (exampleResult\<lparr>r_stopReason := Some ''aborted''\<rparr>) = 0
   \<and> getTaskStatus (exampleResult\<lparr>r_stopReason := Some ''aborted''\<rparr>) = Failed
   \<and> getTaskStatus exampleResult = Done"
proof -
  have a1: "acceptedLine exampleParse userLine = Some userMessage"
    by (simp add: acceptedLine_def exampleParse_def userLine_def toolLine_def userMessage_def
        assistantLine_def bareLine_def trim_def stripSeqs.simps whiteSpaceSeqs_def)
  have nl: "splitNL userLine = [userLine]" by (simp add: userLine_def)
  have nb: "trim userLine \<noteq> []" by (simp add: userLine_def trim_def stripSeqs.simps whiteSpaceSeqs_def)
  have run: "runSingleTask exampleWorld exampleOptions
     = Inr (exampleResult\<lparr>r_messages := [userMessage], r_usage := zeroUsage,
              r_thinking := Some ''low'', r_fork := Some False, r_prompt := ''hi'',
              r_stopReason := Some ''aborted''\<rparr>, [[''-p'', ''hi'']])"
    by (simp add: runSingleTask_def exampleWorld_def exampleOptions_def initialResult_def
        applyForkSessionArgs_def Let_def nl nb processLine_acceptedLine a1 handleEventMessage_def
        emitUpdate_def emitSingleUpdate_def hostUpdate_def getFinalOutput_def jsOr_def
        userMessage_def resolvePromise_def exampleResult_def exampleItem_def)
  have tr: "w_process exampleWorld (o_index exampleOptions) [''-p'', ''hi'']
      = [Stdout userLine, Abort] @ [Close (Some 0)]"
    by (simp add: exampleWorld_def)
  have st: "r_stopReason (exampleResult\<lparr>r_stopReason := Some ''aborted''\<rparr>) = Some ''aborted''
      \<or> r_stopReason (exampleResult\<lparr>r_stopReason := Some ''aborted''\<rparr>) = Some ''error''"
    by simp
  have ec: "0 \<le> r_exitCode (exampleResult\<lparr>r_stopReason := Some ''aborted''\<rparr>)"
    by (simp add: exampleResult_def)
  note inst = abort_classifies_failed [where world = exampleWorld and opts = exampleOptions
      and result = "exampleResult\<lparr>r_messages := [userMessage], r_usage := zeroUsage,
              r_thinking := Some ''low'', r_fork := Some False, r_prompt := ''hi'',
              r_stopReason := Some ''aborted''\<rparr>"
      and args = "[''-p'', ''hi'']" and pre = "[Stdout userLine, Abort]" and code = "Some 0"
      and r = "exampleResult\<lparr>r_stopReason := Some ''aborted''\<rparr>"]
  from inst st ec have f: "isTaskError (exampleResult\<lparr>r_stopReason := Some ''aborted''\<rparr>)"
    and g: "getTaskStatus (exampleResult\<lparr>r_stopReason := Some ''aborted''\<rparr>) = Failed"
    by blast+
  have ab: "Abort \<in> set [Stdout userLine, Abort]" by simp
  from inst run tr ab have h: "isTaskError (exampleResult\<lparr>r_messages := [userMessage], r_usage := zeroUsage,
              r_thinking := Some ''low'', r_fork := Some False, r_prompt := ''hi'',
              r_stopReason := Some ''aborted''\<rparr>)"
    by blast
  have d: "getTaskStatus exampleResult = Done"
    by (simp add: getTaskStatus_def isTaskError_def isTaskPending_def isTaskRunning_def
        exampleResult_def)
  from run tr f g h d show ?thesis by (simp add: exampleOptions_def exampleResult_def)
qed


text \<open>
  C6 fails on the code at an accepted assistant message without the optional usage: the
  listener throws at \<open>message.usage.input\<close>, and the valid line after it is never parsed,
  where the same stream without that line is parsed to the end. With the callback of
  single mode and a host that listens, an assistant message without content throws as
  well, in \<open>getFinalOutput\<close>, where without a callback it is recorded.
\<close>

theorem event_parser_throws:
  "acceptedLine exampleParse assistantLine = Some assistantMessage
   \<and> acceptedLine exampleParse userLine = Some userMessage
   \<and> runEvents exampleParse None
       [Stdout (assistantLine @ [CHR 0x0A] @ userLine @ [CHR 0x0A]), Close (Some 0)] startState
       = Inl TypeError
   \<and> runEvents exampleParse None [Stdout (userLine @ [CHR 0x0A]), Close (Some 0)] startState
       = Inr (startState\<lparr>rs_result := (initialResult exampleOptions)
                  \<lparr>r_messages := [userMessage], r_exitCode := 0\<rparr>,
                rs_settled := Some 0\<rparr>)
   \<and> acceptedLine exampleParse bareLine = Some bareMessage
   \<and> runEvents exampleParse (Some (emitSingleUpdate (Some hostUpdate)))
       [Stdout (bareLine @ [CHR 0x0A] @ userLine @ [CHR 0x0A]), Close (Some 0)] startState
       = Inl TypeError
   \<and> runEvents exampleParse None
       [Stdout (bareLine @ [CHR 0x0A] @ userLine @ [CHR 0x0A]), Close (Some 0)] startState
       = Inr (startState\<lparr>rs_result := (initialResult exampleOptions)
                  \<lparr>r_messages := [bareMessage, userMessage],
                   r_usage := zeroUsage\<lparr>u_turns := 1\<rparr>, r_exitCode := 0\<rparr>,
                rs_settled := Some 0\<rparr>)"
proof -
  have a1: "acceptedLine exampleParse assistantLine = Some assistantMessage"
    by (simp add: acceptedLine_def exampleParse_def userLine_def toolLine_def assistantLine_def
        bareLine_def assistantMessage_def trim_def stripSeqs.simps whiteSpaceSeqs_def)
  have a2: "acceptedLine exampleParse userLine = Some userMessage"
    by (simp add: acceptedLine_def exampleParse_def userLine_def toolLine_def assistantLine_def
        bareLine_def userMessage_def trim_def stripSeqs.simps whiteSpaceSeqs_def)
  have a3: "acceptedLine exampleParse bareLine = Some bareMessage"
    by (simp add: acceptedLine_def exampleParse_def userLine_def toolLine_def assistantLine_def
        bareLine_def bareMessage_def trim_def stripSeqs.simps whiteSpaceSeqs_def)
  have s1: "splitNL (assistantLine @ CHR 0x0A # userLine @ [CHR 0x0A])
      = [assistantLine, userLine, []]"
    by (simp add: assistantLine_def userLine_def)
  have s2: "splitNL (userLine @ [CHR 0x0A]) = [userLine, []]"
    by (simp add: userLine_def)
  have s3: "splitNL (bareLine @ CHR 0x0A # userLine @ [CHR 0x0A]) = [bareLine, userLine, []]"
    by (simp add: bareLine_def userLine_def)
  have t: "trim [] = []" by (simp add: trim_def stripSeqs.simps whiteSpaceSeqs_def)
  have h1: "handleEventMessage r assistantMessage = Inl TypeError" for r
    by (simp add: handleEventMessage_def applyAssistantUsage_def assistantMessage_def)
  have h2: "handleEventMessage r userMessage = Inr (r\<lparr>r_messages := r_messages r @ [userMessage]\<rparr>)"
    for r
    by (simp add: handleEventMessage_def userMessage_def)
  have h3: "handleEventMessage (initialResult exampleOptions) bareMessage
      = Inr ((initialResult exampleOptions)
               \<lparr>r_messages := [bareMessage], r_usage := zeroUsage\<lparr>u_turns := 1\<rparr>\<rparr>)"
    by (simp add: handleEventMessage_def applyAssistantUsage_def bareMessage_def
        initialResult_def exampleOptions_def zeroUsage_def numberOr0_def stringField_def Let_def)
  have g: "getFinalOutput [bareMessage] = Inl TypeError"
    by (simp add: getFinalOutput_def bareMessage_def iterate_def)
  have r1: "runEvents exampleParse None
       [Stdout (assistantLine @ [CHR 0x0A] @ userLine @ [CHR 0x0A]), Close (Some 0)] startState
       = Inl TypeError"
    by (simp add: startState_def Let_def s1 processLine_acceptedLine a1 h1)
  have r2: "runEvents exampleParse None [Stdout (userLine @ [CHR 0x0A]), Close (Some 0)] startState
       = Inr (startState\<lparr>rs_result := (initialResult exampleOptions)
                  \<lparr>r_messages := [userMessage], r_exitCode := 0\<rparr>,
                rs_settled := Some 0\<rparr>)"
    by (simp add: startState_def Let_def s2 t processLine_acceptedLine a2 h2 emitUpdate_def
        resolvePromise_def initialResult_def)
  have r3: "runEvents exampleParse (Some (emitSingleUpdate (Some hostUpdate)))
       [Stdout (bareLine @ [CHR 0x0A] @ userLine @ [CHR 0x0A]), Close (Some 0)] startState
       = Inl TypeError"
    by (simp add: startState_def Let_def s3 processLine_acceptedLine a3 h3 emitUpdate_def
        emitSingleUpdate_def g)
  have r4: "runEvents exampleParse None
       [Stdout (bareLine @ [CHR 0x0A] @ userLine @ [CHR 0x0A]), Close (Some 0)] startState
       = Inr (startState\<lparr>rs_result := (initialResult exampleOptions)
                  \<lparr>r_messages := [bareMessage, userMessage],
                   r_usage := zeroUsage\<lparr>u_turns := 1\<rparr>, r_exitCode := 0\<rparr>,
                rs_settled := Some 0\<rparr>)"
    by (simp add: startState_def Let_def s3 t processLine_acceptedLine a2 a3 h2 h3 emitUpdate_def
        resolvePromise_def)
  from a1 a2 a3 r1 r2 r3 r4 show ?thesis by blast
qed

section \<open>The scheduler\<close>
















section \<open>Bounds on the task count\<close>

lemma normalizeTaskParams_typed:
  assumes "isRecord params" and "getProp params ''type'' = Some (JStr mode)"
  shows \<open>normalizeTaskParams params mx =
     (case normalizeModelInput (getProp params ''model'') ''"model"'' of
        Inl e \<Rightarrow> Inl e
      | Inr model \<Rightarrow>
     (case normalizeThinkingInput (getProp params ''thinking'') ''"thinking"'' of
        Inl e \<Rightarrow> Inl e
      | Inr thinkingValue \<Rightarrow>
          if mode = ''single'' then
            (if length (rawTasksOf params) \<noteq> 1
             then Inl ''Invalid parameters: type="single" requires exactly one task in "tasks".''
             else case parseTaskItems (rawTasksOf params) of
                    Inl e \<Rightarrow> Inl e
                  | Inr items \<Rightarrow>
                      Inr \<lparr>n_mode = Single, n_model = model,
                           n_thinking = (case thinkingValue of Some t \<Rightarrow> t | None \<Rightarrow> ''inherit''),
                           n_items = [items ! 0]\<rparr>)
          else if mode = ''parallel'' then
            (if length (rawTasksOf params) = 0
             then Inl ''Invalid parameters: type="parallel" requires a non-empty "tasks" array.''
             else if int (length (rawTasksOf params)) > mx
             then Inl (''Too many parallel tasks ('' @ showNat (length (rawTasksOf params))
                       @ ''). Max is '' @ showInt mx @ ''.'')
             else case parseTaskItems (rawTasksOf params) of
                    Inl e \<Rightarrow> Inl e
                  | Inr items \<Rightarrow>
                      Inr \<lparr>n_mode = Parallel, n_model = model,
                           n_thinking = (case thinkingValue of Some t \<Rightarrow> t | None \<Rightarrow> ''inherit''),
                           n_items = items\<rparr>)
          else if mode = ''chain'' then
            (if length (rawTasksOf params) = 0
             then Inl ''Invalid parameters: type="chain" requires a non-empty "tasks" array.''
             else if int (length (rawTasksOf params)) > mx
             then Inl (''Too many chain tasks ('' @ showNat (length (rawTasksOf params))
                       @ ''). Max is '' @ showInt mx @ ''.'')
             else case parseTaskItems (rawTasksOf params) of
                    Inl e \<Rightarrow> Inl e
                  | Inr items \<Rightarrow>
                      Inr \<lparr>n_mode = Chain, n_model = model,
                           n_thinking = (case thinkingValue of Some t \<Rightarrow> t | None \<Rightarrow> ''inherit''),
                           n_items = items\<rparr>)
          else Inl ''Invalid parameters: "type" must be "single", "chain", or "parallel".''))\<close>
  unfolding normalizeTaskParams_def rawTasksOf_def [symmetric] Let_def
  using assms by simp

lemma countViolation_rejected:
  assumes rec: "isRecord params" and ty: "getProp params ''type'' = Some (JStr mode)"
    and v: "countViolation mode (length (rawTasksOf params)) mx"
  shows "\<exists>error. normalizeTaskParams params mx = Inl error"
proof (cases "normalizeModelInput (getProp params ''model'') ''\"model\"''")
  case (Inl e)
  then show ?thesis by (simp add: normalizeTaskParams_typed [OF rec ty])
next
  case m: (Inr model)
  show ?thesis
  proof (cases "normalizeThinkingInput (getProp params ''thinking'') ''\"thinking\"''")
    case (Inl e)
    with m show ?thesis by (simp add: normalizeTaskParams_typed [OF rec ty])
  next
    case (Inr tv)
    with m v show ?thesis
      by (auto simp: normalizeTaskParams_typed [OF rec ty] countViolation_def split: if_splits)
  qed
qed

lemma execute_rejection:
  "normalizeTaskParams params (to_maxParallelTasks options) = Inl error \<Longrightarrow>
   execute host options params = Inl (rejection host options error)"
  by (simp add: execute_def rejection_def)

text \<open>
  C9, as the code has it. A request of type single whose task count is not 1, or of type
  chain or parallel whose task count is 0 or above the maximum (8 by default), does not
  normalise, and the call returns the rejection before the dispatch on the mode, where
  no process has been started. When the shared \<open>model\<close> and \<open>thinking\<close> fields of the
  request are valid, the error is the message of the count; when one of them is not,
  its error comes first.
\<close>

theorem task_count_rejected:
  \<open>MAX_PARALLEL_TASKS = 8
   \<and> (isRecord params \<and> getProp params ''type'' = Some (JStr mode)
       \<and> countViolation mode (length (rawTasksOf params)) (to_maxParallelTasks options)
      \<longrightarrow> (\<exists>error. normalizeTaskParams params (to_maxParallelTasks options) = Inl error
             \<and> execute host options params = Inl (rejection host options error)))
   \<and> (isRecord params \<and> getProp params ''type'' = Some (JStr mode)
       \<and> normalizeModelInput (getProp params ''model'') ''"model"'' = Inr model
       \<and> normalizeThinkingInput (getProp params ''thinking'') ''"thinking"'' = Inr thinkingValue
      \<longrightarrow> (mode = ''single'' \<and> length (rawTasksOf params) \<noteq> 1 \<longrightarrow>
             normalizeTaskParams params mx
               = Inl ''Invalid parameters: type="single" requires exactly one task in "tasks".'')
          \<and> (mode = ''parallel'' \<and> rawTasksOf params = [] \<longrightarrow>
             normalizeTaskParams params mx
               = Inl ''Invalid parameters: type="parallel" requires a non-empty "tasks" array.'')
          \<and> (mode = ''parallel'' \<and> rawTasksOf params \<noteq> [] \<and> int (length (rawTasksOf params)) > mx \<longrightarrow>
             normalizeTaskParams params mx
               = Inl (''Too many parallel tasks ('' @ showNat (length (rawTasksOf params))
                      @ ''). Max is '' @ showInt mx @ ''.''))
          \<and> (mode = ''chain'' \<and> rawTasksOf params = [] \<longrightarrow>
             normalizeTaskParams params mx
               = Inl ''Invalid parameters: type="chain" requires a non-empty "tasks" array.'')
          \<and> (mode = ''chain'' \<and> rawTasksOf params \<noteq> [] \<and> int (length (rawTasksOf params)) > mx \<longrightarrow>
             normalizeTaskParams params mx
               = Inl (''Too many chain tasks ('' @ showNat (length (rawTasksOf params))
                      @ ''). Max is '' @ showInt mx @ ''.'')))
   \<and> (isRecord params \<and> getProp params ''type'' = Some (JStr mode)
       \<and> normalizeModelInput (getProp params ''model'') ''"model"'' = Inl error
      \<longrightarrow> normalizeTaskParams params mx = Inl error)
   \<and> (isRecord params \<and> getProp params ''type'' = Some (JStr mode)
       \<and> normalizeModelInput (getProp params ''model'') ''"model"'' = Inr model
       \<and> normalizeThinkingInput (getProp params ''thinking'') ''"thinking"'' = Inl error
      \<longrightarrow> normalizeTaskParams params mx = Inl error)\<close>
proof (intro conjI impI)
  show "MAX_PARALLEL_TASKS = 8" by (simp add: MAX_PARALLEL_TASKS_def)
next
  assume a: "isRecord params \<and> getProp params ''type'' = Some (JStr mode)
       \<and> countViolation mode (length (rawTasksOf params)) (to_maxParallelTasks options)"
  then obtain error where e: "normalizeTaskParams params (to_maxParallelTasks options) = Inl error"
    using countViolation_rejected by blast
  from execute_rejection [OF e]
  have "execute host options params = Inl (rejection host options error)" .
  with e show "\<exists>error. normalizeTaskParams params (to_maxParallelTasks options) = Inl error
             \<and> execute host options params = Inl (rejection host options error)"
    by blast
qed (simp_all add: normalizeTaskParams_typed)

theorem task_count_rejected_witness:
  \<open>countViolation ''parallel'' (length (rawTasksOf nineTasks))
       (to_maxParallelTasks exampleToolOptions)
   \<and> normalizeTaskParams nineTasks 8 = Inl ''Too many parallel tasks (9). Max is 8.''
   \<and> execute exampleHost exampleToolOptions nineTasks
       = Inl \<lparr>t_text = JStr (''Too many parallel tasks (9). Max is 8.'' @ [CHR 0x0A]
                  @ ''Available skills: none''),
              t_mode = Single, t_modelOverride = None, t_results = [], t_isError = False\<rparr>
   \<and> normalizeTaskParams badModelRequest 8 = Inl ''Invalid parameters: "model" must be a string.''
   \<and> normalizeTaskParams badThinkingRequest 8
       = Inl ''Invalid parameters: "thinking" must be one of inherit, off, minimal, low, medium, high, xhigh.''\<close>
proof -
  have rec: "isRecord nineTasks" "getProp nineTasks ''type'' = Some (JStr ''parallel'')"
    by (simp_all add: nineTasks_def)
  have len: "length (rawTasksOf nineTasks) = 9" "rawTasksOf nineTasks \<noteq> []"
    by (simp_all add: rawTasksOf_def nineTasks_def)
  have mx: "to_maxParallelTasks exampleToolOptions = 8"
    by (simp add: exampleToolOptions_def MAX_PARALLEL_TASKS_def)
  have cv: "countViolation ''parallel'' (length (rawTasksOf nineTasks))
       (to_maxParallelTasks exampleToolOptions)"
    by (simp add: len mx countViolation_def)
  have top: "normalizeModelInput (getProp nineTasks ''model'') ''\"model\"'' = Inr None"
    "normalizeThinkingInput (getProp nineTasks ''thinking'') ''\"thinking\"'' = Inr None"
    by (simp_all add: nineTasks_def)
  have sh: "showNat 9 = ''9''" "showInt 8 = ''8''"
    by (simp_all add: showNat.simps showInt_def)
  note inst = task_count_rejected [where params = nineTasks and mode = "''parallel''"
      and options = exampleToolOptions and host = exampleHost and mx = 8 and model = None
      and thinkingValue = None]
  note bounds = inst [THEN conjunct2, THEN conjunct2, THEN conjunct1]
  note rejected = inst [THEN conjunct2, THEN conjunct1]
  from bounds rec top len have msg: "normalizeTaskParams nineTasks 8
      = Inl (''Too many parallel tasks ('' @ showNat 9 @ ''). Max is '' @ showInt 8 @ ''.'')"
    by simp
  then have msg': "normalizeTaskParams nineTasks 8 = Inl ''Too many parallel tasks (9). Max is 8.''"
    by (simp add: sh)
  from rejected rec cv obtain error where
    e: "normalizeTaskParams nineTasks (to_maxParallelTasks exampleToolOptions) = Inl error"
    and x: "execute exampleHost exampleToolOptions nineTasks
              = Inl (rejection exampleHost exampleToolOptions error)"
    by blast
  from e msg' have "error = ''Too many parallel tasks (9). Max is 8.''" by (simp add: mx)
  with x have ex: "execute exampleHost exampleToolOptions nineTasks
       = Inl \<lparr>t_text = JStr (''Too many parallel tasks (9). Max is 8.'' @ [CHR 0x0A]
                  @ ''Available skills: none''),
              t_mode = Single, t_modelOverride = None, t_results = [], t_isError = False\<rparr>"
    by (simp add: rejection_def availableSkillsText_def formatAvailableSkills_def
        exampleHost_def exampleToolOptions_def)
  have bm: "isRecord badModelRequest" "getProp badModelRequest ''type'' = Some (JStr ''single'')"
    "normalizeModelInput (getProp badModelRequest ''model'') ''\"model\"''
       = Inl ''Invalid parameters: \"model\" must be a string.''"
    by (simp_all add: badModelRequest_def)
  note inst2 = task_count_rejected [where params = badModelRequest and mode = "''single''"
      and mx = 8 and error = "''Invalid parameters: \"model\" must be a string.''"]
  from inst2 [THEN conjunct2, THEN conjunct2, THEN conjunct2, THEN conjunct1] bm have m2: "normalizeTaskParams badModelRequest 8
      = Inl ''Invalid parameters: \"model\" must be a string.''"
    by blast
  have tm: "trim ''max'' = ''max''" by (simp add: trim_def stripSeqs.simps whiteSpaceSeqs_def)
  have bt: "isRecord badThinkingRequest"
    "getProp badThinkingRequest ''type'' = Some (JStr ''chain'')"
    "normalizeModelInput (getProp badThinkingRequest ''model'') ''\"model\"'' = Inr None"
    "normalizeThinkingInput (getProp badThinkingRequest ''thinking'') ''\"thinking\"''
       = Inl ''Invalid parameters: \"thinking\" must be one of inherit, off, minimal, low, medium, high, xhigh.''"
    by (simp_all add: badThinkingRequest_def tm isTaskThinking_def VALID_THINKING_OPTIONS_def
        VALID_THINKING_LEVELS_def Let_def)
  note inst3 = task_count_rejected [where params = badThinkingRequest and mode = "''chain''"
      and mx = 8 and model = None
      and error = "''Invalid parameters: \"thinking\" must be one of inherit, off, minimal, low, medium, high, xhigh.''"]
  from inst3 [THEN conjunct2, THEN conjunct2, THEN conjunct2, THEN conjunct2] bt have m3: "normalizeTaskParams badThinkingRequest 8
      = Inl ''Invalid parameters: \"thinking\" must be one of inherit, off, minimal, low, medium, high, xhigh.''"
    by blast
  from cv msg' ex m2 m3 show ?thesis by blast
qed

text \<open>
  C9 as stated fails on a bound violation in a request whose shared model is not a
  string: a single request without tasks and with the model 5 is rejected with the
  message of the model, not with the message of the count.
\<close>

theorem task_count_message_counterexample:
  \<open>isRecord badModelRequest
   \<and> getProp badModelRequest ''type'' = Some (JStr ''single'')
   \<and> length (rawTasksOf badModelRequest) = 0
   \<and> countViolation ''single'' (length (rawTasksOf badModelRequest)) MAX_PARALLEL_TASKS
   \<and> normalizeTaskParams badModelRequest MAX_PARALLEL_TASKS
       = Inl ''Invalid parameters: "model" must be a string.''
   \<and> normalizeTaskParams badModelRequest MAX_PARALLEL_TASKS
       \<noteq> Inl ''Invalid parameters: type="single" requires exactly one task in "tasks".''\<close>
proof -
  have n: "normalizeTaskParams badModelRequest MAX_PARALLEL_TASKS
       = Inl ''Invalid parameters: \"model\" must be a string.''"
    by (simp add: normalizeTaskParams_def badModelRequest_def)
  show ?thesis
    unfolding n by (simp add: badModelRequest_def rawTasksOf_def countViolation_def)
qed

section \<open>Forked tasks need a session file\<close>

lemma parseTaskItem_fork:
  assumes "parseTaskItem index e = Inr item" and "asksFork e"
  shows "i_fork item"
proof -
  from assms(1) obtain forkValue where
    f: \<open>normalizeForkInput (getProp e ''fork'') (''"tasks['' @ showNat index @ ''].fork"'')
          = Inr forkValue\<close>
    and i: "i_fork item = forkValue"
    by (auto simp: parseTaskItem_def Let_def split: if_splits sum.splits)
  from assms(2) f have forkValue by (auto simp: asksFork_def)
  with i show ?thesis by simp
qed

lemma parseTaskItemsFrom_fork:
  "parseTaskItemsFrom index ts = Inr items \<Longrightarrow>
   length items = length ts \<and> (\<forall>j<length ts. asksFork (ts ! j) \<longrightarrow> i_fork (items ! j))"
proof (induction ts arbitrary: index items)
  case Nil
  then show ?case by simp
next
  case (Cons e ts)
  from Cons.prems obtain item rest where
    e: "parseTaskItem index e = Inr item"
    and r: "parseTaskItemsFrom (Suc index) ts = Inr rest"
    and items: "items = item # rest"
    by (auto split: sum.splits)
  note ih = Cons.IH [OF r]
  show ?case
  proof (intro conjI allI impI)
    show "length items = length (e # ts)" using ih by (simp add: items)
  next
    fix j assume "j < length (e # ts)" "asksFork ((e # ts) ! j)"
    then show "i_fork (items ! j)"
      using ih parseTaskItem_fork [OF e] by (cases j) (simp_all add: items)
  qed
qed

lemma normalized_fork:
  assumes ok: "normalizeTaskParams params mx = Inr n"
    and ask: "list_ex asksFork (rawTasksOf params)"
  shows "list_ex i_fork (n_items n)"
proof -
  from normalizeTaskParams_Inr [OF ok] obtain items where
    p: "parseTaskItemsFrom 0 (rawTasksOf params) = Inr items"
    and ni: "n_items n = items \<or> (length (rawTasksOf params) = 1 \<and> n_items n = [items ! 0])"
    by (auto simp: parseTaskItems_def)
  note its = parseTaskItemsFrom_fork [OF p]
  from ask obtain j where j: "j < length (rawTasksOf params)" "asksFork (rawTasksOf params ! j)"
    by (auto simp: list_ex_length)
  with its have f: "i_fork (items ! j)" and l: "j < length items" by simp_all
  from ni show ?thesis
  proof
    assume "n_items n = items"
    with f l show ?thesis by (auto simp: list_ex_length)
  next
    assume one: "length (rawTasksOf params) = 1 \<and> n_items n = [items ! 0]"
    with j have "j = 0" by simp
    with f one show ?thesis by simp
  qed
qed

text \<open>
  C8. When a request normalises to items of which one has \<open>fork\<close> true, and the host has
  no session file (none, or an empty path), the call returns the fork error before the
  dispatch on the mode, whatever the mode, with no result and no process started; an
  entry of the request with \<open>fork\<close> true or absent gives such an item; a request that
  does not normalise is rejected there too. With a session file, or without any forked
  item, the call reaches the branch of its mode.
\<close>

theorem fork_requires_session:
  "(normalizeTaskParams params (to_maxParallelTasks options) = Inr n
      \<and> list_ex i_fork (n_items n) \<and> \<not> truthy (h_sessionFile host)
     \<longrightarrow> execute host options params
           = Inl \<lparr>t_text = JStr (''Forked tasks require a persisted session file. ''
                      @ ''Set fork: false or start pi with sessions enabled.''),
                  t_mode = n_mode n, t_modelOverride = n_model n, t_results = [],
                  t_isError = False\<rparr>)
   \<and> (normalizeTaskParams params (to_maxParallelTasks options) = Inr n
      \<and> list_ex asksFork (rawTasksOf params) \<longrightarrow> list_ex i_fork (n_items n))
   \<and> (list_ex asksFork (rawTasksOf params) \<and> \<not> truthy (h_sessionFile host)
     \<longrightarrow> (\<exists>result. execute host options params = Inl result \<and> t_results result = []))
   \<and> (normalizeTaskParams params (to_maxParallelTasks options) = Inr n
      \<and> (\<not> list_ex i_fork (n_items n) \<or> truthy (h_sessionFile host))
     \<longrightarrow> (\<exists>cc. execute host options params = Inr cc \<and> cc_normalized cc = n
             \<and> cc_sessionFile cc
                 = (if list_ex i_fork (n_items n) then h_sessionFile host else None)))"
proof (intro conjI impI)
  assume "normalizeTaskParams params (to_maxParallelTasks options) = Inr n
      \<and> list_ex i_fork (n_items n) \<and> \<not> truthy (h_sessionFile host)"
  then show "execute host options params
           = Inl \<lparr>t_text = JStr (''Forked tasks require a persisted session file. ''
                      @ ''Set fork: false or start pi with sessions enabled.''),
                  t_mode = n_mode n, t_modelOverride = n_model n, t_results = [],
                  t_isError = False\<rparr>"
    by (simp add: execute_def makeDetails_def Let_def)
next
  assume "normalizeTaskParams params (to_maxParallelTasks options) = Inr n
      \<and> list_ex asksFork (rawTasksOf params)"
  then show "list_ex i_fork (n_items n)" using normalized_fork by blast
next
  assume a: "list_ex asksFork (rawTasksOf params) \<and> \<not> truthy (h_sessionFile host)"
  show "\<exists>result. execute host options params = Inl result \<and> t_results result = []"
  proof (cases "normalizeTaskParams params (to_maxParallelTasks options)")
    case (Inl error)
    then show ?thesis by (simp add: execute_def)
  next
    case (Inr m)
    with a have "list_ex i_fork (n_items m)" using normalized_fork by blast
    with a Inr show ?thesis by (simp add: execute_def makeDetails_def Let_def)
  qed
next
  assume "normalizeTaskParams params (to_maxParallelTasks options) = Inr n
      \<and> (\<not> list_ex i_fork (n_items n) \<or> truthy (h_sessionFile host))"
  then show "\<exists>cc. execute host options params = Inr cc \<and> cc_normalized cc = n
             \<and> cc_sessionFile cc
                 = (if list_ex i_fork (n_items n) then h_sessionFile host else None)"
    by (auto simp: execute_def Let_def)
qed

theorem fork_requires_session_witness:
  "normalizeTaskParams forkChain (to_maxParallelTasks exampleToolOptions)
     = Inr \<lparr>n_mode = Chain, n_model = None, n_thinking = ''inherit'',
            n_items = [exampleItem, exampleItem\<lparr>i_prompt := ''there'', i_fork := True\<rparr>]\<rparr>
   \<and> list_ex asksFork (rawTasksOf forkChain)
   \<and> list_ex i_fork [exampleItem, exampleItem\<lparr>i_prompt := ''there'', i_fork := True\<rparr>]
   \<and> \<not> truthy (h_sessionFile exampleHost)
   \<and> execute exampleHost exampleToolOptions forkChain
       = Inl \<lparr>t_text = JStr (''Forked tasks require a persisted session file. ''
                  @ ''Set fork: false or start pi with sessions enabled.''),
              t_mode = Chain, t_modelOverride = None, t_results = [], t_isError = False\<rparr>
   \<and> (\<exists>cc. execute (exampleHost\<lparr>h_sessionFile := Some ''s.jsonl''\<rparr>) exampleToolOptions forkChain
           = Inr cc \<and> cc_sessionFile cc = Some ''s.jsonl'')"
proof -
  let ?n = "\<lparr>n_mode = Chain, n_model = None, n_thinking = ''inherit'',
            n_items = [exampleItem, exampleItem\<lparr>i_prompt := ''there'', i_fork := True\<rparr>]\<rparr>"
  have mx: "to_maxParallelTasks exampleToolOptions = 8"
    by (simp add: exampleToolOptions_def MAX_PARALLEL_TASKS_def)
  have n: "normalizeTaskParams forkChain (to_maxParallelTasks exampleToolOptions) = Inr ?n"
    unfolding mx
    by (simp add: normalizeTaskParams_def forkChain_def parseTaskItems_def parseTaskItem_def
        trim_samples trim_blank_samples exampleItem_def)
  have ask: "list_ex asksFork (rawTasksOf forkChain)"
    by (simp add: rawTasksOf_def forkChain_def asksFork_def)
  have nf: "\<not> truthy (h_sessionFile exampleHost)" by (simp add: exampleHost_def)
  note inst = fork_requires_session [where params = forkChain and options = exampleToolOptions
      and host = exampleHost and n = ?n]
  from inst n ask have f: "list_ex i_fork (n_items ?n)" by blast
  from inst n f nf have x: "execute exampleHost exampleToolOptions forkChain
       = Inl \<lparr>t_text = JStr (''Forked tasks require a persisted session file. ''
                  @ ''Set fork: false or start pi with sessions enabled.''),
              t_mode = n_mode ?n, t_modelOverride = n_model ?n, t_results = [],
              t_isError = False\<rparr>"
    by blast
  have n2: "normalizeTaskParams forkChain
       (to_maxParallelTasks exampleToolOptions) = Inr ?n"
    by (rule n)
  have s: "truthy (h_sessionFile (exampleHost\<lparr>h_sessionFile := Some ''s.jsonl''\<rparr>))" by simp
  note inst2 = fork_requires_session [where params = forkChain and options = exampleToolOptions
      and host = "exampleHost\<lparr>h_sessionFile := Some ''s.jsonl''\<rparr>" and n = ?n]
  from inst2 n2 s f
  have y: "\<exists>cc. execute (exampleHost\<lparr>h_sessionFile := Some ''s.jsonl''\<rparr>) exampleToolOptions
             forkChain = Inr cc \<and> cc_sessionFile cc = Some ''s.jsonl''"
    by auto
  from n ask f nf x y show ?thesis by simp
qed

section \<open>Chain mode stops at the first failure\<close>

lemma chainSteps_Cons_cases:
  assumes "chainSteps world host options cc (item # rest) index skillState results previousOutput
             attempts = Inr (res, attempts')"
  obtains
    (config) error where
      "resolveTaskConfig item (n_model (cc_normalized cc)) (n_thinking (cc_normalized cc))
         (cc_inheritedThinking cc) (cc_ctxModel cc) (cc_builtInTools cc) = Inl error"
      "res = makeDetails (cc_normalized cc) (JStr error) results False" "attempts' = attempts"
  | (skill) error skillState' where
      "buildSubprocessPrompt (h_readFile host)
         (item\<lparr>i_prompt := buildChainPrompt (i_prompt item) (jsString host previousOutput)\<rparr>)
         skillState (to_skillListLimit options) = (Inl error, skillState')"
      "res = makeDetails (cc_normalized cc) (JStr error) results False" "attempts' = attempts"
  | (failed) result spawned shown where
      "isTaskError result"
      "res = makeDetails (cc_normalized cc) shown (results[index := result]) True"
      "attempts' = attempts @ [(index + 1, spawned)]"
  | (continue) result spawned skillState' out where
      "\<not> isTaskError result"
      "chainSteps world host options cc rest (index + 1) skillState' (results[index := result])
         out (attempts @ [(index + 1, spawned)]) = Inr (res, attempts')"
  using assms
  by (auto simp: Let_def split: sum.splits prod.splits option.splits if_splits)

lemma chainSteps_inv:
  assumes "chainSteps world host options cc items index skillState results previousOutput attempts
             = Inr (res, attempts')"
    and "length results = index + length items"
  shows "\<exists>k new. k \<le> length items \<and> attempts' = attempts @ new
      \<and> map fst new = [index + 1 ..< index + k + 1]
      \<and> length (t_results res) = length results
      \<and> (\<forall>j. j < index \<or> index + k \<le> j \<longrightarrow> t_results res ! j = results ! j)
      \<and> (\<forall>j. index \<le> j \<and> j + 1 < index + k \<longrightarrow> \<not> isTaskError (t_results res ! j))
      \<and> (t_isError res \<longleftrightarrow> (0 < k \<and> isTaskError (t_results res ! (index + k - 1))))
      \<and> (\<not> t_isError res \<and> k < length items \<longrightarrow>
           (\<exists>error. t_text res = JStr error
              \<and> (resolveTaskConfig (items ! k) (n_model (cc_normalized cc))
                    (n_thinking (cc_normalized cc)) (cc_inheritedThinking cc) (cc_ctxModel cc)
                    (cc_builtInTools cc) = Inl error
                 \<or> (\<exists>prompt state. fst (buildSubprocessPrompt (h_readFile host)
                        ((items ! k)\<lparr>i_prompt := prompt\<rparr>) state (to_skillListLimit options))
                      = Inl error))))"
  using assms
proof (induction items arbitrary: index skillState results previousOutput attempts)
  case Nil
  then have "res = makeDetails (cc_normalized cc) (t_text res) results False" "attempts' = attempts"
    by (auto simp: makeDetails_def split: if_splits sum.splits)
  then have "t_results res = results" "\<not> t_isError res"
    by (simp_all add: makeDetails_def) (metis ToolResult.select_convs(4), metis ToolResult.select_convs(5))
  with \<open>attempts' = attempts\<close> show ?case
    by (intro exI [of _ 0] exI [of _ "[]"]) auto
next
  case (Cons item rest)
  from Cons.prems(2) have idx: "index < length results" by simp
  from Cons.prems(1) show ?case
  proof (cases rule: chainSteps_Cons_cases)
    case (config error)
    then show ?thesis
      by (intro exI [of _ 0] exI [of _ "[]"]) (auto simp: makeDetails_def)
  next
    case (skill error skillState')
    have ex: "\<exists>prompt state. fst (buildSubprocessPrompt (h_readFile host)
         (item\<lparr>i_prompt := prompt\<rparr>) state (to_skillListLimit options)) = Inl error"
      using skill(1)
      by (intro exI [of _ "buildChainPrompt (i_prompt item) (jsString host previousOutput)"]
          exI [of _ skillState]) simp
    have r: "t_text res = JStr error" "t_results res = results" "\<not> t_isError res"
      using skill(2) by (simp_all add: makeDetails_def)
    show ?thesis
    proof (intro exI [of _ 0] exI [of _ "[]"] conjI)
      show "\<not> t_isError res \<and> 0 < length (item # rest) \<longrightarrow>
           (\<exists>error. t_text res = JStr error
              \<and> (resolveTaskConfig ((item # rest) ! 0) (n_model (cc_normalized cc))
                    (n_thinking (cc_normalized cc)) (cc_inheritedThinking cc) (cc_ctxModel cc)
                    (cc_builtInTools cc) = Inl error
                 \<or> (\<exists>prompt state. fst (buildSubprocessPrompt (h_readFile host)
                        (((item # rest) ! 0)\<lparr>i_prompt := prompt\<rparr>) state
                        (to_skillListLimit options))
                      = Inl error)))"
        using ex r(1) by simp
    qed (use r skill(3) in auto)
  next
    case (failed result spawned shown)
    with idx show ?thesis
      by (intro exI [of _ 1] exI [of _ "[(index + 1, spawned)]"]) (auto simp: makeDetails_def)
  next
    case (continue result spawned skillState' out)
    let ?done = "results[index := result]"
    from Cons.prems(2) have len: "length ?done = (index + 1) + length rest" by simp
    from Cons.IH [OF continue(2) len] obtain k new where
      k: "k \<le> length rest"
      and att: "attempts' = (attempts @ [(index + 1, spawned)]) @ new"
      and fsts: "map fst new = [index + 1 + 1 ..< index + 1 + k + 1]"
      and lres: "length (t_results res) = length ?done"
      and same: "\<forall>j. j < index + 1 \<or> index + 1 + k \<le> j \<longrightarrow> t_results res ! j = ?done ! j"
      and ok: "\<forall>j. index + 1 \<le> j \<and> j + 1 < index + 1 + k \<longrightarrow> \<not> isTaskError (t_results res ! j)"
      and err: "t_isError res \<longleftrightarrow> (0 < k \<and> isTaskError (t_results res ! (index + 1 + k - 1)))"
      and last: "\<not> t_isError res \<and> k < length rest \<longrightarrow>
           (\<exists>error. t_text res = JStr error
              \<and> (resolveTaskConfig (rest ! k) (n_model (cc_normalized cc))
                    (n_thinking (cc_normalized cc)) (cc_inheritedThinking cc) (cc_ctxModel cc)
                    (cc_builtInTools cc) = Inl error
                 \<or> (\<exists>prompt state. fst (buildSubprocessPrompt (h_readFile host)
                        ((rest ! k)\<lparr>i_prompt := prompt\<rparr>) state (to_skillListLimit options))
                      = Inl error)))"
      by blast
    from same idx have here: "t_results res ! index = result" by simp
    show ?thesis
    proof (intro exI [of _ "Suc k"] exI [of _ "(index + 1, spawned) # new"] conjI)
      show "Suc k \<le> length (item # rest)" using k by simp
      show "attempts' = attempts @ (index + 1, spawned) # new" using att by simp
      show "map fst ((index + 1, spawned) # new) = [index + 1..<index + Suc k + 1]"
        using fsts by (simp add: upt_rec [of "Suc index"])
      show "length (t_results res) = length results" using lres by simp
      show "\<forall>j. j < index \<or> index + Suc k \<le> j \<longrightarrow> t_results res ! j = results ! j"
        using same by auto
      show "\<forall>j. index \<le> j \<and> j + 1 < index + Suc k \<longrightarrow> \<not> isTaskError (t_results res ! j)"
      proof (intro allI impI)
        fix j assume j: "index \<le> j \<and> j + 1 < index + Suc k"
        show "\<not> isTaskError (t_results res ! j)"
        proof (cases "j = index")
          case True
          with here continue(1) show ?thesis by simp
        next
          case False
          with j ok show ?thesis by simp
        qed
      qed
      show "t_isError res \<longleftrightarrow> (0 < Suc k \<and> isTaskError (t_results res ! (index + Suc k - 1)))"
      proof (cases "k = 0")
        case True
        with err here continue(1) show ?thesis by simp
      next
        case False
        with err show ?thesis by simp
      qed
      show "\<not> t_isError res \<and> Suc k < length (item # rest) \<longrightarrow>
           (\<exists>error. t_text res = JStr error
              \<and> (resolveTaskConfig ((item # rest) ! Suc k) (n_model (cc_normalized cc))
                    (n_thinking (cc_normalized cc)) (cc_inheritedThinking cc) (cc_ctxModel cc)
                    (cc_builtInTools cc) = Inl error
                 \<or> (\<exists>prompt state. fst (buildSubprocessPrompt (h_readFile host)
                        (((item # rest) ! Suc k)\<lparr>i_prompt := prompt\<rparr>) state
                        (to_skillListLimit options))
                      = Inl error)))"
        using last by simp
    qed
  qed
qed


lemma chain_example_context:
  "execute exampleHost exampleToolOptions chainRequest = Inr chainContext"
proof -
  have mx: "to_maxParallelTasks exampleToolOptions = 8"
    by (simp add: exampleToolOptions_def MAX_PARALLEL_TASKS_def)
  have t: "trim ''find X'' = ''find X''" "trim ''summarize: {previous}'' = ''summarize: {previous}''"
    "trim ''report'' = ''report''"
    by (simp_all add: trim_def stripSeqs.simps whiteSpaceSeqs_def)
  have n: "normalizeTaskParams chainRequest 8
      = Inr \<lparr>n_mode = Chain, n_model = None, n_thinking = ''inherit'', n_items = chainItems\<rparr>"
    by (simp add: normalizeTaskParams_def chainRequest_def parseTaskItems_def parseTaskItem_def
        t chainItems_def exampleItem_def)
  show ?thesis
    by (simp add: execute_def mx n Let_def chainContext_def chainItems_def exampleItem_def
        exampleHost_def getBuiltInToolsFromActiveTools_def)
qed

lemma chain_example_config:
  "resolveTaskConfig (exampleItem\<lparr>i_prompt := p\<rparr>) None ''inherit'' ''low'' None []
     = Inr \<lparr>c_thinkingLevel = ''low'', c_subprocessArgs = chainArgs, c_modelLabel = None\<rparr>"
  by (simp add: resolveTaskConfig_def resolveModel_def orElse_def buildSubprocessArgs_def
      resolveThinkingLevel_def exampleItem_def chainArgs_def Let_def)

lemma chain_example_prompts:
  "buildChainPrompt ''find X'' [] = ''find X''"
  "buildChainPrompt ''summarize: {previous}'' ''X is here'' = ''summarize: X is here''"
  "buildPendingPrompt ''find X'' = ''find X''"
  "buildPendingPrompt ''report'' = ''report''"
  by (simp_all add: buildChainPrompt_def buildPendingPrompt_def replacePrevious.simps)

lemma chain_example_output: "getFinalOutput [foundMessage] = Inr (Some (JStr ''X is here''))"
  by (simp add: getFinalOutput_def foundMessage_def iterate_def)

lemma chain_example_run1:
  assumes "index = Some 1"
  shows "runSingleTask chainWorld
     \<lparr>o_item = exampleItem\<lparr>i_prompt := ''find X''\<rparr>, o_subprocessPrompt = ''find X'',
      o_index = index, o_subprocessArgs = chainArgs, o_modelLabel = None, o_thinking = ''low'',
      o_fork = False, o_sessionFile = None,
      o_onResultUpdate = chainUpdate (Some hostUpdate) rs i\<rparr>
   = Inr (foundResult, [chainArgs @ [''find X'']])"
proof -
  have s: "splitNL (foundLine @ [CHR 0x0A]) = [foundLine, []]" by (simp add: foundLine_def)
  have t: "trim foundLine \<noteq> []" "trim [] = []"
    by (simp_all add: foundLine_def trim_def stripSeqs.simps whiteSpaceSeqs_def)
  have h: "handleEventMessage r foundMessage
      = Inr (r\<lparr>r_messages := r_messages r @ [foundMessage],
               r_usage := (r_usage r)\<lparr>u_turns := u_turns (r_usage r) + 1, u_contextTokens := 0\<rparr>\<rparr>)" for r
    by (simp add: handleEventMessage_def applyAssistantUsage_def foundMessage_def numberOr0_def
        stringField_def Let_def)
  have pl: "processLine (w_jsonParse chainWorld) (chainUpdate (Some hostUpdate) rs i) r foundLine
      = Inr (r\<lparr>r_messages := r_messages r @ [foundMessage],
               r_usage := (r_usage r)\<lparr>u_turns := u_turns (r_usage r) + 1, u_contextTokens := 0\<rparr>\<rparr>)" for r
    by (simp add: processLine_def parseJsonLine_def t chainWorld_def h [unfolded foundMessage_def]
        foundMessage_def emitUpdate_def chainUpdate_def hostUpdate_def Let_def)
      (simp add: getFinalOutput_def iterate_def hostUpdate_def)
  have wp: "w_process chainWorld (Some 1) args = [Stdout (foundLine @ [CHR 0x0A]), Close (Some 0)]"
    "w_process chainWorld (Some (Suc 0)) args = [Stdout (foundLine @ [CHR 0x0A]), Close (Some 0)]"
    for args
    by (simp_all add: chainWorld_def)
  show ?thesis
    unfolding assms
    by (simp add: runSingleTask_def initialResult_def applyForkSessionArgs_def Let_def wp s t pl
        resolvePromise_def exampleItem_def foundResult_def zeroUsage_def)
qed


lemma chain_example_run2:
  assumes "index = Some 2"
  shows "runSingleTask chainWorld
     \<lparr>o_item = exampleItem\<lparr>i_prompt := ''summarize: X is here''\<rparr>,
      o_subprocessPrompt = ''summarize: X is here'',
      o_index = index, o_subprocessArgs = chainArgs, o_modelLabel = None, o_thinking = ''low'',
      o_fork = False, o_sessionFile = None,
      o_onResultUpdate = chainUpdate (Some hostUpdate) rs i\<rparr>
   = Inr (failedResult, [chainArgs @ [''summarize: X is here'']])"
proof -
  have t: "trim [] = []" by (simp add: trim_def stripSeqs.simps whiteSpaceSeqs_def)
  have wp: "w_process chainWorld (Some 2) args = [Stderr ''boom'', Close (Some 1)]" for args
    by (simp add: chainWorld_def)
  show ?thesis
    unfolding assms
    by (simp add: runSingleTask_def initialResult_def applyForkSessionArgs_def Let_def wp t
        resolvePromise_def exampleItem_def failedResult_def zeroUsage_def)
qed

lemma chain_example_placeholders:
  "chainPlaceholders chainItems
     = [createPlaceholderResult (exampleItem\<lparr>i_prompt := ''find X''\<rparr>) (Some 1) None None (- 2),
        createPlaceholderResult
          (exampleItem\<lparr>i_prompt := buildPendingPrompt ''summarize: {previous}''\<rparr>) (Some 2)
          None None (- 2),
        pendingResult]"
  by (simp add: chainPlaceholders_def chainItems_def enumerate_eq_zip upt_rec
      chain_example_prompts createPlaceholderResult_def pendingResult_def exampleItem_def
      eval_nat_numeral)

lemma chain_example_run:
  "chainMode chainWorld exampleHost exampleToolOptions chainContext
     = Inr (\<lparr>t_text = JStr ''Chain stopped at step 2: boom'', t_mode = Chain,
             t_modelOverride = None, t_results = [foundResult, failedResult, pendingResult],
             t_isError = True\<rparr>,
            [(1, [chainArgs @ [''find X'']]), (2, [chainArgs @ [''summarize: X is here'']])])"
proof -
  have cc: "cc_normalized chainContext
      = \<lparr>n_mode = Chain, n_model = None, n_thinking = ''inherit'', n_items = chainItems\<rparr>"
    "cc_inheritedThinking chainContext = ''low''" "cc_ctxModel chainContext = None"
    "cc_builtInTools chainContext = []" "cc_sessionFile chainContext = None"
    by (simp_all add: chainContext_def)
  have h: "h_onUpdate exampleHost = Some hostUpdate"
    by (simp add: exampleHost_def)
  have it: "i_fork (exampleItem\<lparr>i_prompt := p\<rparr>) = False"
    "i_skill (exampleItem\<lparr>i_prompt := p\<rparr>) = None" for p
    by (simp_all add: exampleItem_def)
  have js: "jsString exampleHost (Some (JStr x)) = x" for x by (simp add: jsString_def)
  have su: "sendUpdate (Some hostUpdate) x rs = None" for x rs
    by (simp add: sendUpdate_def hostUpdate_def)
  have go0: "getFinalOutput [] = Inr (Some (JStr []))" by (simp add: getFinalOutput_def)
  have sd: "sendStepDone (Some hostUpdate) foundResult rs = None"
    "sendStepDone (Some hostUpdate) failedResult rs = None" for rs
    by (simp_all add: sendStepDone_def hostUpdate_def chain_example_output foundResult_def
        failedResult_def go0)
  have te: "isTaskError failedResult" "\<not> isTaskError foundResult"
    "getTaskErrorText failedResult = Inr (JStr ''boom'')"
    "getFinalOutput (r_messages foundResult) = Inr (Some (JStr ''X is here''))"
    by (simp_all add: isTaskError_def failedResult_def foundResult_def getTaskErrorText_def
        chain_example_output)
  have bp: "fst (buildSubprocessPrompt rf (exampleItem\<lparr>i_prompt := p\<rparr>) st lim) = Inr p"
    "buildSubprocessPrompt rf (exampleItem\<lparr>i_prompt := p\<rparr>) st lim = (Inr p, st)" for rf p st lim
    by (simp_all add: buildSubprocessPrompt_def exampleItem_def)
  have sn: "showNat (Suc (Suc 0)) = ''2''" by (simp add: showNat.simps)
  show ?thesis
    unfolding chainMode_def
    by (simp add: chainItems_def chain_example_placeholders [unfolded chainItems_def]
        cc h it js su sd te bp sn chain_example_config
        chain_example_prompts chain_example_run1 chain_example_run2 makeDetails_def Let_def)
qed

end
